theory Spec2Isabelle
  imports Main "HOL-Library.Word"
begin

section \<open>The protocol interface used by the generated code\<close>

text \<open>
  \<^verbatim>\<open>ThriftHive.py\<close> is written against the Thrift protocol interface: every struct
  writes itself through calls such as \<^verbatim>\<open>oprot.writeFieldBegin('query', TType.STRING, 1)\<close>
  and reads itself back through the matching \<^verbatim>\<open>iprot.read...\<close> calls. The protocol
  object is a collaborator from the Thrift runtime. It is modelled as a channel of
  protocol events: each write call appends one event, each read call consumes the
  event of its own kind and raises on any other event or at the end of the input.
  The model follows the pure Python path of \<^verbatim>\<open>read\<close> and \<^verbatim>\<open>write\<close>, the one taken
  when \<^verbatim>\<open>fastbinary\<close> is \<^verbatim>\<open>None\<close>.
\<close>

datatype ttype =
  T_STOP | T_VOID | T_BOOL | T_BYTE | T_DOUBLE | T_I16 | T_I32 | T_I64
  | T_STRING | T_STRUCT | T_MAP | T_SET | T_LIST

datatype mtype = CALL | REPLY | EXCEPTION

datatype token =
    MessageBegin string mtype int
  | MessageEnd
  | StructBegin string
  | StructEnd
  | FieldBegin string ttype int
  | FieldEnd
  | FieldStop
  | MapBegin ttype ttype int
  | MapEnd
  | SetBegin ttype int
  | SetEnd
  | ListBegin ttype int
  | ListEnd
  | TBool bool
  | TByte "8 word"
  | TI16 "16 word"
  | TI32 "32 word"
  | TI64 "64 word"
  | TDouble "64 word"
  | TString string
  | Flush

subsection \<open>Exceptions\<close>

text \<open>
  Modelled from the spec: \<^verbatim>\<open>HiveServerException\<close> is declared in \<^verbatim>\<open>ttypes.py\<close>, which
  is not among the sources; it is the single declared exception struct carried in the
  \<^verbatim>\<open>ex\<close> field of every result. It is taken as the generated struct with one optional
  string field \<^verbatim>\<open>message\<close> under tag 1.
\<close>

record HiveServerException =
  hse_message :: "string option"

text \<open>
  \<^verbatim>\<open>TApplicationException\<close> of the Thrift runtime: a reason code \<^verbatim>\<open>type\<close> (default
  \<^verbatim>\<open>UNKNOWN\<close>) and an optional message.
\<close>

record TApplicationException =
  tapp_type :: int
  tapp_message :: "string option"

definition UNKNOWN :: int where "UNKNOWN = 0"
definition UNKNOWN_METHOD :: int where "UNKNOWN_METHOD = 1"
definition INVALID_MESSAGE_TYPE :: int where "INVALID_MESSAGE_TYPE = 2"
definition WRONG_METHOD_NAME :: int where "WRONG_METHOD_NAME = 3"
definition BAD_SEQUENCE_ID :: int where "BAD_SEQUENCE_ID = 4"
definition MISSING_RESULT :: int where "MISSING_RESULT = 5"

text \<open>
  Everything that can be raised: the declared service exception, the application
  exception of the RPC layer, a failure of the protocol or transport while reading
  (\<open>TransportError\<close>), the rejection of a value that does not fit the 32-bit integer
  format (\<open>PackError\<close>), and any other exception a handler raises (\<open>OtherError\<close>,
  with a tag to tell such exceptions apart).
\<close>

datatype exn =
    HiveServerExn HiveServerException
  | TApplicationExn TApplicationException
  | TransportError
  | PackError
  | OtherError string

subsection \<open>Write calls\<close>

definition writeMessageBegin :: "string \<Rightarrow> mtype \<Rightarrow> int \<Rightarrow> token list" where
  "writeMessageBegin name ty seqid = [MessageBegin name ty seqid]"

definition writeMessageEnd :: "token list" where
  "writeMessageEnd = [MessageEnd]"

definition writeStructBegin :: "string \<Rightarrow> token list" where
  "writeStructBegin name = [StructBegin name]"

definition writeStructEnd :: "token list" where
  "writeStructEnd = [StructEnd]"

definition writeFieldBegin :: "string \<Rightarrow> ttype \<Rightarrow> int \<Rightarrow> token list" where
  "writeFieldBegin name ty fid = [FieldBegin name ty fid]"

definition writeFieldEnd :: "token list" where
  "writeFieldEnd = [FieldEnd]"

definition writeFieldStop :: "token list" where
  "writeFieldStop = [FieldStop]"

definition writeListBegin :: "ttype \<Rightarrow> int \<Rightarrow> token list" where
  "writeListBegin etype sz = [ListBegin etype sz]"

definition writeListEnd :: "token list" where
  "writeListEnd = [ListEnd]"

definition writeString :: "string \<Rightarrow> token list" where
  "writeString s = [TString s]"

text \<open>
  \<^verbatim>\<open>writeI32\<close> packs a Python integer into four bytes; a value outside the signed
  32-bit range is rejected by the packing and nothing is written. A writer that can
  raise returns what it has written so far together with the exception, if any.
\<close>

definition writeI32 :: "int \<Rightarrow> token list \<times> exn option" where
  "writeI32 i =
     (if - (2 ^ 31) \<le> i \<and> i < 2 ^ 31 then ([TI32 (word_of_int i)], None)
      else ([], Some PackError))"

text \<open>\<^verbatim>\<open>oprot.trans.flush()\<close>\<close>

definition flush :: "token list" where
  "flush = [Flush]"

subsection \<open>Read calls\<close>

fun readMessageBegin :: "token list \<Rightarrow> exn + ((string \<times> mtype \<times> int) \<times> token list)" where
  "readMessageBegin (MessageBegin name ty seqid # ts) = Inr ((name, ty, seqid), ts)"
| "readMessageBegin _ = Inl TransportError"

fun readMessageEnd :: "token list \<Rightarrow> exn + token list" where
  "readMessageEnd (MessageEnd # ts) = Inr ts"
| "readMessageEnd _ = Inl TransportError"

fun readStructBegin :: "token list \<Rightarrow> exn + token list" where
  "readStructBegin (StructBegin name # ts) = Inr ts"
| "readStructBegin _ = Inl TransportError"

fun readStructEnd :: "token list \<Rightarrow> exn + token list" where
  "readStructEnd (StructEnd # ts) = Inr ts"
| "readStructEnd _ = Inl TransportError"

text \<open>
  \<^verbatim>\<open>readFieldBegin\<close> returns the triple (name, type, id); at the stop marker the type
  is \<^verbatim>\<open>TType.STOP\<close>, the name is empty and the id is 0.
\<close>

fun readFieldBegin :: "token list \<Rightarrow> exn + ((string \<times> ttype \<times> int) \<times> token list)" where
  "readFieldBegin (FieldBegin name ty fid # ts) = Inr ((name, ty, fid), ts)"
| "readFieldBegin (FieldStop # ts) = Inr (([], T_STOP, 0), ts)"
| "readFieldBegin _ = Inl TransportError"

fun readFieldEnd :: "token list \<Rightarrow> exn + token list" where
  "readFieldEnd (FieldEnd # ts) = Inr ts"
| "readFieldEnd _ = Inl TransportError"

fun readMapBegin :: "token list \<Rightarrow> exn + ((ttype \<times> ttype \<times> int) \<times> token list)" where
  "readMapBegin (MapBegin ktype vtype sz # ts) = Inr ((ktype, vtype, sz), ts)"
| "readMapBegin _ = Inl TransportError"

fun readMapEnd :: "token list \<Rightarrow> exn + token list" where
  "readMapEnd (MapEnd # ts) = Inr ts"
| "readMapEnd _ = Inl TransportError"

fun readSetBegin :: "token list \<Rightarrow> exn + ((ttype \<times> int) \<times> token list)" where
  "readSetBegin (SetBegin etype sz # ts) = Inr ((etype, sz), ts)"
| "readSetBegin _ = Inl TransportError"

fun readSetEnd :: "token list \<Rightarrow> exn + token list" where
  "readSetEnd (SetEnd # ts) = Inr ts"
| "readSetEnd _ = Inl TransportError"

fun readListBegin :: "token list \<Rightarrow> exn + ((ttype \<times> int) \<times> token list)" where
  "readListBegin (ListBegin etype sz # ts) = Inr ((etype, sz), ts)"
| "readListBegin _ = Inl TransportError"

fun readListEnd :: "token list \<Rightarrow> exn + token list" where
  "readListEnd (ListEnd # ts) = Inr ts"
| "readListEnd _ = Inl TransportError"

fun readBool :: "token list \<Rightarrow> exn + (bool \<times> token list)" where
  "readBool (TBool b # ts) = Inr (b, ts)"
| "readBool _ = Inl TransportError"

fun readByte :: "token list \<Rightarrow> exn + (int \<times> token list)" where
  "readByte (TByte w # ts) = Inr (sint w, ts)"
| "readByte _ = Inl TransportError"

fun readI16 :: "token list \<Rightarrow> exn + (int \<times> token list)" where
  "readI16 (TI16 w # ts) = Inr (sint w, ts)"
| "readI16 _ = Inl TransportError"

fun readI32 :: "token list \<Rightarrow> exn + (int \<times> token list)" where
  "readI32 (TI32 w # ts) = Inr (sint w, ts)"
| "readI32 _ = Inl TransportError"

fun readI64 :: "token list \<Rightarrow> exn + (int \<times> token list)" where
  "readI64 (TI64 w # ts) = Inr (sint w, ts)"
| "readI64 _ = Inl TransportError"

fun readDouble :: "token list \<Rightarrow> exn + (64 word \<times> token list)" where
  "readDouble (TDouble w # ts) = Inr (w, ts)"
| "readDouble _ = Inl TransportError"

fun readString :: "token list \<Rightarrow> exn + (string \<times> token list)" where
  "readString (TString s # ts) = Inr (s, ts)"
| "readString _ = Inl TransportError"

subsection \<open>Skipping a value of a given wire type\<close>

text \<open>
  \<^verbatim>\<open>iprot.skip(ftype)\<close> of the protocol base class reads and discards one value of
  the given type: a scalar by its read call, a struct field by field up to the stop
  marker, a map, set or list element by element \<^verbatim>\<open>for i in range(size)\<close>; for any
  other type code it reads nothing. The recursion of \<^verbatim>\<open>skip\<close> is kept as a list of
  pending work, so that the function is total: \<open>Skip ty\<close> is a pending call
  \<^verbatim>\<open>skip(ty)\<close>, \<open>SkipFields\<close> the field loop of a struct, \<open>Repeat n tys\<close> the
  remaining \<open>n\<close> rounds of a container loop whose body skips the types \<open>tys\<close>, and
  the \<open>End\<close> items the closing read call of a struct, field or container.
\<close>

datatype task =
    Skip ttype
  | SkipFields
  | Repeat nat "ttype list"
  | EndStruct
  | EndField
  | EndMap
  | EndSet
  | EndList

fun weight :: "task \<Rightarrow> nat" where
  "weight (Repeat n tys) = Suc (n * Suc (length tys))"
| "weight _ = 1"

lemma readMessageBegin_length:
  "readMessageBegin ts = Inr (x, r) \<Longrightarrow> length r < length ts"
  by (induction ts rule: readMessageBegin.induct) auto

lemma readMessageEnd_length: "readMessageEnd ts = Inr r \<Longrightarrow> length r < length ts"
  by (induction ts rule: readMessageEnd.induct) auto

lemma readStructBegin_length: "readStructBegin ts = Inr r \<Longrightarrow> length r < length ts"
  by (induction ts rule: readStructBegin.induct) auto

lemma readStructEnd_length: "readStructEnd ts = Inr r \<Longrightarrow> length r < length ts"
  by (induction ts rule: readStructEnd.induct) auto

lemma readFieldBegin_length: "readFieldBegin ts = Inr (x, r) \<Longrightarrow> length r < length ts"
  by (induction ts rule: readFieldBegin.induct) auto

lemma readFieldEnd_length: "readFieldEnd ts = Inr r \<Longrightarrow> length r < length ts"
  by (induction ts rule: readFieldEnd.induct) auto

lemma readMapBegin_length: "readMapBegin ts = Inr (x, r) \<Longrightarrow> length r < length ts"
  by (induction ts rule: readMapBegin.induct) auto

lemma readMapEnd_length: "readMapEnd ts = Inr r \<Longrightarrow> length r < length ts"
  by (induction ts rule: readMapEnd.induct) auto

lemma readSetBegin_length: "readSetBegin ts = Inr (x, r) \<Longrightarrow> length r < length ts"
  by (induction ts rule: readSetBegin.induct) auto

lemma readSetEnd_length: "readSetEnd ts = Inr r \<Longrightarrow> length r < length ts"
  by (induction ts rule: readSetEnd.induct) auto

lemma readListBegin_length: "readListBegin ts = Inr (x, r) \<Longrightarrow> length r < length ts"
  by (induction ts rule: readListBegin.induct) auto

lemma readListEnd_length: "readListEnd ts = Inr r \<Longrightarrow> length r < length ts"
  by (induction ts rule: readListEnd.induct) auto

lemma readBool_length: "readBool ts = Inr (x, r) \<Longrightarrow> length r < length ts"
  by (induction ts rule: readBool.induct) auto

lemma readByte_length: "readByte ts = Inr (x, r) \<Longrightarrow> length r < length ts"
  by (induction ts rule: readByte.induct) auto

lemma readI16_length: "readI16 ts = Inr (x, r) \<Longrightarrow> length r < length ts"
  by (induction ts rule: readI16.induct) auto

lemma readI32_length: "readI32 ts = Inr (x, r) \<Longrightarrow> length r < length ts"
  by (induction ts rule: readI32.induct) auto

lemma readI64_length: "readI64 ts = Inr (x, r) \<Longrightarrow> length r < length ts"
  by (induction ts rule: readI64.induct) auto

lemma readDouble_length: "readDouble ts = Inr (x, r) \<Longrightarrow> length r < length ts"
  by (induction ts rule: readDouble.induct) auto

lemma readString_length: "readString ts = Inr (x, r) \<Longrightarrow> length r < length ts"
  by (induction ts rule: readString.induct) auto

lemmas read_length =
  readMessageBegin_length readMessageEnd_length readStructBegin_length readStructEnd_length
  readFieldBegin_length readFieldEnd_length readMapBegin_length readMapEnd_length
  readSetBegin_length readSetEnd_length readListBegin_length readListEnd_length
  readBool_length readByte_length readI16_length readI32_length readI64_length
  readDouble_length readString_length

lemma sum_list_weight_Skip: "sum_list (map (weight \<circ> Skip) tys) = length tys"
  by (induction tys) auto

function skip_run :: "task list \<Rightarrow> token list \<Rightarrow> exn + token list" where
  "skip_run [] ts = Inr ts"
| "skip_run (Skip ty # k) ts =
     (if ty = T_STOP then skip_run k ts
      else if ty = T_BOOL then
        (case readBool ts of Inl e \<Rightarrow> Inl e | Inr (v, r) \<Rightarrow> skip_run k r)
      else if ty = T_BYTE then
        (case readByte ts of Inl e \<Rightarrow> Inl e | Inr (v, r) \<Rightarrow> skip_run k r)
      else if ty = T_I16 then
        (case readI16 ts of Inl e \<Rightarrow> Inl e | Inr (v, r) \<Rightarrow> skip_run k r)
      else if ty = T_I32 then
        (case readI32 ts of Inl e \<Rightarrow> Inl e | Inr (v, r) \<Rightarrow> skip_run k r)
      else if ty = T_I64 then
        (case readI64 ts of Inl e \<Rightarrow> Inl e | Inr (v, r) \<Rightarrow> skip_run k r)
      else if ty = T_DOUBLE then
        (case readDouble ts of Inl e \<Rightarrow> Inl e | Inr (v, r) \<Rightarrow> skip_run k r)
      else if ty = T_STRING then
        (case readString ts of Inl e \<Rightarrow> Inl e | Inr (v, r) \<Rightarrow> skip_run k r)
      else if ty = T_STRUCT then
        (case readStructBegin ts of Inl e \<Rightarrow> Inl e
         | Inr r \<Rightarrow> skip_run (SkipFields # EndStruct # k) r)
      else if ty = T_MAP then
        (case readMapBegin ts of Inl e \<Rightarrow> Inl e
         | Inr ((ktype, vtype, sz), r) \<Rightarrow>
             skip_run (Repeat (nat sz) [ktype, vtype] # EndMap # k) r)
      else if ty = T_SET then
        (case readSetBegin ts of Inl e \<Rightarrow> Inl e
         | Inr ((etype, sz), r) \<Rightarrow> skip_run (Repeat (nat sz) [etype] # EndSet # k) r)
      else if ty = T_LIST then
        (case readListBegin ts of Inl e \<Rightarrow> Inl e
         | Inr ((etype, sz), r) \<Rightarrow> skip_run (Repeat (nat sz) [etype] # EndList # k) r)
      else skip_run k ts)"
| "skip_run (SkipFields # k) ts =
     (case readFieldBegin ts of Inl e \<Rightarrow> Inl e
      | Inr ((name, ty, fid), r) \<Rightarrow>
          if ty = T_STOP then skip_run k r
          else skip_run (Skip ty # EndField # SkipFields # k) r)"
| "skip_run (Repeat 0 tys # k) ts = skip_run k ts"
| "skip_run (Repeat (Suc n) tys # k) ts = skip_run (map Skip tys @ Repeat n tys # k) ts"
| "skip_run (EndStruct # k) ts =
     (case readStructEnd ts of Inl e \<Rightarrow> Inl e | Inr r \<Rightarrow> skip_run k r)"
| "skip_run (EndField # k) ts =
     (case readFieldEnd ts of Inl e \<Rightarrow> Inl e | Inr r \<Rightarrow> skip_run k r)"
| "skip_run (EndMap # k) ts =
     (case readMapEnd ts of Inl e \<Rightarrow> Inl e | Inr r \<Rightarrow> skip_run k r)"
| "skip_run (EndSet # k) ts =
     (case readSetEnd ts of Inl e \<Rightarrow> Inl e | Inr r \<Rightarrow> skip_run k r)"
| "skip_run (EndList # k) ts =
     (case readListEnd ts of Inl e \<Rightarrow> Inl e | Inr r \<Rightarrow> skip_run k r)"
  by pat_completeness auto

termination
  by (relation "measures [\<lambda>(k, ts). length ts, \<lambda>(k, ts). sum_list (map weight k)]")
     (auto dest: read_length simp: sum_list_weight_Skip)

definition skip :: "ttype \<Rightarrow> token list \<Rightarrow> exn + token list" where
  "skip ty ts = skip_run [Skip ty] ts"

declare skip_run.simps [simp del]

lemma readBool_Inr: "readBool ts = Inr (x, r) \<longleftrightarrow> ts = TBool x # r"
  by (cases ts rule: readBool.cases) auto
lemma readByte_Inr: "readByte ts = Inr (x, r) \<longleftrightarrow> (\<exists>w. ts = TByte w # r \<and> x = sint w)"
  by (cases ts rule: readByte.cases) auto
lemma readI16_Inr: "readI16 ts = Inr (x, r) \<longleftrightarrow> (\<exists>w. ts = TI16 w # r \<and> x = sint w)"
  by (cases ts rule: readI16.cases) auto
lemma readI32_Inr: "readI32 ts = Inr (x, r) \<longleftrightarrow> (\<exists>w. ts = TI32 w # r \<and> x = sint w)"
  by (cases ts rule: readI32.cases) auto
lemma readI64_Inr: "readI64 ts = Inr (x, r) \<longleftrightarrow> (\<exists>w. ts = TI64 w # r \<and> x = sint w)"
  by (cases ts rule: readI64.cases) auto
lemma readDouble_Inr: "readDouble ts = Inr (x, r) \<longleftrightarrow> ts = TDouble x # r"
  by (cases ts rule: readDouble.cases) auto
lemma readString_Inr: "readString ts = Inr (x, r) \<longleftrightarrow> ts = TString x # r"
  by (cases ts rule: readString.cases) auto
lemma readStructBegin_Inr: "readStructBegin ts = Inr r \<longleftrightarrow> (\<exists>n. ts = StructBegin n # r)"
  by (cases ts rule: readStructBegin.cases) auto
lemma readStructEnd_Inr: "readStructEnd ts = Inr r \<longleftrightarrow> ts = StructEnd # r"
  by (cases ts rule: readStructEnd.cases) auto
lemma readFieldBegin_Inr:
  "readFieldBegin ts = Inr ((n, ty, fid), r) \<longleftrightarrow>
     ts = FieldBegin n ty fid # r \<or> (ts = FieldStop # r \<and> n = [] \<and> ty = T_STOP \<and> fid = 0)"
  by (cases ts rule: readFieldBegin.cases) auto
lemma readFieldEnd_Inr: "readFieldEnd ts = Inr r \<longleftrightarrow> ts = FieldEnd # r"
  by (cases ts rule: readFieldEnd.cases) auto
lemma readMapBegin_Inr:
  "readMapBegin ts = Inr ((kt, vt, n), r) \<longleftrightarrow> ts = MapBegin kt vt n # r"
  by (cases ts rule: readMapBegin.cases) auto
lemma readMapEnd_Inr: "readMapEnd ts = Inr r \<longleftrightarrow> ts = MapEnd # r"
  by (cases ts rule: readMapEnd.cases) auto
lemma readSetBegin_Inr: "readSetBegin ts = Inr ((et, n), r) \<longleftrightarrow> ts = SetBegin et n # r"
  by (cases ts rule: readSetBegin.cases) auto
lemma readSetEnd_Inr: "readSetEnd ts = Inr r \<longleftrightarrow> ts = SetEnd # r"
  by (cases ts rule: readSetEnd.cases) auto
lemma readListBegin_Inr: "readListBegin ts = Inr ((et, n), r) \<longleftrightarrow> ts = ListBegin et n # r"
  by (cases ts rule: readListBegin.cases) auto
lemma readListEnd_Inr: "readListEnd ts = Inr r \<longleftrightarrow> ts = ListEnd # r"
  by (cases ts rule: readListEnd.cases) auto
lemma readMessageBegin_Inr:
  "readMessageBegin ts = Inr ((n, ty, sid), r) \<longleftrightarrow> ts = MessageBegin n ty sid # r"
  by (cases ts rule: readMessageBegin.cases) auto
lemma readMessageEnd_Inr: "readMessageEnd ts = Inr r \<longleftrightarrow> ts = MessageEnd # r"
  by (cases ts rule: readMessageEnd.cases) auto

lemmas read_Inr =
  readBool_Inr readByte_Inr readI16_Inr readI32_Inr readI64_Inr readDouble_Inr readString_Inr
  readStructBegin_Inr readStructEnd_Inr readFieldBegin_Inr readFieldEnd_Inr readMapBegin_Inr
  readMapEnd_Inr readSetBegin_Inr readSetEnd_Inr readListBegin_Inr readListEnd_Inr
  readMessageBegin_Inr readMessageEnd_Inr

lemma skip_run_length: "skip_run k ts = Inr r \<Longrightarrow> length r \<le> length ts"
proof (induction k ts arbitrary: r rule: skip_run.induct)
  case (1 ts)
  then show ?case by (simp add: skip_run.simps(1))
next
  case (2 ty k ts)
  show ?case
  proof (cases ty)
    case T_STOP
    with "2.prems" "2.IH"(1) show ?thesis by (simp add: skip_run.simps(2))
  next
    case T_VOID
    with "2.prems" "2.IH"(13) show ?thesis by (simp add: skip_run.simps(2))
  next
    case T_BOOL
    with "2.prems" obtain v r' where a: "readBool ts = Inr (v, r')" and b: "skip_run k r' = Inr r"
      by (auto simp: skip_run.simps(2) split: sum.splits)
    from "2.IH"(2) T_BOOL a b have "length r \<le> length r'" by fastforce
    with a show ?thesis by (auto dest: read_length)
  next
    case T_BYTE
    with "2.prems" obtain v r' where a: "readByte ts = Inr (v, r')" and b: "skip_run k r' = Inr r"
      by (auto simp: skip_run.simps(2) split: sum.splits)
    from "2.IH"(3) T_BYTE a b have "length r \<le> length r'" by fastforce
    with a show ?thesis by (auto dest: read_length)
  next
    case T_I16
    with "2.prems" obtain v r' where a: "readI16 ts = Inr (v, r')" and b: "skip_run k r' = Inr r"
      by (auto simp: skip_run.simps(2) split: sum.splits)
    from "2.IH"(4) T_I16 a b have "length r \<le> length r'" by fastforce
    with a show ?thesis by (auto dest: read_length)
  next
    case T_I32
    with "2.prems" obtain v r' where a: "readI32 ts = Inr (v, r')" and b: "skip_run k r' = Inr r"
      by (auto simp: skip_run.simps(2) split: sum.splits)
    from "2.IH"(5) T_I32 a b have "length r \<le> length r'" by fastforce
    with a show ?thesis by (auto dest: read_length)
  next
    case T_I64
    with "2.prems" obtain v r' where a: "readI64 ts = Inr (v, r')" and b: "skip_run k r' = Inr r"
      by (auto simp: skip_run.simps(2) split: sum.splits)
    from "2.IH"(6) T_I64 a b have "length r \<le> length r'" by fastforce
    with a show ?thesis by (auto dest: read_length)
  next
    case T_DOUBLE
    with "2.prems" obtain v r' where a: "readDouble ts = Inr (v, r')" and b: "skip_run k r' = Inr r"
      by (auto simp: skip_run.simps(2) split: sum.splits)
    from "2.IH"(7) T_DOUBLE a b have "length r \<le> length r'" by fastforce
    with a show ?thesis by (auto dest: read_length)
  next
    case T_STRING
    with "2.prems" obtain v r' where a: "readString ts = Inr (v, r')" and b: "skip_run k r' = Inr r"
      by (auto simp: skip_run.simps(2) split: sum.splits)
    from "2.IH"(8) T_STRING a b have "length r \<le> length r'" by fastforce
    with a show ?thesis by (auto dest: read_length)
  next
    case T_STRUCT
    with "2.prems" obtain  r' where a: "readStructBegin ts = Inr r'" and b: "skip_run (SkipFields # EndStruct # k) r' = Inr r"
      by (auto simp: skip_run.simps(2) split: sum.splits)
    from "2.IH"(9) T_STRUCT a b have "length r \<le> length r'" by fastforce
    with a show ?thesis by (auto dest: read_length)
  next
    case T_MAP
    with "2.prems" obtain kt vt n r' where a: "readMapBegin ts = Inr ((kt, vt, n), r')" and b: "skip_run (Repeat (nat n) [kt, vt] # EndMap # k) r' = Inr r"
      by (auto simp: skip_run.simps(2) split: sum.splits)
    from "2.IH"(10) T_MAP a b have "length r \<le> length r'" by fastforce
    with a show ?thesis by (auto dest: read_length)
  next
    case T_SET
    with "2.prems" obtain et n r' where a: "readSetBegin ts = Inr ((et, n), r')" and b: "skip_run (Repeat (nat n) [et] # EndSet # k) r' = Inr r"
      by (auto simp: skip_run.simps(2) split: sum.splits)
    from "2.IH"(11) T_SET a b have "length r \<le> length r'" by fastforce
    with a show ?thesis by (auto dest: read_length)
  next
    case T_LIST
    with "2.prems" obtain et n r' where a: "readListBegin ts = Inr ((et, n), r')" and b: "skip_run (Repeat (nat n) [et] # EndList # k) r' = Inr r"
      by (auto simp: skip_run.simps(2) split: sum.splits)
    from "2.IH"(12) T_LIST a b have "length r \<le> length r'" by fastforce
    with a show ?thesis by (auto dest: read_length)
  qed
next
  case (3 k ts)
  from "3.prems" obtain name ty fid r' where a: "readFieldBegin ts = Inr ((name, ty, fid), r')"
    and b: "(if ty = T_STOP then skip_run k r'
             else skip_run (Skip ty # EndField # SkipFields # k) r') = Inr r"
    by (auto simp: skip_run.simps(3) split: sum.splits)
  from "3.IH" a b have "length r \<le> length r'" by (fastforce split: if_splits)
  with a show ?case by (auto dest: read_length)
next
  case (4 tys k ts)
  then show ?case by (simp add: skip_run.simps(4))
next
  case (5 n tys k ts)
  then show ?case by (simp add: skip_run.simps(5))
next
  case (6 k ts)
  from "6.prems" obtain r' where a: "readStructEnd ts = Inr r'" and b: "skip_run k r' = Inr r"
    by (auto simp: skip_run.simps(6) split: sum.splits)
  from "6.IH" a b have "length r \<le> length r'" by fastforce
  with a show ?case by (auto dest: read_length)
next
  case (7 k ts)
  from "7.prems" obtain r' where a: "readFieldEnd ts = Inr r'" and b: "skip_run k r' = Inr r"
    by (auto simp: skip_run.simps(7) split: sum.splits)
  from "7.IH" a b have "length r \<le> length r'" by fastforce
  with a show ?case by (auto dest: read_length)
next
  case (8 k ts)
  from "8.prems" obtain r' where a: "readMapEnd ts = Inr r'" and b: "skip_run k r' = Inr r"
    by (auto simp: skip_run.simps(8) split: sum.splits)
  from "8.IH" a b have "length r \<le> length r'" by fastforce
  with a show ?case by (auto dest: read_length)
next
  case (9 k ts)
  from "9.prems" obtain r' where a: "readSetEnd ts = Inr r'" and b: "skip_run k r' = Inr r"
    by (auto simp: skip_run.simps(9) split: sum.splits)
  from "9.IH" a b have "length r \<le> length r'" by fastforce
  with a show ?case by (auto dest: read_length)
next
  case (10 k ts)
  from "10.prems" obtain r' where a: "readListEnd ts = Inr r'" and b: "skip_run k r' = Inr r"
    by (auto simp: skip_run.simps(10) split: sum.splits)
  from "10.IH" a b have "length r \<le> length r'" by fastforce
  with a show ?case by (auto dest: read_length)
qed

lemma skip_length: "skip ty ts = Inr r \<Longrightarrow> length r \<le> length ts"
  unfolding skip_def by (rule skip_run_length)

section \<open>The exception structs\<close>

text \<open>
  Modelled from the spec: \<^verbatim>\<open>HiveServerException.read\<close> and \<^verbatim>\<open>write\<close> belong to
  \<^verbatim>\<open>ttypes.py\<close> as well; they have the shape the protocol compiler generates for every
  struct: \<^verbatim>\<open>write\<close> emits each field that is not \<^verbatim>\<open>None\<close> and
  then the stop marker; \<^verbatim>\<open>read\<close> loops over field headers up to the stop marker.
\<close>

definition HiveServerException_init :: HiveServerException where
  "HiveServerException_init = \<lparr>hse_message = None\<rparr>"

function HiveServerException_read_loop ::
  "HiveServerException \<Rightarrow> token list \<Rightarrow> exn + (HiveServerException \<times> token list)" where
  "HiveServerException_read_loop self ts =
     (case readFieldBegin ts of Inl e \<Rightarrow> Inl e
      | Inr ((fname, ftype, fid), ts1) \<Rightarrow>
          if ftype = T_STOP then Inr (self, ts1)
          else
            (case
               (if fid = 1 then
                  (if ftype = T_STRING then
                     (case readString ts1 of Inl e \<Rightarrow> Inl e
                      | Inr (s, r) \<Rightarrow> Inr (self\<lparr>hse_message := Some s\<rparr>, r))
                   else (case skip ftype ts1 of Inl e \<Rightarrow> Inl e | Inr r \<Rightarrow> Inr (self, r)))
                else (case skip ftype ts1 of Inl e \<Rightarrow> Inl e | Inr r \<Rightarrow> Inr (self, r)))
             of Inl e \<Rightarrow> Inl e
             | Inr (self', ts2) \<Rightarrow>
                 (case readFieldEnd ts2 of Inl e \<Rightarrow> Inl e
                  | Inr ts3 \<Rightarrow> HiveServerException_read_loop self' ts3)))"
  by pat_completeness auto
termination
  apply (relation "measure (\<lambda>(self, ts). length ts)")
   apply simp
  apply (auto split: if_splits sum.splits prod.splits
           dest!: readFieldBegin_length readFieldEnd_length readString_length skip_length)
  done

declare HiveServerException_read_loop.simps [simp del]

definition HiveServerException_read ::
  "token list \<Rightarrow> exn + (HiveServerException \<times> token list)" where
  "HiveServerException_read ts =
     (case readStructBegin ts of Inl e \<Rightarrow> Inl e
      | Inr ts1 \<Rightarrow>
          (case HiveServerException_read_loop HiveServerException_init ts1 of Inl e \<Rightarrow> Inl e
           | Inr (self, ts2) \<Rightarrow>
               (case readStructEnd ts2 of Inl e \<Rightarrow> Inl e | Inr ts3 \<Rightarrow> Inr (self, ts3))))"

definition HiveServerException_write :: "HiveServerException \<Rightarrow> token list" where
  "HiveServerException_write self =
     writeStructBegin ''HiveServerException'' @
     (case hse_message self of None \<Rightarrow> []
      | Some m \<Rightarrow> writeFieldBegin ''message'' T_STRING 1 @ writeString m @ writeFieldEnd) @
     writeFieldStop @ writeStructEnd"

lemma HiveServerException_read_loop_length:
  "HiveServerException_read_loop self ts = Inr (x, r) \<Longrightarrow> length r \<le> length ts"
proof (induction "length ts" arbitrary: self ts rule: less_induct)
  case less
  have IH: "\<And>self' ts3. HiveServerException_read_loop self' ts3 = Inr (x, r) \<Longrightarrow>
              length ts3 < length ts \<Longrightarrow> length r \<le> length ts"
    using less.hyps by fastforce
  note u = less.prems [unfolded HiveServerException_read_loop.simps [of self ts]]
  from u show ?case
    apply (auto split: sum.splits prod.splits if_splits
             dest!: readFieldBegin_length readFieldEnd_length readString_length skip_length)
    apply (frule IH; simp)+
    done
qed

lemma HiveServerException_read_length:
  "HiveServerException_read ts = Inr (x, r) \<Longrightarrow> length r \<le> length ts"
  unfolding HiveServerException_read_def
  by (fastforce split: sum.splits prod.splits
        dest!: readStructBegin_length readStructEnd_length HiveServerException_read_loop_length)

text \<open>
  \<^verbatim>\<open>TApplicationException.read\<close> and \<^verbatim>\<open>write\<close> of the Thrift runtime: the message
  travels under tag 1 as a string, the reason code under tag 2 as a 32-bit integer.
\<close>

definition TApplicationException_init :: TApplicationException where
  "TApplicationException_init = \<lparr>tapp_type = UNKNOWN, tapp_message = None\<rparr>"

function TApplicationException_read_loop ::
  "TApplicationException \<Rightarrow> token list \<Rightarrow> exn + (TApplicationException \<times> token list)" where
  "TApplicationException_read_loop self ts =
     (case readFieldBegin ts of Inl e \<Rightarrow> Inl e
      | Inr ((fname, ftype, fid), ts1) \<Rightarrow>
          if ftype = T_STOP then Inr (self, ts1)
          else
            (case
               (if fid = 1 then
                  (if ftype = T_STRING then
                     (case readString ts1 of Inl e \<Rightarrow> Inl e
                      | Inr (s, r) \<Rightarrow> Inr (self\<lparr>tapp_message := Some s\<rparr>, r))
                   else (case skip ftype ts1 of Inl e \<Rightarrow> Inl e | Inr r \<Rightarrow> Inr (self, r)))
                else (if fid = 2 then
                       (if ftype = T_I32 then
                          (case readI32 ts1 of Inl e \<Rightarrow> Inl e
                           | Inr (i, r) \<Rightarrow> Inr (self\<lparr>tapp_type := i\<rparr>, r))
                        else (case skip ftype ts1 of Inl e \<Rightarrow> Inl e | Inr r \<Rightarrow> Inr (self, r)))
                     else (case skip ftype ts1 of Inl e \<Rightarrow> Inl e | Inr r \<Rightarrow> Inr (self, r))))
             of Inl e \<Rightarrow> Inl e
             | Inr (self', ts2) \<Rightarrow>
                 (case readFieldEnd ts2 of Inl e \<Rightarrow> Inl e
                  | Inr ts3 \<Rightarrow> TApplicationException_read_loop self' ts3)))"
  by pat_completeness auto
termination
  by (relation "measure (\<lambda>(self, ts). length ts)")
     (auto split: if_splits sum.splits prod.splits
           dest!: readFieldBegin_length readFieldEnd_length readString_length readI32_length
                  skip_length)

declare TApplicationException_read_loop.simps [simp del]

definition TApplicationException_read :: "token list \<Rightarrow> exn + (TApplicationException \<times> token list)" where
  "TApplicationException_read ts =
     (case readStructBegin ts of Inl e \<Rightarrow> Inl e
      | Inr ts1 \<Rightarrow>
          (case TApplicationException_read_loop TApplicationException_init ts1 of Inl e \<Rightarrow> Inl e
           | Inr (self, ts2) \<Rightarrow>
               (case readStructEnd ts2 of Inl e \<Rightarrow> Inl e | Inr ts3 \<Rightarrow> Inr (self, ts3))))"

definition TApplicationException_write ::
  "TApplicationException \<Rightarrow> token list \<times> exn option" where
  "TApplicationException_write self =
     (let wr = writeStructBegin ''TApplicationException'' @
               (case tapp_message self of None \<Rightarrow> []
                | Some m \<Rightarrow>
                    writeFieldBegin ''message'' T_STRING 1 @ writeString m @ writeFieldEnd) @
               writeFieldBegin ''type'' T_I32 2
      in case writeI32 (tapp_type self) of
           (w, Some e) \<Rightarrow> (wr @ w, Some e)
         | (w, None) \<Rightarrow>
             (wr @ w @ writeFieldEnd @ writeFieldStop @ writeStructEnd, None))"

section \<open>The argument and result structs\<close>

text \<open>
  The list loop of \<^verbatim>\<open>fetchN_result.read\<close> and \<^verbatim>\<open>fetchAll_result.read\<close>:
  \<^verbatim>\<open>for _i in xrange(_size): _elem = iprot.readString(); self.success.append(_elem)\<close>.
  The element type announced by \<^verbatim>\<open>readListBegin\<close> is not looked at, and a negative
  size gives no round of the loop (\<open>nat\<close> of a negative number is 0).
\<close>

fun read_string_elems ::
  "nat \<Rightarrow> string list \<Rightarrow> token list \<Rightarrow> exn + (string list \<times> token list)" where
  "read_string_elems 0 success ts = Inr (success, ts)"
| "read_string_elems (Suc n) success ts =
     (case readString ts of Inl e \<Rightarrow> Inl e
      | Inr (elem, r) \<Rightarrow> read_string_elems n (success @ [elem]) r)"

lemma read_string_elems_length:
  "read_string_elems n acc ts = Inr (xs, r) \<Longrightarrow> length r \<le> length ts"
  by (induction n arbitrary: acc ts)
     (fastforce split: sum.splits prod.splits dest!: readString_length)+

subsection \<open>\<^verbatim>\<open>execute_args\<close>\<close>

record execute_args =
  query :: "string option"

definition execute_args_init :: execute_args where
  "execute_args_init = \<lparr>query = None\<rparr>"

function execute_args_read_loop ::
  "execute_args \<Rightarrow> token list \<Rightarrow> exn + (execute_args \<times> token list)" where
  "execute_args_read_loop self ts =
     (case readFieldBegin ts of Inl e \<Rightarrow> Inl e
      | Inr ((fname, ftype, fid), ts1) \<Rightarrow>
          if ftype = T_STOP then Inr (self, ts1)
          else
            (case
               (if fid = 1 then
                  (if ftype = T_STRING then
                     (case readString ts1 of Inl e \<Rightarrow> Inl e
                      | Inr (s, r) \<Rightarrow> Inr (self\<lparr>query := Some s\<rparr>, r))
                   else (case skip ftype ts1 of Inl e \<Rightarrow> Inl e | Inr r \<Rightarrow> Inr (self, r)))
                else (case skip ftype ts1 of Inl e \<Rightarrow> Inl e | Inr r \<Rightarrow> Inr (self, r)))
             of Inl e \<Rightarrow> Inl e
             | Inr (self', ts2) \<Rightarrow>
                 (case readFieldEnd ts2 of Inl e \<Rightarrow> Inl e
                  | Inr ts3 \<Rightarrow> execute_args_read_loop self' ts3)))"
  by pat_completeness auto
termination
  by (relation "measure (\<lambda>(self, ts). length ts)")
     (auto split: if_splits sum.splits prod.splits
           dest!: readFieldBegin_length readFieldEnd_length readString_length readI32_length
                  readListBegin_length readListEnd_length read_string_elems_length
                  HiveServerException_read_length skip_length)

declare execute_args_read_loop.simps [simp del]

definition execute_args_read :: "token list \<Rightarrow> exn + (execute_args \<times> token list)" where
  "execute_args_read ts =
     (case readStructBegin ts of Inl e \<Rightarrow> Inl e
      | Inr ts1 \<Rightarrow>
          (case execute_args_read_loop execute_args_init ts1 of Inl e \<Rightarrow> Inl e
           | Inr (self, ts2) \<Rightarrow>
               (case readStructEnd ts2 of Inl e \<Rightarrow> Inl e | Inr ts3 \<Rightarrow> Inr (self, ts3))))"

definition execute_args_write :: "execute_args \<Rightarrow> token list" where
  "execute_args_write self =
     writeStructBegin ''execute_args'' @
     (case query self of None \<Rightarrow> []
      | Some s \<Rightarrow> writeFieldBegin ''query'' T_STRING 1 @ writeString s @ writeFieldEnd) @
     writeFieldStop @ writeStructEnd"

subsection \<open>\<^verbatim>\<open>execute_result\<close>\<close>

record execute_result =
  execute_ex :: "HiveServerException option"

definition execute_result_init :: execute_result where
  "execute_result_init = \<lparr>execute_ex = None\<rparr>"

function execute_result_read_loop ::
  "execute_result \<Rightarrow> token list \<Rightarrow> exn + (execute_result \<times> token list)" where
  "execute_result_read_loop self ts =
     (case readFieldBegin ts of Inl e \<Rightarrow> Inl e
      | Inr ((fname, ftype, fid), ts1) \<Rightarrow>
          if ftype = T_STOP then Inr (self, ts1)
          else
            (case
               (if fid = 1 then
                  (if ftype = T_STRUCT then
                     (case HiveServerException_read ts1 of Inl e \<Rightarrow> Inl e
                      | Inr (x, r) \<Rightarrow> Inr (self\<lparr>execute_ex := Some x\<rparr>, r))
                   else (case skip ftype ts1 of Inl e \<Rightarrow> Inl e | Inr r \<Rightarrow> Inr (self, r)))
                else (case skip ftype ts1 of Inl e \<Rightarrow> Inl e | Inr r \<Rightarrow> Inr (self, r)))
             of Inl e \<Rightarrow> Inl e
             | Inr (self', ts2) \<Rightarrow>
                 (case readFieldEnd ts2 of Inl e \<Rightarrow> Inl e
                  | Inr ts3 \<Rightarrow> execute_result_read_loop self' ts3)))"
  by pat_completeness auto
termination
  by (relation "measure (\<lambda>(self, ts). length ts)")
     (auto split: if_splits sum.splits prod.splits
           dest!: readFieldBegin_length readFieldEnd_length readString_length readI32_length
                  readListBegin_length readListEnd_length read_string_elems_length
                  HiveServerException_read_length skip_length)

declare execute_result_read_loop.simps [simp del]

definition execute_result_read :: "token list \<Rightarrow> exn + (execute_result \<times> token list)" where
  "execute_result_read ts =
     (case readStructBegin ts of Inl e \<Rightarrow> Inl e
      | Inr ts1 \<Rightarrow>
          (case execute_result_read_loop execute_result_init ts1 of Inl e \<Rightarrow> Inl e
           | Inr (self, ts2) \<Rightarrow>
               (case readStructEnd ts2 of Inl e \<Rightarrow> Inl e | Inr ts3 \<Rightarrow> Inr (self, ts3))))"

definition execute_result_write :: "execute_result \<Rightarrow> token list" where
  "execute_result_write self =
     writeStructBegin ''execute_result'' @
     (case execute_ex self of None \<Rightarrow> []
      | Some x \<Rightarrow>
          writeFieldBegin ''ex'' T_STRUCT 1 @ HiveServerException_write x @ writeFieldEnd) @
     writeFieldStop @ writeStructEnd"

subsection \<open>\<^verbatim>\<open>fetchOne_args\<close>\<close>

datatype fetchOne_args = fetchOne_args

definition fetchOne_args_init :: fetchOne_args where
  "fetchOne_args_init = fetchOne_args"

function fetchOne_args_read_loop ::
  "fetchOne_args \<Rightarrow> token list \<Rightarrow> exn + (fetchOne_args \<times> token list)" where
  "fetchOne_args_read_loop self ts =
     (case readFieldBegin ts of Inl e \<Rightarrow> Inl e
      | Inr ((fname, ftype, fid), ts1) \<Rightarrow>
          if ftype = T_STOP then Inr (self, ts1)
          else
            (case skip ftype ts1 of Inl e \<Rightarrow> Inl e
             | Inr ts2 \<Rightarrow>
                 (case readFieldEnd ts2 of Inl e \<Rightarrow> Inl e
                  | Inr ts3 \<Rightarrow> fetchOne_args_read_loop self ts3)))"
  by pat_completeness auto
termination
  by (relation "measure (\<lambda>(self, ts). length ts)")
     (auto split: if_splits sum.splits prod.splits
           dest!: readFieldBegin_length readFieldEnd_length skip_length)

declare fetchOne_args_read_loop.simps [simp del]

definition fetchOne_args_read :: "token list \<Rightarrow> exn + (fetchOne_args \<times> token list)" where
  "fetchOne_args_read ts =
     (case readStructBegin ts of Inl e \<Rightarrow> Inl e
      | Inr ts1 \<Rightarrow>
          (case fetchOne_args_read_loop fetchOne_args_init ts1 of Inl e \<Rightarrow> Inl e
           | Inr (self, ts2) \<Rightarrow>
               (case readStructEnd ts2 of Inl e \<Rightarrow> Inl e | Inr ts3 \<Rightarrow> Inr (self, ts3))))"

definition fetchOne_args_write :: "fetchOne_args \<Rightarrow> token list" where
  "fetchOne_args_write self = writeStructBegin ''fetchOne_args'' @ writeFieldStop @ writeStructEnd"

subsection \<open>\<^verbatim>\<open>fetchOne_result\<close>\<close>

record fetchOne_result =
  fetchOne_success :: "string option"
  fetchOne_ex :: "HiveServerException option"

definition fetchOne_result_init :: fetchOne_result where
  "fetchOne_result_init = \<lparr>fetchOne_success = None, fetchOne_ex = None\<rparr>"

function fetchOne_result_read_loop ::
  "fetchOne_result \<Rightarrow> token list \<Rightarrow> exn + (fetchOne_result \<times> token list)" where
  "fetchOne_result_read_loop self ts =
     (case readFieldBegin ts of Inl e \<Rightarrow> Inl e
      | Inr ((fname, ftype, fid), ts1) \<Rightarrow>
          if ftype = T_STOP then Inr (self, ts1)
          else
            (case
               (if fid = 0 then
                  (if ftype = T_STRING then
                     (case readString ts1 of Inl e \<Rightarrow> Inl e
                      | Inr (s, r) \<Rightarrow> Inr (self\<lparr>fetchOne_success := Some s\<rparr>, r))
                   else (case skip ftype ts1 of Inl e \<Rightarrow> Inl e | Inr r \<Rightarrow> Inr (self, r)))
                else (if fid = 1 then
                       (if ftype = T_STRUCT then
                          (case HiveServerException_read ts1 of Inl e \<Rightarrow> Inl e
                           | Inr (x, r) \<Rightarrow> Inr (self\<lparr>fetchOne_ex := Some x\<rparr>, r))
                        else (case skip ftype ts1 of Inl e \<Rightarrow> Inl e | Inr r \<Rightarrow> Inr (self, r)))
                     else (case skip ftype ts1 of Inl e \<Rightarrow> Inl e | Inr r \<Rightarrow> Inr (self, r))))
             of Inl e \<Rightarrow> Inl e
             | Inr (self', ts2) \<Rightarrow>
                 (case readFieldEnd ts2 of Inl e \<Rightarrow> Inl e
                  | Inr ts3 \<Rightarrow> fetchOne_result_read_loop self' ts3)))"
  by pat_completeness auto
termination
  by (relation "measure (\<lambda>(self, ts). length ts)")
     (auto split: if_splits sum.splits prod.splits
           dest!: readFieldBegin_length readFieldEnd_length readString_length readI32_length
                  readListBegin_length readListEnd_length read_string_elems_length
                  HiveServerException_read_length skip_length)

declare fetchOne_result_read_loop.simps [simp del]

definition fetchOne_result_read :: "token list \<Rightarrow> exn + (fetchOne_result \<times> token list)" where
  "fetchOne_result_read ts =
     (case readStructBegin ts of Inl e \<Rightarrow> Inl e
      | Inr ts1 \<Rightarrow>
          (case fetchOne_result_read_loop fetchOne_result_init ts1 of Inl e \<Rightarrow> Inl e
           | Inr (self, ts2) \<Rightarrow>
               (case readStructEnd ts2 of Inl e \<Rightarrow> Inl e | Inr ts3 \<Rightarrow> Inr (self, ts3))))"

definition fetchOne_result_write :: "fetchOne_result \<Rightarrow> token list" where
  "fetchOne_result_write self =
     writeStructBegin ''fetchOne_result'' @
     (case fetchOne_success self of None \<Rightarrow> []
      | Some s \<Rightarrow> writeFieldBegin ''success'' T_STRING 0 @ writeString s @ writeFieldEnd) @
     (case fetchOne_ex self of None \<Rightarrow> []
      | Some x \<Rightarrow>
          writeFieldBegin ''ex'' T_STRUCT 1 @ HiveServerException_write x @ writeFieldEnd) @
     writeFieldStop @ writeStructEnd"

subsection \<open>\<^verbatim>\<open>fetchN_args\<close>\<close>

record fetchN_args =
  numRows :: "int option"

definition fetchN_args_init :: fetchN_args where
  "fetchN_args_init = \<lparr>numRows = None\<rparr>"

function fetchN_args_read_loop ::
  "fetchN_args \<Rightarrow> token list \<Rightarrow> exn + (fetchN_args \<times> token list)" where
  "fetchN_args_read_loop self ts =
     (case readFieldBegin ts of Inl e \<Rightarrow> Inl e
      | Inr ((fname, ftype, fid), ts1) \<Rightarrow>
          if ftype = T_STOP then Inr (self, ts1)
          else
            (case
               (if fid = 1 then
                  (if ftype = T_I32 then
                     (case readI32 ts1 of Inl e \<Rightarrow> Inl e
                      | Inr (i, r) \<Rightarrow> Inr (self\<lparr>numRows := Some i\<rparr>, r))
                   else (case skip ftype ts1 of Inl e \<Rightarrow> Inl e | Inr r \<Rightarrow> Inr (self, r)))
                else (case skip ftype ts1 of Inl e \<Rightarrow> Inl e | Inr r \<Rightarrow> Inr (self, r)))
             of Inl e \<Rightarrow> Inl e
             | Inr (self', ts2) \<Rightarrow>
                 (case readFieldEnd ts2 of Inl e \<Rightarrow> Inl e
                  | Inr ts3 \<Rightarrow> fetchN_args_read_loop self' ts3)))"
  by pat_completeness auto
termination
  by (relation "measure (\<lambda>(self, ts). length ts)")
     (auto split: if_splits sum.splits prod.splits
           dest!: readFieldBegin_length readFieldEnd_length readString_length readI32_length
                  readListBegin_length readListEnd_length read_string_elems_length
                  HiveServerException_read_length skip_length)

declare fetchN_args_read_loop.simps [simp del]

definition fetchN_args_read :: "token list \<Rightarrow> exn + (fetchN_args \<times> token list)" where
  "fetchN_args_read ts =
     (case readStructBegin ts of Inl e \<Rightarrow> Inl e
      | Inr ts1 \<Rightarrow>
          (case fetchN_args_read_loop fetchN_args_init ts1 of Inl e \<Rightarrow> Inl e
           | Inr (self, ts2) \<Rightarrow>
               (case readStructEnd ts2 of Inl e \<Rightarrow> Inl e | Inr ts3 \<Rightarrow> Inr (self, ts3))))"

text \<open>
  \<^verbatim>\<open>fetchN_args.write\<close> is the one writer of this file that packs an integer, so it is
  the one that can raise.
\<close>

definition fetchN_args_write :: "fetchN_args \<Rightarrow> token list \<times> exn option" where
  "fetchN_args_write self =
     (case numRows self of
        None \<Rightarrow> (writeStructBegin ''fetchN_args'' @ writeFieldStop @ writeStructEnd, None)
      | Some n \<Rightarrow>
          (let wr = writeStructBegin ''fetchN_args'' @ writeFieldBegin ''numRows'' T_I32 1
           in case writeI32 n of
                (w, Some e) \<Rightarrow> (wr @ w, Some e)
              | (w, None) \<Rightarrow>
                  (wr @ w @ writeFieldEnd @ writeFieldStop @ writeStructEnd, None)))"

subsection \<open>\<^verbatim>\<open>fetchN_result\<close>\<close>

record fetchN_result =
  fetchN_success :: "string list option"
  fetchN_ex :: "HiveServerException option"

definition fetchN_result_init :: fetchN_result where
  "fetchN_result_init = \<lparr>fetchN_success = None, fetchN_ex = None\<rparr>"

function fetchN_result_read_loop ::
  "fetchN_result \<Rightarrow> token list \<Rightarrow> exn + (fetchN_result \<times> token list)" where
  "fetchN_result_read_loop self ts =
     (case readFieldBegin ts of Inl e \<Rightarrow> Inl e
      | Inr ((fname, ftype, fid), ts1) \<Rightarrow>
          if ftype = T_STOP then Inr (self, ts1)
          else
            (case
               (if fid = 0 then
                  (if ftype = T_LIST then
                     (case readListBegin ts1 of Inl e \<Rightarrow> Inl e
                      | Inr ((etype, sz), r) \<Rightarrow>
                          (case read_string_elems (nat sz) [] r of Inl e \<Rightarrow> Inl e
                           | Inr (elems, r2) \<Rightarrow>
                               (case readListEnd r2 of Inl e \<Rightarrow> Inl e
                                | Inr r3 \<Rightarrow> Inr (self\<lparr>fetchN_success := Some elems\<rparr>, r3))))
                   else (case skip ftype ts1 of Inl e \<Rightarrow> Inl e | Inr r \<Rightarrow> Inr (self, r)))
                else (if fid = 1 then
                       (if ftype = T_STRUCT then
                          (case HiveServerException_read ts1 of Inl e \<Rightarrow> Inl e
                           | Inr (x, r) \<Rightarrow> Inr (self\<lparr>fetchN_ex := Some x\<rparr>, r))
                        else (case skip ftype ts1 of Inl e \<Rightarrow> Inl e | Inr r \<Rightarrow> Inr (self, r)))
                     else (case skip ftype ts1 of Inl e \<Rightarrow> Inl e | Inr r \<Rightarrow> Inr (self, r))))
             of Inl e \<Rightarrow> Inl e
             | Inr (self', ts2) \<Rightarrow>
                 (case readFieldEnd ts2 of Inl e \<Rightarrow> Inl e
                  | Inr ts3 \<Rightarrow> fetchN_result_read_loop self' ts3)))"
  by pat_completeness auto
termination
  by (relation "measure (\<lambda>(self, ts). length ts)")
     (auto split: if_splits sum.splits prod.splits
           dest!: readFieldBegin_length readFieldEnd_length readString_length readI32_length
                  readListBegin_length readListEnd_length read_string_elems_length
                  HiveServerException_read_length skip_length)

declare fetchN_result_read_loop.simps [simp del]

definition fetchN_result_read :: "token list \<Rightarrow> exn + (fetchN_result \<times> token list)" where
  "fetchN_result_read ts =
     (case readStructBegin ts of Inl e \<Rightarrow> Inl e
      | Inr ts1 \<Rightarrow>
          (case fetchN_result_read_loop fetchN_result_init ts1 of Inl e \<Rightarrow> Inl e
           | Inr (self, ts2) \<Rightarrow>
               (case readStructEnd ts2 of Inl e \<Rightarrow> Inl e | Inr ts3 \<Rightarrow> Inr (self, ts3))))"

definition fetchN_result_write :: "fetchN_result \<Rightarrow> token list" where
  "fetchN_result_write self =
     writeStructBegin ''fetchN_result'' @
     (case fetchN_success self of None \<Rightarrow> []
      | Some xs \<Rightarrow>
          writeFieldBegin ''success'' T_LIST 0 @
          writeListBegin T_STRING (int (length xs)) @ concat (map writeString xs) @
          writeListEnd @ writeFieldEnd) @
     (case fetchN_ex self of None \<Rightarrow> []
      | Some x \<Rightarrow>
          writeFieldBegin ''ex'' T_STRUCT 1 @ HiveServerException_write x @ writeFieldEnd) @
     writeFieldStop @ writeStructEnd"

subsection \<open>\<^verbatim>\<open>fetchAll_args\<close>\<close>

datatype fetchAll_args = fetchAll_args

definition fetchAll_args_init :: fetchAll_args where
  "fetchAll_args_init = fetchAll_args"

function fetchAll_args_read_loop ::
  "fetchAll_args \<Rightarrow> token list \<Rightarrow> exn + (fetchAll_args \<times> token list)" where
  "fetchAll_args_read_loop self ts =
     (case readFieldBegin ts of Inl e \<Rightarrow> Inl e
      | Inr ((fname, ftype, fid), ts1) \<Rightarrow>
          if ftype = T_STOP then Inr (self, ts1)
          else
            (case skip ftype ts1 of Inl e \<Rightarrow> Inl e
             | Inr ts2 \<Rightarrow>
                 (case readFieldEnd ts2 of Inl e \<Rightarrow> Inl e
                  | Inr ts3 \<Rightarrow> fetchAll_args_read_loop self ts3)))"
  by pat_completeness auto
termination
  by (relation "measure (\<lambda>(self, ts). length ts)")
     (auto split: if_splits sum.splits prod.splits
           dest!: readFieldBegin_length readFieldEnd_length skip_length)

declare fetchAll_args_read_loop.simps [simp del]

definition fetchAll_args_read :: "token list \<Rightarrow> exn + (fetchAll_args \<times> token list)" where
  "fetchAll_args_read ts =
     (case readStructBegin ts of Inl e \<Rightarrow> Inl e
      | Inr ts1 \<Rightarrow>
          (case fetchAll_args_read_loop fetchAll_args_init ts1 of Inl e \<Rightarrow> Inl e
           | Inr (self, ts2) \<Rightarrow>
               (case readStructEnd ts2 of Inl e \<Rightarrow> Inl e | Inr ts3 \<Rightarrow> Inr (self, ts3))))"

definition fetchAll_args_write :: "fetchAll_args \<Rightarrow> token list" where
  "fetchAll_args_write self = writeStructBegin ''fetchAll_args'' @ writeFieldStop @ writeStructEnd"

subsection \<open>\<^verbatim>\<open>fetchAll_result\<close>\<close>

record fetchAll_result =
  fetchAll_success :: "string list option"
  fetchAll_ex :: "HiveServerException option"

definition fetchAll_result_init :: fetchAll_result where
  "fetchAll_result_init = \<lparr>fetchAll_success = None, fetchAll_ex = None\<rparr>"

function fetchAll_result_read_loop ::
  "fetchAll_result \<Rightarrow> token list \<Rightarrow> exn + (fetchAll_result \<times> token list)" where
  "fetchAll_result_read_loop self ts =
     (case readFieldBegin ts of Inl e \<Rightarrow> Inl e
      | Inr ((fname, ftype, fid), ts1) \<Rightarrow>
          if ftype = T_STOP then Inr (self, ts1)
          else
            (case
               (if fid = 0 then
                  (if ftype = T_LIST then
                     (case readListBegin ts1 of Inl e \<Rightarrow> Inl e
                      | Inr ((etype, sz), r) \<Rightarrow>
                          (case read_string_elems (nat sz) [] r of Inl e \<Rightarrow> Inl e
                           | Inr (elems, r2) \<Rightarrow>
                               (case readListEnd r2 of Inl e \<Rightarrow> Inl e
                                | Inr r3 \<Rightarrow> Inr (self\<lparr>fetchAll_success := Some elems\<rparr>, r3))))
                   else (case skip ftype ts1 of Inl e \<Rightarrow> Inl e | Inr r \<Rightarrow> Inr (self, r)))
                else (if fid = 1 then
                       (if ftype = T_STRUCT then
                          (case HiveServerException_read ts1 of Inl e \<Rightarrow> Inl e
                           | Inr (x, r) \<Rightarrow> Inr (self\<lparr>fetchAll_ex := Some x\<rparr>, r))
                        else (case skip ftype ts1 of Inl e \<Rightarrow> Inl e | Inr r \<Rightarrow> Inr (self, r)))
                     else (case skip ftype ts1 of Inl e \<Rightarrow> Inl e | Inr r \<Rightarrow> Inr (self, r))))
             of Inl e \<Rightarrow> Inl e
             | Inr (self', ts2) \<Rightarrow>
                 (case readFieldEnd ts2 of Inl e \<Rightarrow> Inl e
                  | Inr ts3 \<Rightarrow> fetchAll_result_read_loop self' ts3)))"
  by pat_completeness auto
termination
  by (relation "measure (\<lambda>(self, ts). length ts)")
     (auto split: if_splits sum.splits prod.splits
           dest!: readFieldBegin_length readFieldEnd_length readString_length readI32_length
                  readListBegin_length readListEnd_length read_string_elems_length
                  HiveServerException_read_length skip_length)

declare fetchAll_result_read_loop.simps [simp del]

definition fetchAll_result_read :: "token list \<Rightarrow> exn + (fetchAll_result \<times> token list)" where
  "fetchAll_result_read ts =
     (case readStructBegin ts of Inl e \<Rightarrow> Inl e
      | Inr ts1 \<Rightarrow>
          (case fetchAll_result_read_loop fetchAll_result_init ts1 of Inl e \<Rightarrow> Inl e
           | Inr (self, ts2) \<Rightarrow>
               (case readStructEnd ts2 of Inl e \<Rightarrow> Inl e | Inr ts3 \<Rightarrow> Inr (self, ts3))))"

definition fetchAll_result_write :: "fetchAll_result \<Rightarrow> token list" where
  "fetchAll_result_write self =
     writeStructBegin ''fetchAll_result'' @
     (case fetchAll_success self of None \<Rightarrow> []
      | Some xs \<Rightarrow>
          writeFieldBegin ''success'' T_LIST 0 @
          writeListBegin T_STRING (int (length xs)) @ concat (map writeString xs) @
          writeListEnd @ writeFieldEnd) @
     (case fetchAll_ex self of None \<Rightarrow> []
      | Some x \<Rightarrow>
          writeFieldBegin ''ex'' T_STRUCT 1 @ HiveServerException_write x @ writeFieldEnd) @
     writeFieldStop @ writeStructEnd"

subsection \<open>\<^verbatim>\<open>getSchema_args\<close>\<close>

datatype getSchema_args = getSchema_args

definition getSchema_args_init :: getSchema_args where
  "getSchema_args_init = getSchema_args"

function getSchema_args_read_loop ::
  "getSchema_args \<Rightarrow> token list \<Rightarrow> exn + (getSchema_args \<times> token list)" where
  "getSchema_args_read_loop self ts =
     (case readFieldBegin ts of Inl e \<Rightarrow> Inl e
      | Inr ((fname, ftype, fid), ts1) \<Rightarrow>
          if ftype = T_STOP then Inr (self, ts1)
          else
            (case skip ftype ts1 of Inl e \<Rightarrow> Inl e
             | Inr ts2 \<Rightarrow>
                 (case readFieldEnd ts2 of Inl e \<Rightarrow> Inl e
                  | Inr ts3 \<Rightarrow> getSchema_args_read_loop self ts3)))"
  by pat_completeness auto
termination
  by (relation "measure (\<lambda>(self, ts). length ts)")
     (auto split: if_splits sum.splits prod.splits
           dest!: readFieldBegin_length readFieldEnd_length skip_length)

declare getSchema_args_read_loop.simps [simp del]

definition getSchema_args_read :: "token list \<Rightarrow> exn + (getSchema_args \<times> token list)" where
  "getSchema_args_read ts =
     (case readStructBegin ts of Inl e \<Rightarrow> Inl e
      | Inr ts1 \<Rightarrow>
          (case getSchema_args_read_loop getSchema_args_init ts1 of Inl e \<Rightarrow> Inl e
           | Inr (self, ts2) \<Rightarrow>
               (case readStructEnd ts2 of Inl e \<Rightarrow> Inl e | Inr ts3 \<Rightarrow> Inr (self, ts3))))"

definition getSchema_args_write :: "getSchema_args \<Rightarrow> token list" where
  "getSchema_args_write self = writeStructBegin ''getSchema_args'' @ writeFieldStop @ writeStructEnd"

subsection \<open>\<^verbatim>\<open>getSchema_result\<close>\<close>

record getSchema_result =
  getSchema_success :: "string option"
  getSchema_ex :: "HiveServerException option"

definition getSchema_result_init :: getSchema_result where
  "getSchema_result_init = \<lparr>getSchema_success = None, getSchema_ex = None\<rparr>"

function getSchema_result_read_loop ::
  "getSchema_result \<Rightarrow> token list \<Rightarrow> exn + (getSchema_result \<times> token list)" where
  "getSchema_result_read_loop self ts =
     (case readFieldBegin ts of Inl e \<Rightarrow> Inl e
      | Inr ((fname, ftype, fid), ts1) \<Rightarrow>
          if ftype = T_STOP then Inr (self, ts1)
          else
            (case
               (if fid = 0 then
                  (if ftype = T_STRING then
                     (case readString ts1 of Inl e \<Rightarrow> Inl e
                      | Inr (s, r) \<Rightarrow> Inr (self\<lparr>getSchema_success := Some s\<rparr>, r))
                   else (case skip ftype ts1 of Inl e \<Rightarrow> Inl e | Inr r \<Rightarrow> Inr (self, r)))
                else (if fid = 1 then
                       (if ftype = T_STRUCT then
                          (case HiveServerException_read ts1 of Inl e \<Rightarrow> Inl e
                           | Inr (x, r) \<Rightarrow> Inr (self\<lparr>getSchema_ex := Some x\<rparr>, r))
                        else (case skip ftype ts1 of Inl e \<Rightarrow> Inl e | Inr r \<Rightarrow> Inr (self, r)))
                     else (case skip ftype ts1 of Inl e \<Rightarrow> Inl e | Inr r \<Rightarrow> Inr (self, r))))
             of Inl e \<Rightarrow> Inl e
             | Inr (self', ts2) \<Rightarrow>
                 (case readFieldEnd ts2 of Inl e \<Rightarrow> Inl e
                  | Inr ts3 \<Rightarrow> getSchema_result_read_loop self' ts3)))"
  by pat_completeness auto
termination
  by (relation "measure (\<lambda>(self, ts). length ts)")
     (auto split: if_splits sum.splits prod.splits
           dest!: readFieldBegin_length readFieldEnd_length readString_length readI32_length
                  readListBegin_length readListEnd_length read_string_elems_length
                  HiveServerException_read_length skip_length)

declare getSchema_result_read_loop.simps [simp del]

definition getSchema_result_read :: "token list \<Rightarrow> exn + (getSchema_result \<times> token list)" where
  "getSchema_result_read ts =
     (case readStructBegin ts of Inl e \<Rightarrow> Inl e
      | Inr ts1 \<Rightarrow>
          (case getSchema_result_read_loop getSchema_result_init ts1 of Inl e \<Rightarrow> Inl e
           | Inr (self, ts2) \<Rightarrow>
               (case readStructEnd ts2 of Inl e \<Rightarrow> Inl e | Inr ts3 \<Rightarrow> Inr (self, ts3))))"

definition getSchema_result_write :: "getSchema_result \<Rightarrow> token list" where
  "getSchema_result_write self =
     writeStructBegin ''getSchema_result'' @
     (case getSchema_success self of None \<Rightarrow> []
      | Some s \<Rightarrow> writeFieldBegin ''success'' T_STRING 0 @ writeString s @ writeFieldEnd) @
     (case getSchema_ex self of None \<Rightarrow> []
      | Some x \<Rightarrow>
          writeFieldBegin ''ex'' T_STRUCT 1 @ HiveServerException_write x @ writeFieldEnd) @
     writeFieldStop @ writeStructEnd"

section \<open>The client\<close>

text \<open>
  A client call writes to \<^verbatim>\<open>self._oprot\<close> and then reads from \<^verbatim>\<open>self._iprot\<close>. Each
  \<^verbatim>\<open>send_\<close> function is given the client's sequence id and returns the events it
  writes; each \<^verbatim>\<open>recv_\<close> function is given the events waiting on the input side and
  returns either the exception it raises or its return value with the input left over.
  A whole call returns both: what was written, and how the call ended.
\<close>

subsection \<open>\<^verbatim>\<open>execute\<close>\<close>

definition send_execute :: "int \<Rightarrow> string option \<Rightarrow> token list" where
  "send_execute seqid q =
     writeMessageBegin ''execute'' CALL seqid @
     execute_args_write (execute_args_init\<lparr>query := q\<rparr>) @
     writeMessageEnd @ flush"

definition recv_execute :: "token list \<Rightarrow> exn + (unit \<times> token list)" where
  "recv_execute iprot =
     (case readMessageBegin iprot of Inl e \<Rightarrow> Inl e
      | Inr ((fname, mtype, rseqid), ts1) \<Rightarrow>
          if mtype = EXCEPTION then
            (case TApplicationException_read ts1 of Inl e \<Rightarrow> Inl e
             | Inr (x, ts2) \<Rightarrow>
                 (case readMessageEnd ts2 of Inl e \<Rightarrow> Inl e
                  | Inr ts3 \<Rightarrow> Inl (TApplicationExn x)))
          else
            (case execute_result_read ts1 of Inl e \<Rightarrow> Inl e
             | Inr (result, ts2) \<Rightarrow>
                 (case readMessageEnd ts2 of Inl e \<Rightarrow> Inl e
                  | Inr ts3 \<Rightarrow>
                      (if execute_ex result \<noteq> None then
                         Inl (HiveServerExn (the (execute_ex result)))
                       else Inr ((), ts3)))))"

definition execute ::
  "int \<Rightarrow> string option \<Rightarrow> token list \<Rightarrow> token list \<times> (exn + (unit \<times> token list))" where
  "execute seqid q iprot = (send_execute seqid q, recv_execute iprot)"

subsection \<open>\<^verbatim>\<open>fetchOne\<close>\<close>

definition send_fetchOne :: "int \<Rightarrow> token list" where
  "send_fetchOne seqid =
     writeMessageBegin ''fetchOne'' CALL seqid @
     fetchOne_args_write fetchOne_args_init @
     writeMessageEnd @ flush"

definition recv_fetchOne :: "token list \<Rightarrow> exn + (string \<times> token list)" where
  "recv_fetchOne iprot =
     (case readMessageBegin iprot of Inl e \<Rightarrow> Inl e
      | Inr ((fname, mtype, rseqid), ts1) \<Rightarrow>
          if mtype = EXCEPTION then
            (case TApplicationException_read ts1 of Inl e \<Rightarrow> Inl e
             | Inr (x, ts2) \<Rightarrow>
                 (case readMessageEnd ts2 of Inl e \<Rightarrow> Inl e
                  | Inr ts3 \<Rightarrow> Inl (TApplicationExn x)))
          else
            (case fetchOne_result_read ts1 of Inl e \<Rightarrow> Inl e
             | Inr (result, ts2) \<Rightarrow>
                 (case readMessageEnd ts2 of Inl e \<Rightarrow> Inl e
                  | Inr ts3 \<Rightarrow>
                      (if fetchOne_success result \<noteq> None then Inr (the (fetchOne_success result), ts3)
                       else if fetchOne_ex result \<noteq> None then
                         Inl (HiveServerExn (the (fetchOne_ex result)))
                       else
                         Inl (TApplicationExn
                                \<lparr>tapp_type = MISSING_RESULT,
                                 tapp_message = Some ''fetchOne failed: unknown result''\<rparr>)))))"

definition fetchOne ::
  "int \<Rightarrow> token list \<Rightarrow> token list \<times> (exn + (string \<times> token list))" where
  "fetchOne seqid iprot = (send_fetchOne seqid, recv_fetchOne iprot)"

subsection \<open>\<^verbatim>\<open>fetchN\<close>\<close>

text \<open>
  \<^verbatim>\<open>send_fetchN\<close> stops where \<^verbatim>\<open>args.write\<close> raises; \<^verbatim>\<open>fetchN\<close> then does not
  read.
\<close>

definition send_fetchN :: "int \<Rightarrow> int option \<Rightarrow> token list \<times> exn option" where
  "send_fetchN seqid n =
     (case fetchN_args_write (fetchN_args_init\<lparr>numRows := n\<rparr>) of
        (w, Some e) \<Rightarrow> (writeMessageBegin ''fetchN'' CALL seqid @ w, Some e)
      | (w, None) \<Rightarrow>
          (writeMessageBegin ''fetchN'' CALL seqid @ w @ writeMessageEnd @ flush, None))"

definition recv_fetchN :: "token list \<Rightarrow> exn + (string list \<times> token list)" where
  "recv_fetchN iprot =
     (case readMessageBegin iprot of Inl e \<Rightarrow> Inl e
      | Inr ((fname, mtype, rseqid), ts1) \<Rightarrow>
          if mtype = EXCEPTION then
            (case TApplicationException_read ts1 of Inl e \<Rightarrow> Inl e
             | Inr (x, ts2) \<Rightarrow>
                 (case readMessageEnd ts2 of Inl e \<Rightarrow> Inl e
                  | Inr ts3 \<Rightarrow> Inl (TApplicationExn x)))
          else
            (case fetchN_result_read ts1 of Inl e \<Rightarrow> Inl e
             | Inr (result, ts2) \<Rightarrow>
                 (case readMessageEnd ts2 of Inl e \<Rightarrow> Inl e
                  | Inr ts3 \<Rightarrow>
                      (if fetchN_success result \<noteq> None then Inr (the (fetchN_success result), ts3)
                       else if fetchN_ex result \<noteq> None then
                         Inl (HiveServerExn (the (fetchN_ex result)))
                       else
                         Inl (TApplicationExn
                                \<lparr>tapp_type = MISSING_RESULT,
                                 tapp_message = Some ''fetchN failed: unknown result''\<rparr>)))))"

definition fetchN ::
  "int \<Rightarrow> int option \<Rightarrow> token list \<Rightarrow>
   token list \<times> (exn + (string list \<times> token list))" where
  "fetchN seqid n iprot =
     (case send_fetchN seqid n of
        (w, Some e) \<Rightarrow> (w, Inl e)
      | (w, None) \<Rightarrow> (w, recv_fetchN iprot))"

subsection \<open>\<^verbatim>\<open>fetchAll\<close>\<close>

definition send_fetchAll :: "int \<Rightarrow> token list" where
  "send_fetchAll seqid =
     writeMessageBegin ''fetchAll'' CALL seqid @
     fetchAll_args_write fetchAll_args_init @
     writeMessageEnd @ flush"

definition recv_fetchAll :: "token list \<Rightarrow> exn + (string list \<times> token list)" where
  "recv_fetchAll iprot =
     (case readMessageBegin iprot of Inl e \<Rightarrow> Inl e
      | Inr ((fname, mtype, rseqid), ts1) \<Rightarrow>
          if mtype = EXCEPTION then
            (case TApplicationException_read ts1 of Inl e \<Rightarrow> Inl e
             | Inr (x, ts2) \<Rightarrow>
                 (case readMessageEnd ts2 of Inl e \<Rightarrow> Inl e
                  | Inr ts3 \<Rightarrow> Inl (TApplicationExn x)))
          else
            (case fetchAll_result_read ts1 of Inl e \<Rightarrow> Inl e
             | Inr (result, ts2) \<Rightarrow>
                 (case readMessageEnd ts2 of Inl e \<Rightarrow> Inl e
                  | Inr ts3 \<Rightarrow>
                      (if fetchAll_success result \<noteq> None then Inr (the (fetchAll_success result), ts3)
                       else if fetchAll_ex result \<noteq> None then
                         Inl (HiveServerExn (the (fetchAll_ex result)))
                       else
                         Inl (TApplicationExn
                                \<lparr>tapp_type = MISSING_RESULT,
                                 tapp_message = Some ''fetchAll failed: unknown result''\<rparr>)))))"

definition fetchAll ::
  "int \<Rightarrow> token list \<Rightarrow> token list \<times> (exn + (string list \<times> token list))" where
  "fetchAll seqid iprot = (send_fetchAll seqid, recv_fetchAll iprot)"

subsection \<open>\<^verbatim>\<open>getSchema\<close>\<close>

definition send_getSchema :: "int \<Rightarrow> token list" where
  "send_getSchema seqid =
     writeMessageBegin ''getSchema'' CALL seqid @
     getSchema_args_write getSchema_args_init @
     writeMessageEnd @ flush"

definition recv_getSchema :: "token list \<Rightarrow> exn + (string \<times> token list)" where
  "recv_getSchema iprot =
     (case readMessageBegin iprot of Inl e \<Rightarrow> Inl e
      | Inr ((fname, mtype, rseqid), ts1) \<Rightarrow>
          if mtype = EXCEPTION then
            (case TApplicationException_read ts1 of Inl e \<Rightarrow> Inl e
             | Inr (x, ts2) \<Rightarrow>
                 (case readMessageEnd ts2 of Inl e \<Rightarrow> Inl e
                  | Inr ts3 \<Rightarrow> Inl (TApplicationExn x)))
          else
            (case getSchema_result_read ts1 of Inl e \<Rightarrow> Inl e
             | Inr (result, ts2) \<Rightarrow>
                 (case readMessageEnd ts2 of Inl e \<Rightarrow> Inl e
                  | Inr ts3 \<Rightarrow>
                      (if getSchema_success result \<noteq> None then Inr (the (getSchema_success result), ts3)
                       else if getSchema_ex result \<noteq> None then
                         Inl (HiveServerExn (the (getSchema_ex result)))
                       else
                         Inl (TApplicationExn
                                \<lparr>tapp_type = MISSING_RESULT,
                                 tapp_message = Some ''getSchema failed: unknown result''\<rparr>)))))"

definition getSchema ::
  "int \<Rightarrow> token list \<Rightarrow> token list \<times> (exn + (string \<times> token list))" where
  "getSchema seqid iprot = (send_getSchema seqid, recv_getSchema iprot)"

section \<open>The server\<close>

text \<open>
  The handler is supplied from outside. Each of its methods is a function of the
  handler's own state \<open>'h\<close>: it returns the new state and either a value or the
  exception it raises. A method may return \<^verbatim>\<open>None\<close>.
\<close>

record 'h Iface =
  handler_execute :: "string option \<Rightarrow> 'h \<Rightarrow> (exn + unit) \<times> 'h"
  handler_fetchOne :: "'h \<Rightarrow> (exn + string option) \<times> 'h"
  handler_fetchN :: "int option \<Rightarrow> 'h \<Rightarrow> (exn + string list option) \<times> 'h"
  handler_fetchAll :: "'h \<Rightarrow> (exn + string list option) \<times> 'h"
  handler_getSchema :: "'h \<Rightarrow> (exn + string option) \<times> 'h"

text \<open>
  A dispatch method is given the handler, the sequence id, the input after the message
  header and the handler's state. It returns the events written to \<^verbatim>\<open>oprot\<close>, the
  handler's state afterwards, and either the exception that leaves the method or the
  input left over.
\<close>

type_synonym 'h process_fn =
  "'h Iface \<Rightarrow> int \<Rightarrow> token list \<Rightarrow> 'h \<Rightarrow> token list \<times> 'h \<times> (exn + token list)"

definition process_execute :: "'h process_fn" where
  "process_execute handler seqid iprot h =
     (case execute_args_read iprot of Inl e \<Rightarrow> ([], h, Inl e)
      | Inr (args, ts1) \<Rightarrow>
          (case readMessageEnd ts1 of Inl e \<Rightarrow> ([], h, Inl e)
           | Inr ts2 \<Rightarrow>
               (case handler_execute handler (query args) h of
                 (Inr v, h') \<Rightarrow>
                   (writeMessageBegin ''execute'' REPLY seqid @
                    execute_result_write execute_result_init @
                    writeMessageEnd @ flush, h', Inr ts2)
               | (Inl (HiveServerExn ex), h') \<Rightarrow>
                   (writeMessageBegin ''execute'' REPLY seqid @
                    execute_result_write (execute_result_init\<lparr>execute_ex := Some ex\<rparr>) @
                    writeMessageEnd @ flush, h', Inr ts2)
               | (Inl e, h') \<Rightarrow> ([], h', Inl e))))"

definition process_fetchOne :: "'h process_fn" where
  "process_fetchOne handler seqid iprot h =
     (case fetchOne_args_read iprot of Inl e \<Rightarrow> ([], h, Inl e)
      | Inr (args, ts1) \<Rightarrow>
          (case readMessageEnd ts1 of Inl e \<Rightarrow> ([], h, Inl e)
           | Inr ts2 \<Rightarrow>
               (case handler_fetchOne handler h of
                 (Inr v, h') \<Rightarrow>
                   (writeMessageBegin ''fetchOne'' REPLY seqid @
                    fetchOne_result_write (fetchOne_result_init\<lparr>fetchOne_success := v\<rparr>) @
                    writeMessageEnd @ flush, h', Inr ts2)
               | (Inl (HiveServerExn ex), h') \<Rightarrow>
                   (writeMessageBegin ''fetchOne'' REPLY seqid @
                    fetchOne_result_write (fetchOne_result_init\<lparr>fetchOne_ex := Some ex\<rparr>) @
                    writeMessageEnd @ flush, h', Inr ts2)
               | (Inl e, h') \<Rightarrow> ([], h', Inl e))))"

definition process_fetchN :: "'h process_fn" where
  "process_fetchN handler seqid iprot h =
     (case fetchN_args_read iprot of Inl e \<Rightarrow> ([], h, Inl e)
      | Inr (args, ts1) \<Rightarrow>
          (case readMessageEnd ts1 of Inl e \<Rightarrow> ([], h, Inl e)
           | Inr ts2 \<Rightarrow>
               (case handler_fetchN handler (numRows args) h of
                 (Inr v, h') \<Rightarrow>
                   (writeMessageBegin ''fetchN'' REPLY seqid @
                    fetchN_result_write (fetchN_result_init\<lparr>fetchN_success := v\<rparr>) @
                    writeMessageEnd @ flush, h', Inr ts2)
               | (Inl (HiveServerExn ex), h') \<Rightarrow>
                   (writeMessageBegin ''fetchN'' REPLY seqid @
                    fetchN_result_write (fetchN_result_init\<lparr>fetchN_ex := Some ex\<rparr>) @
                    writeMessageEnd @ flush, h', Inr ts2)
               | (Inl e, h') \<Rightarrow> ([], h', Inl e))))"

definition process_fetchAll :: "'h process_fn" where
  "process_fetchAll handler seqid iprot h =
     (case fetchAll_args_read iprot of Inl e \<Rightarrow> ([], h, Inl e)
      | Inr (args, ts1) \<Rightarrow>
          (case readMessageEnd ts1 of Inl e \<Rightarrow> ([], h, Inl e)
           | Inr ts2 \<Rightarrow>
               (case handler_fetchAll handler h of
                 (Inr v, h') \<Rightarrow>
                   (writeMessageBegin ''fetchAll'' REPLY seqid @
                    fetchAll_result_write (fetchAll_result_init\<lparr>fetchAll_success := v\<rparr>) @
                    writeMessageEnd @ flush, h', Inr ts2)
               | (Inl (HiveServerExn ex), h') \<Rightarrow>
                   (writeMessageBegin ''fetchAll'' REPLY seqid @
                    fetchAll_result_write (fetchAll_result_init\<lparr>fetchAll_ex := Some ex\<rparr>) @
                    writeMessageEnd @ flush, h', Inr ts2)
               | (Inl e, h') \<Rightarrow> ([], h', Inl e))))"

definition process_getSchema :: "'h process_fn" where
  "process_getSchema handler seqid iprot h =
     (case getSchema_args_read iprot of Inl e \<Rightarrow> ([], h, Inl e)
      | Inr (args, ts1) \<Rightarrow>
          (case readMessageEnd ts1 of Inl e \<Rightarrow> ([], h, Inl e)
           | Inr ts2 \<Rightarrow>
               (case handler_getSchema handler h of
                 (Inr v, h') \<Rightarrow>
                   (writeMessageBegin ''getSchema'' REPLY seqid @
                    getSchema_result_write (getSchema_result_init\<lparr>getSchema_success := v\<rparr>) @
                    writeMessageEnd @ flush, h', Inr ts2)
               | (Inl (HiveServerExn ex), h') \<Rightarrow>
                   (writeMessageBegin ''getSchema'' REPLY seqid @
                    getSchema_result_write (getSchema_result_init\<lparr>getSchema_ex := Some ex\<rparr>) @
                    writeMessageEnd @ flush, h', Inr ts2)
               | (Inl e, h') \<Rightarrow> ([], h', Inl e))))"

text \<open>
  \<^verbatim>\<open>Processor.__init__\<close> first runs the constructor of the metastore processor it
  inherits from, which fills \<^verbatim>\<open>_processMap\<close> with the metastore operations, and then
  enters the five operations of this service. The inherited entries are not among the
  sources and are taken as the parameter \<open>inherited\<close>.
\<close>

definition processMap :: "(string \<rightharpoonup> 'h process_fn) \<Rightarrow> (string \<rightharpoonup> 'h process_fn)" where
  "processMap inherited =
     inherited(''execute'' \<mapsto> process_execute,
               ''fetchOne'' \<mapsto> process_fetchOne,
               ''fetchN'' \<mapsto> process_fetchN,
               ''fetchAll'' \<mapsto> process_fetchAll,
               ''getSchema'' \<mapsto> process_getSchema)"

text \<open>
  \<^verbatim>\<open>Processor.process\<close>. Its return value is \<^verbatim>\<open>None\<close> after the reply to an unknown
  name and \<^verbatim>\<open>True\<close> after a dispatch.
\<close>

definition process ::
  "(string \<rightharpoonup> 'h process_fn) \<Rightarrow> 'h Iface \<Rightarrow> token list \<Rightarrow> 'h \<Rightarrow>
   token list \<times> 'h \<times> (exn + (bool option \<times> token list))" where
  "process inherited handler iprot h =
     (case readMessageBegin iprot of Inl e \<Rightarrow> ([], h, Inl e)
      | Inr ((name, type, seqid), ts1) \<Rightarrow>
          (case processMap inherited name of
             None \<Rightarrow>
               (case skip T_STRUCT ts1 of Inl e \<Rightarrow> ([], h, Inl e)
                | Inr ts2 \<Rightarrow>
                    (case readMessageEnd ts2 of Inl e \<Rightarrow> ([], h, Inl e)
                     | Inr ts3 \<Rightarrow>
                         (let x = \<lparr>tapp_type = UNKNOWN_METHOD,
                                   tapp_message = Some (''Unknown function '' @ name)\<rparr>
                          in case TApplicationException_write x of
                               (w, Some e) \<Rightarrow>
                                 (writeMessageBegin name EXCEPTION seqid @ w, h, Inl e)
                             | (w, None) \<Rightarrow>
                                 (writeMessageBegin name EXCEPTION seqid @ w @
                                  writeMessageEnd @ flush, h, Inr (None, ts3)))))
           | Some f \<Rightarrow>
               (case f handler seqid ts1 h of
                  (w, h', Inl e) \<Rightarrow> (w, h', Inl e)
                | (w, h', Inr ts2) \<Rightarrow> (w, h', Inr (Some True, ts2)))))"

section \<open>Well-formed values on the wire\<close>

text \<open>
  What a peer can put behind a field header: a value of one of the wire types, written
  the way the protocol's writers write it. A struct value is its name and its fields
  (name, id, value); a container announces its element types and its size. The value is
  well formed when every element of a container has the announced type.
\<close>

datatype tval =
    VBool bool
  | VByte "8 word"
  | VDouble "64 word"
  | VI16 "16 word"
  | VI32 "32 word"
  | VI64 "64 word"
  | VString string
  | VStruct string "(string \<times> int \<times> tval) list"
  | VMap ttype ttype "(tval \<times> tval) list"
  | VSet ttype "tval list"
  | VList ttype "tval list"

fun ttype_of :: "tval \<Rightarrow> ttype" where
  "ttype_of (VBool b) = T_BOOL"
| "ttype_of (VByte w) = T_BYTE"
| "ttype_of (VDouble w) = T_DOUBLE"
| "ttype_of (VI16 w) = T_I16"
| "ttype_of (VI32 w) = T_I32"
| "ttype_of (VI64 w) = T_I64"
| "ttype_of (VString s) = T_STRING"
| "ttype_of (VStruct name fs) = T_STRUCT"
| "ttype_of (VMap ktype vtype kvs) = T_MAP"
| "ttype_of (VSet etype vs) = T_SET"
| "ttype_of (VList etype vs) = T_LIST"

fun encode :: "tval \<Rightarrow> token list" where
  "encode (VBool b) = [TBool b]"
| "encode (VByte w) = [TByte w]"
| "encode (VDouble w) = [TDouble w]"
| "encode (VI16 w) = [TI16 w]"
| "encode (VI32 w) = [TI32 w]"
| "encode (VI64 w) = [TI64 w]"
| "encode (VString s) = [TString s]"
| "encode (VStruct name fs) =
     StructBegin name #
     concat (map (\<lambda>(fname, fid, v). FieldBegin fname (ttype_of v) fid # encode v @ [FieldEnd])
                 fs) @
     [FieldStop, StructEnd]"
| "encode (VMap ktype vtype kvs) =
     MapBegin ktype vtype (int (length kvs)) #
     concat (map (\<lambda>(k, v). encode k @ encode v) kvs) @ [MapEnd]"
| "encode (VSet etype vs) =
     SetBegin etype (int (length vs)) # concat (map encode vs) @ [SetEnd]"
| "encode (VList etype vs) =
     ListBegin etype (int (length vs)) # concat (map encode vs) @ [ListEnd]"

fun well_formed :: "tval \<Rightarrow> bool" where
  "well_formed (VStruct name fs) = list_all (\<lambda>(fname, fid, v). well_formed v) fs"
| "well_formed (VMap ktype vtype kvs) =
     list_all (\<lambda>(k, v). ttype_of k = ktype \<and> ttype_of v = vtype \<and>
                          well_formed k \<and> well_formed v) kvs"
| "well_formed (VSet etype vs) = list_all (\<lambda>v. ttype_of v = etype \<and> well_formed v) vs"
| "well_formed (VList etype vs) = list_all (\<lambda>v. ttype_of v = etype \<and> well_formed v) vs"
| "well_formed _ = True"

subsection \<open>The tag tables\<close>

text \<open>
  \<^verbatim>\<open>thrift_spec\<close> of each struct, as the list of its entries: field id, wire type and
  field name. A field on the wire is unknown to a struct when the table has no entry
  with its id and its wire type: the id is not in the table, or the table has another
  wire type for it.
\<close>

definition execute_args_thrift_spec :: "(int \<times> ttype \<times> string) list" where
  "execute_args_thrift_spec = [(1, T_STRING, ''query'')]"

definition execute_result_thrift_spec :: "(int \<times> ttype \<times> string) list" where
  "execute_result_thrift_spec = [(1, T_STRUCT, ''ex'')]"

definition fetchOne_args_thrift_spec :: "(int \<times> ttype \<times> string) list" where
  "fetchOne_args_thrift_spec = []"

definition fetchOne_result_thrift_spec :: "(int \<times> ttype \<times> string) list" where
  "fetchOne_result_thrift_spec = [(0, T_STRING, ''success''), (1, T_STRUCT, ''ex'')]"

definition fetchN_args_thrift_spec :: "(int \<times> ttype \<times> string) list" where
  "fetchN_args_thrift_spec = [(1, T_I32, ''numRows'')]"

definition fetchN_result_thrift_spec :: "(int \<times> ttype \<times> string) list" where
  "fetchN_result_thrift_spec = [(0, T_LIST, ''success''), (1, T_STRUCT, ''ex'')]"

definition fetchAll_args_thrift_spec :: "(int \<times> ttype \<times> string) list" where
  "fetchAll_args_thrift_spec = []"

definition fetchAll_result_thrift_spec :: "(int \<times> ttype \<times> string) list" where
  "fetchAll_result_thrift_spec = [(0, T_LIST, ''success''), (1, T_STRUCT, ''ex'')]"

definition getSchema_args_thrift_spec :: "(int \<times> ttype \<times> string) list" where
  "getSchema_args_thrift_spec = []"

definition getSchema_result_thrift_spec :: "(int \<times> ttype \<times> string) list" where
  "getSchema_result_thrift_spec = [(0, T_STRING, ''success''), (1, T_STRUCT, ''ex'')]"

fun unknown_field :: "(int \<times> ttype \<times> string) list \<Rightarrow> string \<times> int \<times> tval \<Rightarrow> bool" where
  "unknown_field spec (name, fid, v) =
     (well_formed v \<and> \<not> list_ex (\<lambda>(i, t, n). fid = i \<and> ttype_of v = t) spec)"

text \<open>A field as it travels: header, value, end of field.\<close>

fun encode_field :: "string \<times> int \<times> tval \<Rightarrow> token list" where
  "encode_field (name, fid, v) = FieldBegin name (ttype_of v) fid # encode v @ [FieldEnd]"

definition encode_fields :: "(string \<times> int \<times> tval) list \<Rightarrow> token list" where
  "encode_fields us = concat (map encode_field us)"

subsection \<open>Valid arguments\<close>

text \<open>
  \<^verbatim>\<open>numRows\<close> is declared \<^verbatim>\<open>TType.I32\<close> in \<^verbatim>\<open>fetchN_args.thrift_spec\<close>: a valid
  assignment of the field is \<^verbatim>\<open>None\<close> or an integer of the signed 32-bit range.
\<close>

definition i32 :: "int \<Rightarrow> bool" where
  "i32 i \<longleftrightarrow> - (2 ^ 31) \<le> i \<and> i < 2 ^ 31"

definition fetchN_args_valid :: "fetchN_args \<Rightarrow> bool" where
  "fetchN_args_valid a = (case numRows a of None \<Rightarrow> True | Some n \<Rightarrow> i32 n)"

section \<open>Running the read loops on a given input\<close>

text \<open>
  One equation per way a field header can go: the stop marker, each field of the tag
  table met with its own wire type, and any other header.
\<close>

lemmas write_defs =
  writeMessageBegin_def writeMessageEnd_def writeStructBegin_def writeStructEnd_def
  writeFieldBegin_def writeFieldEnd_def writeFieldStop_def writeListBegin_def
  writeListEnd_def writeString_def flush_def

lemma HiveServerException_read_loop_stop [simp]:
  "HiveServerException_read_loop self (FieldStop # ts) = Inr (self, ts)"
  by (subst HiveServerException_read_loop.simps) simp

lemma HiveServerException_read_loop_message [simp]:
  "HiveServerException_read_loop self (FieldBegin name T_STRING 1 # ts) =
     (case readString ts of Inl e \<Rightarrow> Inl e
      | Inr (s, r) \<Rightarrow>
          (case readFieldEnd r of Inl e \<Rightarrow> Inl e
          | Inr ts3 \<Rightarrow> HiveServerException_read_loop (self\<lparr>hse_message := Some s\<rparr>) ts3))"
  by (subst HiveServerException_read_loop.simps) (simp split: sum.splits prod.splits)

lemma HiveServerException_read_loop_unknown:
  "ftype \<noteq> T_STOP \<Longrightarrow> \<not> (fid = 1 \<and> ftype = T_STRING) \<Longrightarrow> 
   HiveServerException_read_loop self (FieldBegin name ftype fid # ts) =
     (case skip ftype ts of Inl e \<Rightarrow> Inl e
      | Inr r \<Rightarrow>
          (case readFieldEnd r of Inl e \<Rightarrow> Inl e | Inr ts3 \<Rightarrow> HiveServerException_read_loop self ts3))"
  by (subst HiveServerException_read_loop.simps) (auto split: sum.splits prod.splits)

lemma TApplicationException_read_loop_stop [simp]:
  "TApplicationException_read_loop self (FieldStop # ts) = Inr (self, ts)"
  by (subst TApplicationException_read_loop.simps) simp

lemma TApplicationException_read_loop_message [simp]:
  "TApplicationException_read_loop self (FieldBegin name T_STRING 1 # ts) =
     (case readString ts of Inl e \<Rightarrow> Inl e
      | Inr (s, r) \<Rightarrow>
          (case readFieldEnd r of Inl e \<Rightarrow> Inl e
          | Inr ts3 \<Rightarrow> TApplicationException_read_loop (self\<lparr>tapp_message := Some s\<rparr>) ts3))"
  by (subst TApplicationException_read_loop.simps) (simp split: sum.splits prod.splits)

lemma TApplicationException_read_loop_type [simp]:
  "TApplicationException_read_loop self (FieldBegin name T_I32 2 # ts) =
     (case readI32 ts of Inl e \<Rightarrow> Inl e
      | Inr (i, r) \<Rightarrow>
          (case readFieldEnd r of Inl e \<Rightarrow> Inl e
          | Inr ts3 \<Rightarrow> TApplicationException_read_loop (self\<lparr>tapp_type := i\<rparr>) ts3))"
  by (subst TApplicationException_read_loop.simps) (simp split: sum.splits prod.splits)

lemma TApplicationException_read_loop_unknown:
  "ftype \<noteq> T_STOP \<Longrightarrow> \<not> (fid = 1 \<and> ftype = T_STRING \<or> fid = 2 \<and> ftype = T_I32) \<Longrightarrow> 
   TApplicationException_read_loop self (FieldBegin name ftype fid # ts) =
     (case skip ftype ts of Inl e \<Rightarrow> Inl e
      | Inr r \<Rightarrow>
          (case readFieldEnd r of Inl e \<Rightarrow> Inl e | Inr ts3 \<Rightarrow> TApplicationException_read_loop self ts3))"
  by (subst TApplicationException_read_loop.simps) (auto split: sum.splits prod.splits)

lemma execute_args_read_loop_stop [simp]:
  "execute_args_read_loop self (FieldStop # ts) = Inr (self, ts)"
  by (subst execute_args_read_loop.simps) simp

lemma execute_args_read_loop_query [simp]:
  "execute_args_read_loop self (FieldBegin name T_STRING 1 # ts) =
     (case readString ts of Inl e \<Rightarrow> Inl e
      | Inr (s, r) \<Rightarrow>
          (case readFieldEnd r of Inl e \<Rightarrow> Inl e
          | Inr ts3 \<Rightarrow> execute_args_read_loop (self\<lparr>query := Some s\<rparr>) ts3))"
  by (subst execute_args_read_loop.simps) (simp split: sum.splits prod.splits)

lemma execute_args_read_loop_unknown:
  "ftype \<noteq> T_STOP \<Longrightarrow> \<not> (fid = 1 \<and> ftype = T_STRING) \<Longrightarrow> 
   execute_args_read_loop self (FieldBegin name ftype fid # ts) =
     (case skip ftype ts of Inl e \<Rightarrow> Inl e
      | Inr r \<Rightarrow>
          (case readFieldEnd r of Inl e \<Rightarrow> Inl e | Inr ts3 \<Rightarrow> execute_args_read_loop self ts3))"
  by (subst execute_args_read_loop.simps) (auto split: sum.splits prod.splits)

lemma execute_result_read_loop_stop [simp]:
  "execute_result_read_loop self (FieldStop # ts) = Inr (self, ts)"
  by (subst execute_result_read_loop.simps) simp

lemma execute_result_read_loop_ex [simp]:
  "execute_result_read_loop self (FieldBegin name T_STRUCT 1 # ts) =
     (case HiveServerException_read ts of Inl e \<Rightarrow> Inl e
      | Inr (x, r) \<Rightarrow>
          (case readFieldEnd r of Inl e \<Rightarrow> Inl e
          | Inr ts3 \<Rightarrow> execute_result_read_loop (self\<lparr>execute_ex := Some x\<rparr>) ts3))"
  by (subst execute_result_read_loop.simps) (simp split: sum.splits prod.splits)

lemma execute_result_read_loop_unknown:
  "ftype \<noteq> T_STOP \<Longrightarrow> \<not> (fid = 1 \<and> ftype = T_STRUCT) \<Longrightarrow> 
   execute_result_read_loop self (FieldBegin name ftype fid # ts) =
     (case skip ftype ts of Inl e \<Rightarrow> Inl e
      | Inr r \<Rightarrow>
          (case readFieldEnd r of Inl e \<Rightarrow> Inl e | Inr ts3 \<Rightarrow> execute_result_read_loop self ts3))"
  by (subst execute_result_read_loop.simps) (auto split: sum.splits prod.splits)

lemma fetchOne_args_read_loop_stop [simp]:
  "fetchOne_args_read_loop self (FieldStop # ts) = Inr (self, ts)"
  by (subst fetchOne_args_read_loop.simps) simp

lemma fetchOne_args_read_loop_unknown:
  "ftype \<noteq> T_STOP \<Longrightarrow> 
   fetchOne_args_read_loop self (FieldBegin name ftype fid # ts) =
     (case skip ftype ts of Inl e \<Rightarrow> Inl e
      | Inr r \<Rightarrow>
          (case readFieldEnd r of Inl e \<Rightarrow> Inl e | Inr ts3 \<Rightarrow> fetchOne_args_read_loop self ts3))"
  by (subst fetchOne_args_read_loop.simps) (auto split: sum.splits prod.splits)

lemma fetchOne_result_read_loop_stop [simp]:
  "fetchOne_result_read_loop self (FieldStop # ts) = Inr (self, ts)"
  by (subst fetchOne_result_read_loop.simps) simp

lemma fetchOne_result_read_loop_success [simp]:
  "fetchOne_result_read_loop self (FieldBegin name T_STRING 0 # ts) =
     (case readString ts of Inl e \<Rightarrow> Inl e
      | Inr (s, r) \<Rightarrow>
          (case readFieldEnd r of Inl e \<Rightarrow> Inl e
          | Inr ts3 \<Rightarrow> fetchOne_result_read_loop (self\<lparr>fetchOne_success := Some s\<rparr>) ts3))"
  by (subst fetchOne_result_read_loop.simps) (simp split: sum.splits prod.splits)

lemma fetchOne_result_read_loop_ex [simp]:
  "fetchOne_result_read_loop self (FieldBegin name T_STRUCT 1 # ts) =
     (case HiveServerException_read ts of Inl e \<Rightarrow> Inl e
      | Inr (x, r) \<Rightarrow>
          (case readFieldEnd r of Inl e \<Rightarrow> Inl e
          | Inr ts3 \<Rightarrow> fetchOne_result_read_loop (self\<lparr>fetchOne_ex := Some x\<rparr>) ts3))"
  by (subst fetchOne_result_read_loop.simps) (simp split: sum.splits prod.splits)

lemma fetchOne_result_read_loop_unknown:
  "ftype \<noteq> T_STOP \<Longrightarrow> \<not> (fid = 0 \<and> ftype = T_STRING \<or> fid = 1 \<and> ftype = T_STRUCT) \<Longrightarrow> 
   fetchOne_result_read_loop self (FieldBegin name ftype fid # ts) =
     (case skip ftype ts of Inl e \<Rightarrow> Inl e
      | Inr r \<Rightarrow>
          (case readFieldEnd r of Inl e \<Rightarrow> Inl e | Inr ts3 \<Rightarrow> fetchOne_result_read_loop self ts3))"
  by (subst fetchOne_result_read_loop.simps) (auto split: sum.splits prod.splits)

lemma fetchN_args_read_loop_stop [simp]:
  "fetchN_args_read_loop self (FieldStop # ts) = Inr (self, ts)"
  by (subst fetchN_args_read_loop.simps) simp

lemma fetchN_args_read_loop_numRows [simp]:
  "fetchN_args_read_loop self (FieldBegin name T_I32 1 # ts) =
     (case readI32 ts of Inl e \<Rightarrow> Inl e
      | Inr (i, r) \<Rightarrow>
          (case readFieldEnd r of Inl e \<Rightarrow> Inl e
          | Inr ts3 \<Rightarrow> fetchN_args_read_loop (self\<lparr>numRows := Some i\<rparr>) ts3))"
  by (subst fetchN_args_read_loop.simps) (simp split: sum.splits prod.splits)

lemma fetchN_args_read_loop_unknown:
  "ftype \<noteq> T_STOP \<Longrightarrow> \<not> (fid = 1 \<and> ftype = T_I32) \<Longrightarrow> 
   fetchN_args_read_loop self (FieldBegin name ftype fid # ts) =
     (case skip ftype ts of Inl e \<Rightarrow> Inl e
      | Inr r \<Rightarrow>
          (case readFieldEnd r of Inl e \<Rightarrow> Inl e | Inr ts3 \<Rightarrow> fetchN_args_read_loop self ts3))"
  by (subst fetchN_args_read_loop.simps) (auto split: sum.splits prod.splits)

lemma fetchN_result_read_loop_stop [simp]:
  "fetchN_result_read_loop self (FieldStop # ts) = Inr (self, ts)"
  by (subst fetchN_result_read_loop.simps) simp

lemma fetchN_result_read_loop_success [simp]:
  "fetchN_result_read_loop self (FieldBegin name T_LIST 0 # ts) =
     (case readListBegin ts of Inl e \<Rightarrow> Inl e
      | Inr ((etype, sz), r) \<Rightarrow>
          (case read_string_elems (nat sz) [] r of Inl e \<Rightarrow> Inl e
           | Inr (elems, r2) \<Rightarrow>
               (case readListEnd r2 of Inl e \<Rightarrow> Inl e
                | Inr r3 \<Rightarrow>
                    (case readFieldEnd r3 of Inl e \<Rightarrow> Inl e
                     | Inr ts3 \<Rightarrow> fetchN_result_read_loop (self\<lparr>fetchN_success := Some elems\<rparr>) ts3))))"
  by (subst fetchN_result_read_loop.simps) (simp split: sum.splits prod.splits)

lemma fetchN_result_read_loop_ex [simp]:
  "fetchN_result_read_loop self (FieldBegin name T_STRUCT 1 # ts) =
     (case HiveServerException_read ts of Inl e \<Rightarrow> Inl e
      | Inr (x, r) \<Rightarrow>
          (case readFieldEnd r of Inl e \<Rightarrow> Inl e
          | Inr ts3 \<Rightarrow> fetchN_result_read_loop (self\<lparr>fetchN_ex := Some x\<rparr>) ts3))"
  by (subst fetchN_result_read_loop.simps) (simp split: sum.splits prod.splits)

lemma fetchN_result_read_loop_unknown:
  "ftype \<noteq> T_STOP \<Longrightarrow> \<not> (fid = 0 \<and> ftype = T_LIST \<or> fid = 1 \<and> ftype = T_STRUCT) \<Longrightarrow> 
   fetchN_result_read_loop self (FieldBegin name ftype fid # ts) =
     (case skip ftype ts of Inl e \<Rightarrow> Inl e
      | Inr r \<Rightarrow>
          (case readFieldEnd r of Inl e \<Rightarrow> Inl e | Inr ts3 \<Rightarrow> fetchN_result_read_loop self ts3))"
  by (subst fetchN_result_read_loop.simps) (auto split: sum.splits prod.splits)

lemma fetchAll_args_read_loop_stop [simp]:
  "fetchAll_args_read_loop self (FieldStop # ts) = Inr (self, ts)"
  by (subst fetchAll_args_read_loop.simps) simp

lemma fetchAll_args_read_loop_unknown:
  "ftype \<noteq> T_STOP \<Longrightarrow> 
   fetchAll_args_read_loop self (FieldBegin name ftype fid # ts) =
     (case skip ftype ts of Inl e \<Rightarrow> Inl e
      | Inr r \<Rightarrow>
          (case readFieldEnd r of Inl e \<Rightarrow> Inl e | Inr ts3 \<Rightarrow> fetchAll_args_read_loop self ts3))"
  by (subst fetchAll_args_read_loop.simps) (auto split: sum.splits prod.splits)

lemma fetchAll_result_read_loop_stop [simp]:
  "fetchAll_result_read_loop self (FieldStop # ts) = Inr (self, ts)"
  by (subst fetchAll_result_read_loop.simps) simp

lemma fetchAll_result_read_loop_success [simp]:
  "fetchAll_result_read_loop self (FieldBegin name T_LIST 0 # ts) =
     (case readListBegin ts of Inl e \<Rightarrow> Inl e
      | Inr ((etype, sz), r) \<Rightarrow>
          (case read_string_elems (nat sz) [] r of Inl e \<Rightarrow> Inl e
           | Inr (elems, r2) \<Rightarrow>
               (case readListEnd r2 of Inl e \<Rightarrow> Inl e
                | Inr r3 \<Rightarrow>
                    (case readFieldEnd r3 of Inl e \<Rightarrow> Inl e
                     | Inr ts3 \<Rightarrow> fetchAll_result_read_loop (self\<lparr>fetchAll_success := Some elems\<rparr>) ts3))))"
  by (subst fetchAll_result_read_loop.simps) (simp split: sum.splits prod.splits)

lemma fetchAll_result_read_loop_ex [simp]:
  "fetchAll_result_read_loop self (FieldBegin name T_STRUCT 1 # ts) =
     (case HiveServerException_read ts of Inl e \<Rightarrow> Inl e
      | Inr (x, r) \<Rightarrow>
          (case readFieldEnd r of Inl e \<Rightarrow> Inl e
          | Inr ts3 \<Rightarrow> fetchAll_result_read_loop (self\<lparr>fetchAll_ex := Some x\<rparr>) ts3))"
  by (subst fetchAll_result_read_loop.simps) (simp split: sum.splits prod.splits)

lemma fetchAll_result_read_loop_unknown:
  "ftype \<noteq> T_STOP \<Longrightarrow> \<not> (fid = 0 \<and> ftype = T_LIST \<or> fid = 1 \<and> ftype = T_STRUCT) \<Longrightarrow> 
   fetchAll_result_read_loop self (FieldBegin name ftype fid # ts) =
     (case skip ftype ts of Inl e \<Rightarrow> Inl e
      | Inr r \<Rightarrow>
          (case readFieldEnd r of Inl e \<Rightarrow> Inl e | Inr ts3 \<Rightarrow> fetchAll_result_read_loop self ts3))"
  by (subst fetchAll_result_read_loop.simps) (auto split: sum.splits prod.splits)

lemma getSchema_args_read_loop_stop [simp]:
  "getSchema_args_read_loop self (FieldStop # ts) = Inr (self, ts)"
  by (subst getSchema_args_read_loop.simps) simp

lemma getSchema_args_read_loop_unknown:
  "ftype \<noteq> T_STOP \<Longrightarrow> 
   getSchema_args_read_loop self (FieldBegin name ftype fid # ts) =
     (case skip ftype ts of Inl e \<Rightarrow> Inl e
      | Inr r \<Rightarrow>
          (case readFieldEnd r of Inl e \<Rightarrow> Inl e | Inr ts3 \<Rightarrow> getSchema_args_read_loop self ts3))"
  by (subst getSchema_args_read_loop.simps) (auto split: sum.splits prod.splits)

lemma getSchema_result_read_loop_stop [simp]:
  "getSchema_result_read_loop self (FieldStop # ts) = Inr (self, ts)"
  by (subst getSchema_result_read_loop.simps) simp

lemma getSchema_result_read_loop_success [simp]:
  "getSchema_result_read_loop self (FieldBegin name T_STRING 0 # ts) =
     (case readString ts of Inl e \<Rightarrow> Inl e
      | Inr (s, r) \<Rightarrow>
          (case readFieldEnd r of Inl e \<Rightarrow> Inl e
          | Inr ts3 \<Rightarrow> getSchema_result_read_loop (self\<lparr>getSchema_success := Some s\<rparr>) ts3))"
  by (subst getSchema_result_read_loop.simps) (simp split: sum.splits prod.splits)

lemma getSchema_result_read_loop_ex [simp]:
  "getSchema_result_read_loop self (FieldBegin name T_STRUCT 1 # ts) =
     (case HiveServerException_read ts of Inl e \<Rightarrow> Inl e
      | Inr (x, r) \<Rightarrow>
          (case readFieldEnd r of Inl e \<Rightarrow> Inl e
          | Inr ts3 \<Rightarrow> getSchema_result_read_loop (self\<lparr>getSchema_ex := Some x\<rparr>) ts3))"
  by (subst getSchema_result_read_loop.simps) (simp split: sum.splits prod.splits)

lemma getSchema_result_read_loop_unknown:
  "ftype \<noteq> T_STOP \<Longrightarrow> \<not> (fid = 0 \<and> ftype = T_STRING \<or> fid = 1 \<and> ftype = T_STRUCT) \<Longrightarrow> 
   getSchema_result_read_loop self (FieldBegin name ftype fid # ts) =
     (case skip ftype ts of Inl e \<Rightarrow> Inl e
      | Inr r \<Rightarrow>
          (case readFieldEnd r of Inl e \<Rightarrow> Inl e | Inr ts3 \<Rightarrow> getSchema_result_read_loop self ts3))"
  by (subst getSchema_result_read_loop.simps) (auto split: sum.splits prod.splits)

section \<open>Round trips\<close>

lemma HiveServerException_roundtrip:
  "HiveServerException_read (HiveServerException_write x @ rest) = Inr (x, rest)"
  by (cases x; cases "hse_message x")
     (simp_all add: HiveServerException_read_def HiveServerException_write_def
        HiveServerException_init_def write_defs)

lemma read_string_elems_map:
  "read_string_elems (length xs) acc (map TString xs @ rest) = Inr (acc @ xs, rest)"
  by (induction xs arbitrary: acc) simp_all

lemma concat_writeString: "concat (map writeString xs) = map TString xs"
  by (induction xs) (simp_all add: writeString_def)

lemma sint_word_of_int_i32:
  "- (2 ^ 31) \<le> i \<Longrightarrow> i < 2 ^ 31 \<Longrightarrow> sint (word_of_int i :: 32 word) = i"
  by (simp add: sint_sbintrunc' signed_take_bit_int_eq_self)

lemma execute_args_roundtrip:
  "execute_args_read (execute_args_write a @ rest) = Inr (a, rest)"
  by (cases a; cases "query a")
     (simp_all add: execute_args_read_def execute_args_write_def execute_args_init_def
        write_defs)

lemma execute_result_roundtrip:
  "execute_result_read (execute_result_write a @ rest) = Inr (a, rest)"
  by (cases a; cases "execute_ex a")
     (simp_all add: execute_result_read_def execute_result_write_def execute_result_init_def
        write_defs HiveServerException_roundtrip)

lemma fetchOne_args_roundtrip:
  "fetchOne_args_read (fetchOne_args_write a @ rest) = Inr (a, rest)"
  by (cases a)
     (simp add: fetchOne_args_read_def fetchOne_args_write_def fetchOne_args_init_def
        write_defs)

lemma fetchOne_result_roundtrip:
  "fetchOne_result_read (fetchOne_result_write a @ rest) = Inr (a, rest)"
  by (cases a; cases "fetchOne_success a"; cases "fetchOne_ex a")
     (simp_all add: fetchOne_result_read_def fetchOne_result_write_def
        fetchOne_result_init_def write_defs HiveServerException_roundtrip)

lemma fetchN_args_roundtrip:
  assumes "fetchN_args_valid a"
  shows "snd (fetchN_args_write a) = None"
    and "fetchN_args_read (fst (fetchN_args_write a) @ rest) = Inr (a, rest)"
  using assms
  by (cases a; cases "numRows a";
      simp add: fetchN_args_read_def fetchN_args_write_def fetchN_args_init_def
        fetchN_args_valid_def write_defs writeI32_def i32_def sint_word_of_int_i32)+

lemma fetchN_result_roundtrip:
  "fetchN_result_read (fetchN_result_write a @ rest) = Inr (a, rest)"
  by (cases a; cases "fetchN_success a"; cases "fetchN_ex a")
     (simp_all add: fetchN_result_read_def fetchN_result_write_def
        fetchN_result_init_def write_defs HiveServerException_roundtrip
        concat_writeString read_string_elems_map [where acc = "[]", simplified])

lemma fetchAll_args_roundtrip:
  "fetchAll_args_read (fetchAll_args_write a @ rest) = Inr (a, rest)"
  by (cases a)
     (simp add: fetchAll_args_read_def fetchAll_args_write_def fetchAll_args_init_def
        write_defs)

lemma fetchAll_result_roundtrip:
  "fetchAll_result_read (fetchAll_result_write a @ rest) = Inr (a, rest)"
  by (cases a; cases "fetchAll_success a"; cases "fetchAll_ex a")
     (simp_all add: fetchAll_result_read_def fetchAll_result_write_def
        fetchAll_result_init_def write_defs HiveServerException_roundtrip
        concat_writeString read_string_elems_map [where acc = "[]", simplified])

lemma getSchema_args_roundtrip:
  "getSchema_args_read (getSchema_args_write a @ rest) = Inr (a, rest)"
  by (cases a)
     (simp add: getSchema_args_read_def getSchema_args_write_def getSchema_args_init_def
        write_defs)

lemma getSchema_result_roundtrip:
  "getSchema_result_read (getSchema_result_write a @ rest) = Inr (a, rest)"
  by (cases a; cases "getSchema_success a"; cases "getSchema_ex a")
     (simp_all add: getSchema_result_read_def getSchema_result_write_def
        getSchema_result_init_def write_defs HiveServerException_roundtrip)

section \<open>Skipping well-formed values\<close>

lemma ttype_of_not_STOP [simp]: "ttype_of v \<noteq> T_STOP"
  by (cases v) simp_all

lemma skip_run_Repeat_one:
  assumes "\<And>v k rest. v \<in> set vs \<Longrightarrow>
             skip_run (Skip etype # k) (encode v @ rest) = skip_run k rest"
  shows "skip_run (Repeat (length vs) [etype] # k) (concat (map encode vs) @ rest) =
         skip_run k rest"
  using assms
proof (induction vs)
  case Nil
  show ?case by (simp add: skip_run.simps(4))
next
  case (Cons v vs)
  have "skip_run (Repeat (length (v # vs)) [etype] # k) (concat (map encode (v # vs)) @ rest) =
        skip_run (Skip etype # Repeat (length vs) [etype] # k)
          (encode v @ concat (map encode vs) @ rest)"
    by (simp add: skip_run.simps(5))
  also have "\<dots> = skip_run (Repeat (length vs) [etype] # k) (concat (map encode vs) @ rest)"
    by (rule Cons.prems) simp
  also have "\<dots> = skip_run k rest"
    by (rule Cons.IH) (simp add: Cons.prems)
  finally show ?case .
qed

lemma skip_run_Repeat_two:
  assumes "\<And>a b k rest. (a, b) \<in> set kvs \<Longrightarrow>
             skip_run (Skip ktype # k) (encode a @ rest) = skip_run k rest"
    and "\<And>a b k rest. (a, b) \<in> set kvs \<Longrightarrow>
             skip_run (Skip vtype # k) (encode b @ rest) = skip_run k rest"
  shows "skip_run (Repeat (length kvs) [ktype, vtype] # k)
           (concat (map (\<lambda>(a, b). encode a @ encode b) kvs) @ rest) =
         skip_run k rest"
  using assms
proof (induction kvs)
  case Nil
  show ?case by (simp add: skip_run.simps(4))
next
  case (Cons kv kvs)
  obtain a b where kv: "kv = (a, b)" by (cases kv)
  have "skip_run (Repeat (length (kv # kvs)) [ktype, vtype] # k)
          (concat (map (\<lambda>(a, b). encode a @ encode b) (kv # kvs)) @ rest) =
        skip_run (Skip ktype # Skip vtype # Repeat (length kvs) [ktype, vtype] # k)
          (encode a @ encode b @ concat (map (\<lambda>(a, b). encode a @ encode b) kvs) @ rest)"
    by (simp add: skip_run.simps(5) kv)
  also have "\<dots> = skip_run (Skip vtype # Repeat (length kvs) [ktype, vtype] # k)
          (encode b @ concat (map (\<lambda>(a, b). encode a @ encode b) kvs) @ rest)"
    by (rule Cons.prems(1) [of a b]) (simp add: kv)
  also have "\<dots> = skip_run (Repeat (length kvs) [ktype, vtype] # k)
          (concat (map (\<lambda>(a, b). encode a @ encode b) kvs) @ rest)"
    by (rule Cons.prems(2) [of a b]) (simp add: kv)
  also have "\<dots> = skip_run k rest"
    by (rule Cons.IH) (metis Cons.prems(1) list.set_intros(2), metis Cons.prems(2) list.set_intros(2))
  finally show ?case .
qed

lemma skip_run_SkipFields:
  assumes "\<And>fname fid v k rest. (fname, fid, v) \<in> set fs \<Longrightarrow>
             skip_run (Skip (ttype_of v) # k) (encode v @ rest) = skip_run k rest"
  shows "skip_run (SkipFields # k)
           (concat (map (\<lambda>(fname, fid, v).
                           FieldBegin fname (ttype_of v) fid # encode v @ [FieldEnd]) fs) @
            FieldStop # rest) =
         skip_run k rest"
  using assms
proof (induction fs)
  case Nil
  show ?case by (simp add: skip_run.simps(3))
next
  case (Cons f fs)
  obtain fname fid v where f: "f = (fname, fid, v)" by (cases f)
  let ?tail = "concat (map (\<lambda>(fname, fid, v).
                           FieldBegin fname (ttype_of v) fid # encode v @ [FieldEnd]) fs) @
               FieldStop # rest"
  have "skip_run (SkipFields # k)
          (concat (map (\<lambda>(fname, fid, v).
                           FieldBegin fname (ttype_of v) fid # encode v @ [FieldEnd]) (f # fs)) @
           FieldStop # rest) =
        skip_run (Skip (ttype_of v) # EndField # SkipFields # k) (encode v @ FieldEnd # ?tail)"
    by (simp add: skip_run.simps(3) f)
  also have "\<dots> = skip_run (EndField # SkipFields # k) (FieldEnd # ?tail)"
    by (rule Cons.prems [of fname fid v]) (simp add: f)
  also have "\<dots> = skip_run (SkipFields # k) ?tail"
    by (simp add: skip_run.simps(7))
  also have "\<dots> = skip_run k rest"
    by (rule Cons.IH) (metis Cons.prems list.set_intros(2))
  finally show ?case .
qed

lemma skip_run_encode:
  "well_formed v \<Longrightarrow> skip_run (Skip (ttype_of v) # k) (encode v @ rest) = skip_run k rest"
proof (induction v arbitrary: k rest)
  case (VStruct name fs)
  have "skip_run (SkipFields # EndStruct # k)
          (concat (map (\<lambda>(fname, fid, v).
                           FieldBegin fname (ttype_of v) fid # encode v @ [FieldEnd]) fs) @
           FieldStop # StructEnd # rest) =
        skip_run (EndStruct # k) (StructEnd # rest)"
  proof (rule skip_run_SkipFields)
    fix fname fid v k' rest'
    assume m: "(fname, fid, v) \<in> set fs"
    with VStruct.prems have "well_formed v"
      by (auto simp: list_all_iff)
    with m show "skip_run (Skip (ttype_of v) # k') (encode v @ rest') = skip_run k' rest'"
      by (intro VStruct.IH [of "(fname, fid, v)" "(fid, v)" v]) auto
  qed
  then show ?case
    by (simp add: skip_run.simps(2) skip_run.simps(6))
next
  case (VMap ktype vtype kvs)
  have "skip_run (Repeat (length kvs) [ktype, vtype] # EndMap # k)
           (concat (map (\<lambda>(a, b). encode a @ encode b) kvs) @ MapEnd # rest) =
         skip_run (EndMap # k) (MapEnd # rest)"
  proof (rule skip_run_Repeat_two)
    fix a b k' rest'
    assume m: "(a, b) \<in> set kvs"
    with VMap.prems have w: "ttype_of a = ktype" "well_formed a"
      by (auto simp: list_all_iff)
    from m w(2) have "skip_run (Skip (ttype_of a) # k') (encode a @ rest') = skip_run k' rest'"
      by (intro VMap.IH(1) [of "(a, b)" a]) auto
    with w(1) show "skip_run (Skip ktype # k') (encode a @ rest') = skip_run k' rest'"
      by simp
  next
    fix a b k' rest'
    assume m: "(a, b) \<in> set kvs"
    with VMap.prems have w: "ttype_of b = vtype" "well_formed b"
      by (auto simp: list_all_iff)
    from m w(2) have "skip_run (Skip (ttype_of b) # k') (encode b @ rest') = skip_run k' rest'"
      by (intro VMap.IH(2) [of "(a, b)" b]) auto
    with w(1) show "skip_run (Skip vtype # k') (encode b @ rest') = skip_run k' rest'"
      by simp
  qed
  then show ?case
    by (simp add: skip_run.simps(2) skip_run.simps(8))
next
  case (VSet etype vs)
  have "skip_run (Repeat (length vs) [etype] # EndSet # k)
          (concat (map encode vs) @ SetEnd # rest) =
        skip_run (EndSet # k) (SetEnd # rest)"
  proof (rule skip_run_Repeat_one)
    fix v k' rest'
    assume m: "v \<in> set vs"
    with VSet.prems have w: "ttype_of v = etype" "well_formed v"
      by (auto simp: list_all_iff)
    from VSet.IH [OF m w(2)] w(1)
    show "skip_run (Skip etype # k') (encode v @ rest') = skip_run k' rest'"
      by simp
  qed
  then show ?case
    by (simp add: skip_run.simps(2) skip_run.simps(9))
next
  case (VList etype vs)
  have "skip_run (Repeat (length vs) [etype] # EndList # k)
          (concat (map encode vs) @ ListEnd # rest) =
        skip_run (EndList # k) (ListEnd # rest)"
  proof (rule skip_run_Repeat_one)
    fix v k' rest'
    assume m: "v \<in> set vs"
    with VList.prems have w: "ttype_of v = etype" "well_formed v"
      by (auto simp: list_all_iff)
    from VList.IH [OF m w(2)] w(1)
    show "skip_run (Skip etype # k') (encode v @ rest') = skip_run k' rest'"
      by simp
  qed
  then show ?case
    by (simp add: skip_run.simps(2) skip_run.simps(10))
qed (simp_all add: skip_run.simps(2))

lemma skip_encode: "well_formed v \<Longrightarrow> skip (ttype_of v) (encode v @ rest) = Inr rest"
  by (simp add: skip_def skip_run_encode skip_run.simps(1))

section \<open>Structs that carry unknown fields\<close>

lemma execute_args_read_loop_unknown_fields:
  "list_all (unknown_field execute_args_thrift_spec) us \<Longrightarrow>
   execute_args_read_loop a (encode_fields us @ rest) = execute_args_read_loop a rest"
  by (induction us)
     (auto simp: encode_fields_def execute_args_thrift_spec_def execute_args_read_loop_unknown skip_encode)

lemma execute_result_read_loop_unknown_fields:
  "list_all (unknown_field execute_result_thrift_spec) us \<Longrightarrow>
   execute_result_read_loop a (encode_fields us @ rest) = execute_result_read_loop a rest"
  by (induction us)
     (auto simp: encode_fields_def execute_result_thrift_spec_def execute_result_read_loop_unknown skip_encode)

lemma fetchOne_args_read_loop_unknown_fields:
  "list_all (unknown_field fetchOne_args_thrift_spec) us \<Longrightarrow>
   fetchOne_args_read_loop a (encode_fields us @ rest) = fetchOne_args_read_loop a rest"
  by (induction us)
     (auto simp: encode_fields_def fetchOne_args_thrift_spec_def fetchOne_args_read_loop_unknown skip_encode)

lemma fetchOne_result_read_loop_unknown_fields:
  "list_all (unknown_field fetchOne_result_thrift_spec) us \<Longrightarrow>
   fetchOne_result_read_loop a (encode_fields us @ rest) = fetchOne_result_read_loop a rest"
  by (induction us)
     (auto simp: encode_fields_def fetchOne_result_thrift_spec_def fetchOne_result_read_loop_unknown skip_encode)

lemma fetchN_args_read_loop_unknown_fields:
  "list_all (unknown_field fetchN_args_thrift_spec) us \<Longrightarrow>
   fetchN_args_read_loop a (encode_fields us @ rest) = fetchN_args_read_loop a rest"
  by (induction us)
     (auto simp: encode_fields_def fetchN_args_thrift_spec_def fetchN_args_read_loop_unknown skip_encode)

lemma fetchN_result_read_loop_unknown_fields:
  "list_all (unknown_field fetchN_result_thrift_spec) us \<Longrightarrow>
   fetchN_result_read_loop a (encode_fields us @ rest) = fetchN_result_read_loop a rest"
  by (induction us)
     (auto simp: encode_fields_def fetchN_result_thrift_spec_def fetchN_result_read_loop_unknown skip_encode)

lemma fetchAll_args_read_loop_unknown_fields:
  "list_all (unknown_field fetchAll_args_thrift_spec) us \<Longrightarrow>
   fetchAll_args_read_loop a (encode_fields us @ rest) = fetchAll_args_read_loop a rest"
  by (induction us)
     (auto simp: encode_fields_def fetchAll_args_thrift_spec_def fetchAll_args_read_loop_unknown skip_encode)

lemma fetchAll_result_read_loop_unknown_fields:
  "list_all (unknown_field fetchAll_result_thrift_spec) us \<Longrightarrow>
   fetchAll_result_read_loop a (encode_fields us @ rest) = fetchAll_result_read_loop a rest"
  by (induction us)
     (auto simp: encode_fields_def fetchAll_result_thrift_spec_def fetchAll_result_read_loop_unknown skip_encode)

lemma getSchema_args_read_loop_unknown_fields:
  "list_all (unknown_field getSchema_args_thrift_spec) us \<Longrightarrow>
   getSchema_args_read_loop a (encode_fields us @ rest) = getSchema_args_read_loop a rest"
  by (induction us)
     (auto simp: encode_fields_def getSchema_args_thrift_spec_def getSchema_args_read_loop_unknown skip_encode)

lemma getSchema_result_read_loop_unknown_fields:
  "list_all (unknown_field getSchema_result_thrift_spec) us \<Longrightarrow>
   getSchema_result_read_loop a (encode_fields us @ rest) = getSchema_result_read_loop a rest"
  by (induction us)
     (auto simp: encode_fields_def getSchema_result_thrift_spec_def getSchema_result_read_loop_unknown skip_encode)

lemma execute_args_read_with_unknown_fields:
  "list_all (unknown_field execute_args_thrift_spec) us1 \<Longrightarrow>
   list_all (unknown_field execute_args_thrift_spec) us2 \<Longrightarrow>
   execute_args_read
     (StructBegin sname #
      encode_fields us1 @
      (case query a of None \<Rightarrow> []
       | Some s \<Rightarrow> writeFieldBegin ''query'' T_STRING 1 @ writeString s @ writeFieldEnd) @
      encode_fields us2 @
      FieldStop # StructEnd # rest) =
     Inr (a, rest)"
  by (cases a; cases "query a")
     (simp_all add: execute_args_read_def execute_args_init_def write_defs
        execute_args_read_loop_unknown_fields)

lemma execute_result_read_with_unknown_fields:
  "list_all (unknown_field execute_result_thrift_spec) us1 \<Longrightarrow>
   list_all (unknown_field execute_result_thrift_spec) us2 \<Longrightarrow>
   execute_result_read
     (StructBegin sname #
      encode_fields us1 @
      (case execute_ex a of None \<Rightarrow> []
       | Some x \<Rightarrow>
           writeFieldBegin ''ex'' T_STRUCT 1 @ HiveServerException_write x @ writeFieldEnd) @
      encode_fields us2 @
      FieldStop # StructEnd # rest) =
     Inr (a, rest)"
  by (cases a; cases "execute_ex a")
     (simp_all add: execute_result_read_def execute_result_init_def write_defs
        execute_result_read_loop_unknown_fields HiveServerException_roundtrip)

lemma fetchOne_args_read_with_unknown_fields:
  "list_all (unknown_field fetchOne_args_thrift_spec) us1 \<Longrightarrow>
   fetchOne_args_read
     (StructBegin sname #
      encode_fields us1 @
      FieldStop # StructEnd # rest) =
     Inr (a, rest)"
  by (cases a)
     (simp_all add: fetchOne_args_read_def fetchOne_args_init_def write_defs
        fetchOne_args_read_loop_unknown_fields)

lemma fetchOne_result_read_with_unknown_fields:
  "list_all (unknown_field fetchOne_result_thrift_spec) us1 \<Longrightarrow>
   list_all (unknown_field fetchOne_result_thrift_spec) us2 \<Longrightarrow>
   list_all (unknown_field fetchOne_result_thrift_spec) us3 \<Longrightarrow>
   fetchOne_result_read
     (StructBegin sname #
      encode_fields us1 @
      (case fetchOne_success a of None \<Rightarrow> []
       | Some s \<Rightarrow> writeFieldBegin ''success'' T_STRING 0 @ writeString s @ writeFieldEnd) @
      encode_fields us2 @
      (case fetchOne_ex a of None \<Rightarrow> []
       | Some x \<Rightarrow>
           writeFieldBegin ''ex'' T_STRUCT 1 @ HiveServerException_write x @ writeFieldEnd) @
      encode_fields us3 @
      FieldStop # StructEnd # rest) =
     Inr (a, rest)"
  by (cases a; cases "fetchOne_success a"; cases "fetchOne_ex a")
     (simp_all add: fetchOne_result_read_def fetchOne_result_init_def write_defs
        fetchOne_result_read_loop_unknown_fields HiveServerException_roundtrip)

lemma fetchN_args_read_with_unknown_fields:
  "list_all (unknown_field fetchN_args_thrift_spec) us1 \<Longrightarrow>
   list_all (unknown_field fetchN_args_thrift_spec) us2 \<Longrightarrow>
   fetchN_args_valid a \<Longrightarrow>
   fetchN_args_read
     (StructBegin sname #
      encode_fields us1 @
      (case numRows a of None \<Rightarrow> []
       | Some n \<Rightarrow> writeFieldBegin ''numRows'' T_I32 1 @ fst (writeI32 n) @ writeFieldEnd) @
      encode_fields us2 @
      FieldStop # StructEnd # rest) =
     Inr (a, rest)"
  by (cases a; cases "numRows a")
     (simp_all add: fetchN_args_read_def fetchN_args_init_def write_defs
        fetchN_args_read_loop_unknown_fields fetchN_args_valid_def writeI32_def i32_def
        sint_word_of_int_i32)

lemma fetchN_result_read_with_unknown_fields:
  "list_all (unknown_field fetchN_result_thrift_spec) us1 \<Longrightarrow>
   list_all (unknown_field fetchN_result_thrift_spec) us2 \<Longrightarrow>
   list_all (unknown_field fetchN_result_thrift_spec) us3 \<Longrightarrow>
   fetchN_result_read
     (StructBegin sname #
      encode_fields us1 @
      (case fetchN_success a of None \<Rightarrow> []
       | Some xs \<Rightarrow>
           writeFieldBegin ''success'' T_LIST 0 @
           writeListBegin T_STRING (int (length xs)) @ concat (map writeString xs) @
           writeListEnd @ writeFieldEnd) @
      encode_fields us2 @
      (case fetchN_ex a of None \<Rightarrow> []
       | Some x \<Rightarrow>
           writeFieldBegin ''ex'' T_STRUCT 1 @ HiveServerException_write x @ writeFieldEnd) @
      encode_fields us3 @
      FieldStop # StructEnd # rest) =
     Inr (a, rest)"
  by (cases a; cases "fetchN_success a"; cases "fetchN_ex a")
     (simp_all add: fetchN_result_read_def fetchN_result_init_def write_defs
        fetchN_result_read_loop_unknown_fields HiveServerException_roundtrip
        concat_writeString read_string_elems_map [where acc = "[]", simplified])

lemma fetchAll_args_read_with_unknown_fields:
  "list_all (unknown_field fetchAll_args_thrift_spec) us1 \<Longrightarrow>
   fetchAll_args_read
     (StructBegin sname #
      encode_fields us1 @
      FieldStop # StructEnd # rest) =
     Inr (a, rest)"
  by (cases a)
     (simp_all add: fetchAll_args_read_def fetchAll_args_init_def write_defs
        fetchAll_args_read_loop_unknown_fields)

lemma fetchAll_result_read_with_unknown_fields:
  "list_all (unknown_field fetchAll_result_thrift_spec) us1 \<Longrightarrow>
   list_all (unknown_field fetchAll_result_thrift_spec) us2 \<Longrightarrow>
   list_all (unknown_field fetchAll_result_thrift_spec) us3 \<Longrightarrow>
   fetchAll_result_read
     (StructBegin sname #
      encode_fields us1 @
      (case fetchAll_success a of None \<Rightarrow> []
       | Some xs \<Rightarrow>
           writeFieldBegin ''success'' T_LIST 0 @
           writeListBegin T_STRING (int (length xs)) @ concat (map writeString xs) @
           writeListEnd @ writeFieldEnd) @
      encode_fields us2 @
      (case fetchAll_ex a of None \<Rightarrow> []
       | Some x \<Rightarrow>
           writeFieldBegin ''ex'' T_STRUCT 1 @ HiveServerException_write x @ writeFieldEnd) @
      encode_fields us3 @
      FieldStop # StructEnd # rest) =
     Inr (a, rest)"
  by (cases a; cases "fetchAll_success a"; cases "fetchAll_ex a")
     (simp_all add: fetchAll_result_read_def fetchAll_result_init_def write_defs
        fetchAll_result_read_loop_unknown_fields HiveServerException_roundtrip
        concat_writeString read_string_elems_map [where acc = "[]", simplified])

lemma getSchema_args_read_with_unknown_fields:
  "list_all (unknown_field getSchema_args_thrift_spec) us1 \<Longrightarrow>
   getSchema_args_read
     (StructBegin sname #
      encode_fields us1 @
      FieldStop # StructEnd # rest) =
     Inr (a, rest)"
  by (cases a)
     (simp_all add: getSchema_args_read_def getSchema_args_init_def write_defs
        getSchema_args_read_loop_unknown_fields)

lemma getSchema_result_read_with_unknown_fields:
  "list_all (unknown_field getSchema_result_thrift_spec) us1 \<Longrightarrow>
   list_all (unknown_field getSchema_result_thrift_spec) us2 \<Longrightarrow>
   list_all (unknown_field getSchema_result_thrift_spec) us3 \<Longrightarrow>
   getSchema_result_read
     (StructBegin sname #
      encode_fields us1 @
      (case getSchema_success a of None \<Rightarrow> []
       | Some s \<Rightarrow> writeFieldBegin ''success'' T_STRING 0 @ writeString s @ writeFieldEnd) @
      encode_fields us2 @
      (case getSchema_ex a of None \<Rightarrow> []
       | Some x \<Rightarrow>
           writeFieldBegin ''ex'' T_STRUCT 1 @ HiveServerException_write x @ writeFieldEnd) @
      encode_fields us3 @
      FieldStop # StructEnd # rest) =
     Inr (a, rest)"
  by (cases a; cases "getSchema_success a"; cases "getSchema_ex a")
     (simp_all add: getSchema_result_read_def getSchema_result_init_def write_defs
        getSchema_result_read_loop_unknown_fields HiveServerException_roundtrip)

section \<open>Properties of the structs\<close>

text \<open>
  C3. For every Args and Result struct of the five operations, reading back what the
  struct's \<^verbatim>\<open>write\<close> has written yields a struct equal to the original, whatever
  follows on the input, which is left untouched. The fields may be \<^verbatim>\<open>None\<close>, the
  strings and lists empty, and a result may even carry both \<^verbatim>\<open>success\<close> and \<^verbatim>\<open>ex\<close>.
  For \<^verbatim>\<open>fetchN_args\<close> the assignment has to be valid: \<^verbatim>\<open>numRows\<close> is \<^verbatim>\<open>None\<close> or
  lies in the signed 32-bit range; then \<^verbatim>\<open>write\<close> does not raise.
\<close>

theorem args_results_roundtrip:
  assumes "fetchN_args_valid a5"
  shows
    "execute_args_read (execute_args_write a1 @ rest) = Inr (a1, rest) \<and>
     execute_result_read (execute_result_write a2 @ rest) = Inr (a2, rest) \<and>
     fetchOne_args_read (fetchOne_args_write a3 @ rest) = Inr (a3, rest) \<and>
     fetchOne_result_read (fetchOne_result_write a4 @ rest) = Inr (a4, rest) \<and>
     snd (fetchN_args_write a5) = None \<and>
     fetchN_args_read (fst (fetchN_args_write a5) @ rest) = Inr (a5, rest) \<and>
     fetchN_result_read (fetchN_result_write a6 @ rest) = Inr (a6, rest) \<and>
     fetchAll_args_read (fetchAll_args_write a7 @ rest) = Inr (a7, rest) \<and>
     fetchAll_result_read (fetchAll_result_write a8 @ rest) = Inr (a8, rest) \<and>
     getSchema_args_read (getSchema_args_write a9 @ rest) = Inr (a9, rest) \<and>
     getSchema_result_read (getSchema_result_write a10 @ rest) = Inr (a10, rest)"
  using fetchN_args_roundtrip [OF assms]
  by (simp only: execute_args_roundtrip execute_result_roundtrip fetchOne_args_roundtrip
        fetchOne_result_roundtrip fetchN_result_roundtrip fetchAll_args_roundtrip
        fetchAll_result_roundtrip getSchema_args_roundtrip getSchema_result_roundtrip
        simp_thms)

theorem args_results_roundtrip_witness:
  "fetchN_args_valid \<lparr>numRows = Some 100\<rparr> \<and>
   snd (fetchN_args_write \<lparr>numRows = Some 100\<rparr>) = None \<and>
   fetchN_args_read (fst (fetchN_args_write \<lparr>numRows = Some 100\<rparr>) @ [MessageEnd]) =
     Inr (\<lparr>numRows = Some 100\<rparr>, [MessageEnd]) \<and>
   execute_args_read (execute_args_write \<lparr>query = Some ''select 1''\<rparr> @ [MessageEnd]) =
     Inr (\<lparr>query = Some ''select 1''\<rparr>, [MessageEnd]) \<and>
   fetchN_result_read
     (fetchN_result_write \<lparr>fetchN_success = Some [''a'', ''b''], fetchN_ex = None\<rparr> @
      [MessageEnd]) =
     Inr (\<lparr>fetchN_success = Some [''a'', ''b''], fetchN_ex = None\<rparr>, [MessageEnd])"
proof -
  have h: "fetchN_args_valid \<lparr>numRows = Some 100\<rparr>"
    by (simp add: fetchN_args_valid_def i32_def)
  show ?thesis
    using h
      args_results_roundtrip [OF h,
        where rest = "[MessageEnd]"
          and ?a1.0 = "\<lparr>query = Some ''select 1''\<rparr>"
          and ?a6.0 = "\<lparr>fetchN_success = Some [''a'', ''b''], fetchN_ex = None\<rparr>"]
    by simp
qed

text \<open>
  C7. In every \<^verbatim>\<open>read\<close> method of the ten structs, fields that the struct does not
  know are passed over without a failure and decoding goes on with what follows. A
  field is unknown when its id is not in the tag table or when its wire type is not
  the one the table has for that id; it carries any well-formed value of its wire
  type. For each struct there are two statements. In the loop, unknown fields in front
  of any input are consumed and the loop goes on with the rest, keeping the fields
  decoded so far (\<open>a1\<close> to \<open>a10\<close>). For the whole \<^verbatim>\<open>read\<close>: take what \<^verbatim>\<open>write\<close>
  writes for a struct and put any number of unknown fields before, between and after
  its own fields; \<^verbatim>\<open>read\<close> then returns the struct itself, every known field
  decoded to the value written, and leaves the input that follows the struct.
\<close>

theorem unknown_field_skipped:
  "(list_all (unknown_field execute_args_thrift_spec) us1 \<longrightarrow>
       execute_args_read_loop a1 (encode_fields us1 @ rest) = execute_args_read_loop a1 rest) \<and>
    (list_all (unknown_field execute_args_thrift_spec) us1 \<and>
     list_all (unknown_field execute_args_thrift_spec) us2 \<longrightarrow>
       execute_args_read
         (StructBegin sname #
          encode_fields us1 @
          (case query a1 of None \<Rightarrow> []
           | Some s \<Rightarrow> writeFieldBegin ''query'' T_STRING 1 @ writeString s @ writeFieldEnd) @
          encode_fields us2 @
          FieldStop # StructEnd # rest) =
         Inr (a1, rest)) \<and>
    (list_all (unknown_field execute_result_thrift_spec) us1 \<longrightarrow>
       execute_result_read_loop a2 (encode_fields us1 @ rest) = execute_result_read_loop a2 rest) \<and>
    (list_all (unknown_field execute_result_thrift_spec) us1 \<and>
     list_all (unknown_field execute_result_thrift_spec) us2 \<longrightarrow>
       execute_result_read
         (StructBegin sname #
          encode_fields us1 @
          (case execute_ex a2 of None \<Rightarrow> []
           | Some x \<Rightarrow>
               writeFieldBegin ''ex'' T_STRUCT 1 @ HiveServerException_write x @ writeFieldEnd) @
          encode_fields us2 @
          FieldStop # StructEnd # rest) =
         Inr (a2, rest)) \<and>
    (list_all (unknown_field fetchOne_args_thrift_spec) us1 \<longrightarrow>
       fetchOne_args_read_loop a3 (encode_fields us1 @ rest) = fetchOne_args_read_loop a3 rest) \<and>
    (list_all (unknown_field fetchOne_args_thrift_spec) us1 \<longrightarrow>
       fetchOne_args_read
         (StructBegin sname #
          encode_fields us1 @
          FieldStop # StructEnd # rest) =
         Inr (a3, rest)) \<and>
    (list_all (unknown_field fetchOne_result_thrift_spec) us1 \<longrightarrow>
       fetchOne_result_read_loop a4 (encode_fields us1 @ rest) = fetchOne_result_read_loop a4 rest) \<and>
    (list_all (unknown_field fetchOne_result_thrift_spec) us1 \<and>
     list_all (unknown_field fetchOne_result_thrift_spec) us2 \<and>
     list_all (unknown_field fetchOne_result_thrift_spec) us3 \<longrightarrow>
       fetchOne_result_read
         (StructBegin sname #
          encode_fields us1 @
          (case fetchOne_success a4 of None \<Rightarrow> []
           | Some s \<Rightarrow> writeFieldBegin ''success'' T_STRING 0 @ writeString s @ writeFieldEnd) @
          encode_fields us2 @
          (case fetchOne_ex a4 of None \<Rightarrow> []
           | Some x \<Rightarrow>
               writeFieldBegin ''ex'' T_STRUCT 1 @ HiveServerException_write x @ writeFieldEnd) @
          encode_fields us3 @
          FieldStop # StructEnd # rest) =
         Inr (a4, rest)) \<and>
    (list_all (unknown_field fetchN_args_thrift_spec) us1 \<longrightarrow>
       fetchN_args_read_loop a5 (encode_fields us1 @ rest) = fetchN_args_read_loop a5 rest) \<and>
    (list_all (unknown_field fetchN_args_thrift_spec) us1 \<and>
     list_all (unknown_field fetchN_args_thrift_spec) us2 \<and>
     fetchN_args_valid a5 \<longrightarrow>
       fetchN_args_read
         (StructBegin sname #
          encode_fields us1 @
          (case numRows a5 of None \<Rightarrow> []
           | Some n \<Rightarrow> writeFieldBegin ''numRows'' T_I32 1 @ fst (writeI32 n) @ writeFieldEnd) @
          encode_fields us2 @
          FieldStop # StructEnd # rest) =
         Inr (a5, rest)) \<and>
    (list_all (unknown_field fetchN_result_thrift_spec) us1 \<longrightarrow>
       fetchN_result_read_loop a6 (encode_fields us1 @ rest) = fetchN_result_read_loop a6 rest) \<and>
    (list_all (unknown_field fetchN_result_thrift_spec) us1 \<and>
     list_all (unknown_field fetchN_result_thrift_spec) us2 \<and>
     list_all (unknown_field fetchN_result_thrift_spec) us3 \<longrightarrow>
       fetchN_result_read
         (StructBegin sname #
          encode_fields us1 @
          (case fetchN_success a6 of None \<Rightarrow> []
           | Some xs \<Rightarrow>
               writeFieldBegin ''success'' T_LIST 0 @
               writeListBegin T_STRING (int (length xs)) @ concat (map writeString xs) @
               writeListEnd @ writeFieldEnd) @
          encode_fields us2 @
          (case fetchN_ex a6 of None \<Rightarrow> []
           | Some x \<Rightarrow>
               writeFieldBegin ''ex'' T_STRUCT 1 @ HiveServerException_write x @ writeFieldEnd) @
          encode_fields us3 @
          FieldStop # StructEnd # rest) =
         Inr (a6, rest)) \<and>
    (list_all (unknown_field fetchAll_args_thrift_spec) us1 \<longrightarrow>
       fetchAll_args_read_loop a7 (encode_fields us1 @ rest) = fetchAll_args_read_loop a7 rest) \<and>
    (list_all (unknown_field fetchAll_args_thrift_spec) us1 \<longrightarrow>
       fetchAll_args_read
         (StructBegin sname #
          encode_fields us1 @
          FieldStop # StructEnd # rest) =
         Inr (a7, rest)) \<and>
    (list_all (unknown_field fetchAll_result_thrift_spec) us1 \<longrightarrow>
       fetchAll_result_read_loop a8 (encode_fields us1 @ rest) = fetchAll_result_read_loop a8 rest) \<and>
    (list_all (unknown_field fetchAll_result_thrift_spec) us1 \<and>
     list_all (unknown_field fetchAll_result_thrift_spec) us2 \<and>
     list_all (unknown_field fetchAll_result_thrift_spec) us3 \<longrightarrow>
       fetchAll_result_read
         (StructBegin sname #
          encode_fields us1 @
          (case fetchAll_success a8 of None \<Rightarrow> []
           | Some xs \<Rightarrow>
               writeFieldBegin ''success'' T_LIST 0 @
               writeListBegin T_STRING (int (length xs)) @ concat (map writeString xs) @
               writeListEnd @ writeFieldEnd) @
          encode_fields us2 @
          (case fetchAll_ex a8 of None \<Rightarrow> []
           | Some x \<Rightarrow>
               writeFieldBegin ''ex'' T_STRUCT 1 @ HiveServerException_write x @ writeFieldEnd) @
          encode_fields us3 @
          FieldStop # StructEnd # rest) =
         Inr (a8, rest)) \<and>
    (list_all (unknown_field getSchema_args_thrift_spec) us1 \<longrightarrow>
       getSchema_args_read_loop a9 (encode_fields us1 @ rest) = getSchema_args_read_loop a9 rest) \<and>
    (list_all (unknown_field getSchema_args_thrift_spec) us1 \<longrightarrow>
       getSchema_args_read
         (StructBegin sname #
          encode_fields us1 @
          FieldStop # StructEnd # rest) =
         Inr (a9, rest)) \<and>
    (list_all (unknown_field getSchema_result_thrift_spec) us1 \<longrightarrow>
       getSchema_result_read_loop a10 (encode_fields us1 @ rest) = getSchema_result_read_loop a10 rest) \<and>
    (list_all (unknown_field getSchema_result_thrift_spec) us1 \<and>
     list_all (unknown_field getSchema_result_thrift_spec) us2 \<and>
     list_all (unknown_field getSchema_result_thrift_spec) us3 \<longrightarrow>
       getSchema_result_read
         (StructBegin sname #
          encode_fields us1 @
          (case getSchema_success a10 of None \<Rightarrow> []
           | Some s \<Rightarrow> writeFieldBegin ''success'' T_STRING 0 @ writeString s @ writeFieldEnd) @
          encode_fields us2 @
          (case getSchema_ex a10 of None \<Rightarrow> []
           | Some x \<Rightarrow>
               writeFieldBegin ''ex'' T_STRUCT 1 @ HiveServerException_write x @ writeFieldEnd) @
          encode_fields us3 @
          FieldStop # StructEnd # rest) =
         Inr (a10, rest))"
  by (simp add: execute_args_read_loop_unknown_fields execute_args_read_with_unknown_fields
        execute_result_read_loop_unknown_fields execute_result_read_with_unknown_fields
        fetchOne_args_read_loop_unknown_fields fetchOne_args_read_with_unknown_fields
        fetchOne_result_read_loop_unknown_fields fetchOne_result_read_with_unknown_fields
        fetchN_args_read_loop_unknown_fields fetchN_args_read_with_unknown_fields
        fetchN_result_read_loop_unknown_fields fetchN_result_read_with_unknown_fields
        fetchAll_args_read_loop_unknown_fields fetchAll_args_read_with_unknown_fields
        fetchAll_result_read_loop_unknown_fields fetchAll_result_read_with_unknown_fields
        getSchema_args_read_loop_unknown_fields getSchema_args_read_with_unknown_fields
        getSchema_result_read_loop_unknown_fields getSchema_result_read_with_unknown_fields)

theorem unknown_field_skipped_witness:
  "list_all (unknown_field execute_args_thrift_spec)
     ([(''extra'', 7, VList T_I32 [VI32 7, VI32 8])] @
      [(''success'', 0, VI64 5), (''ex'', 1, VBool True)] @
      [(''note'', 9, VStruct ''n'' [(''k'', 1, VString ''v'')])]) \<and>
   list_all (unknown_field execute_result_thrift_spec)
     ([(''extra'', 7, VList T_I32 [VI32 7, VI32 8])] @
      [(''success'', 0, VI64 5), (''ex'', 1, VBool True)] @
      [(''note'', 9, VStruct ''n'' [(''k'', 1, VString ''v'')])]) \<and>
   list_all (unknown_field fetchOne_args_thrift_spec)
     ([(''extra'', 7, VList T_I32 [VI32 7, VI32 8])] @
      [(''success'', 0, VI64 5), (''ex'', 1, VBool True)] @
      [(''note'', 9, VStruct ''n'' [(''k'', 1, VString ''v'')])]) \<and>
   list_all (unknown_field fetchOne_result_thrift_spec)
     ([(''extra'', 7, VList T_I32 [VI32 7, VI32 8])] @
      [(''success'', 0, VI64 5), (''ex'', 1, VBool True)] @
      [(''note'', 9, VStruct ''n'' [(''k'', 1, VString ''v'')])]) \<and>
   list_all (unknown_field fetchN_args_thrift_spec)
     ([(''extra'', 7, VList T_I32 [VI32 7, VI32 8])] @
      [(''success'', 0, VI64 5), (''ex'', 1, VBool True)] @
      [(''note'', 9, VStruct ''n'' [(''k'', 1, VString ''v'')])]) \<and>
   list_all (unknown_field fetchN_result_thrift_spec)
     ([(''extra'', 7, VList T_I32 [VI32 7, VI32 8])] @
      [(''success'', 0, VI64 5), (''ex'', 1, VBool True)] @
      [(''note'', 9, VStruct ''n'' [(''k'', 1, VString ''v'')])]) \<and>
   list_all (unknown_field fetchAll_args_thrift_spec)
     ([(''extra'', 7, VList T_I32 [VI32 7, VI32 8])] @
      [(''success'', 0, VI64 5), (''ex'', 1, VBool True)] @
      [(''note'', 9, VStruct ''n'' [(''k'', 1, VString ''v'')])]) \<and>
   list_all (unknown_field fetchAll_result_thrift_spec)
     ([(''extra'', 7, VList T_I32 [VI32 7, VI32 8])] @
      [(''success'', 0, VI64 5), (''ex'', 1, VBool True)] @
      [(''note'', 9, VStruct ''n'' [(''k'', 1, VString ''v'')])]) \<and>
   list_all (unknown_field getSchema_args_thrift_spec)
     ([(''extra'', 7, VList T_I32 [VI32 7, VI32 8])] @
      [(''success'', 0, VI64 5), (''ex'', 1, VBool True)] @
      [(''note'', 9, VStruct ''n'' [(''k'', 1, VString ''v'')])]) \<and>
   list_all (unknown_field getSchema_result_thrift_spec)
     ([(''extra'', 7, VList T_I32 [VI32 7, VI32 8])] @
      [(''success'', 0, VI64 5), (''ex'', 1, VBool True)] @
      [(''note'', 9, VStruct ''n'' [(''k'', 1, VString ''v'')])]) \<and>
   fetchN_args_valid \<lparr>numRows = Some 5\<rparr> \<and>
   execute_args_read
     [StructBegin ''execute_args'', FieldBegin ''extra'' T_LIST 7, ListBegin T_I32 2,
      TI32 7, TI32 8, ListEnd, FieldEnd, FieldBegin ''query'' T_STRING 1,
      TString ''select 1'', FieldEnd, FieldBegin ''success'' T_I64 0, TI64 5, FieldEnd,
      FieldBegin ''ex'' T_BOOL 1, TBool True, FieldEnd, FieldStop, StructEnd, MessageEnd] =
     Inr (\<lparr>query = Some ''select 1''\<rparr>, [MessageEnd]) \<and>
   execute_result_read
     [StructBegin ''execute_result'', FieldBegin ''extra'' T_LIST 7, ListBegin T_I32 2,
      TI32 7, TI32 8, ListEnd, FieldEnd, FieldBegin ''ex'' T_STRUCT 1,
      StructBegin ''HiveServerException'', FieldBegin ''message'' T_STRING 1,
      TString ''no table'', FieldEnd, FieldStop, StructEnd, FieldEnd,
      FieldBegin ''success'' T_I64 0, TI64 5, FieldEnd, FieldBegin ''ex'' T_BOOL 1,
      TBool True, FieldEnd, FieldStop, StructEnd, MessageEnd] =
     Inr (\<lparr>execute_ex = Some \<lparr>hse_message = Some ''no table''\<rparr>\<rparr>, [MessageEnd]) \<and>
   fetchOne_args_read
     [StructBegin ''fetchOne_args'', FieldBegin ''extra'' T_LIST 7, ListBegin T_I32 2,
      TI32 7, TI32 8, ListEnd, FieldEnd, FieldStop, StructEnd, MessageEnd] =
     Inr (fetchOne_args, [MessageEnd]) \<and>
   fetchOne_result_read
     [StructBegin ''fetchOne_result'', FieldBegin ''extra'' T_LIST 7, ListBegin T_I32 2,
      TI32 7, TI32 8, ListEnd, FieldEnd, FieldBegin ''success'' T_STRING 0,
      TString ''row'', FieldEnd, FieldBegin ''success'' T_I64 0, TI64 5, FieldEnd,
      FieldBegin ''ex'' T_BOOL 1, TBool True, FieldEnd, FieldBegin ''note'' T_STRUCT 9,
      StructBegin ''n'', FieldBegin ''k'' T_STRING 1, TString ''v'', FieldEnd, FieldStop,
      StructEnd, FieldEnd, FieldStop, StructEnd, MessageEnd] =
     Inr (\<lparr>fetchOne_success = Some ''row'', fetchOne_ex = None\<rparr>, [MessageEnd]) \<and>
   fetchN_args_read
     [StructBegin ''fetchN_args'', FieldBegin ''extra'' T_LIST 7, ListBegin T_I32 2,
      TI32 7, TI32 8, ListEnd, FieldEnd, FieldBegin ''numRows'' T_I32 1, TI32 5, FieldEnd,
      FieldBegin ''success'' T_I64 0, TI64 5, FieldEnd, FieldBegin ''ex'' T_BOOL 1,
      TBool True, FieldEnd, FieldStop, StructEnd, MessageEnd] =
     Inr (\<lparr>numRows = Some 5\<rparr>, [MessageEnd]) \<and>
   fetchN_result_read
     [StructBegin ''fetchN_result'', FieldBegin ''extra'' T_LIST 7, ListBegin T_I32 2,
      TI32 7, TI32 8, ListEnd, FieldEnd, FieldBegin ''success'' T_LIST 0,
      ListBegin T_STRING 2, TString ''a'', TString ''b'', ListEnd, FieldEnd,
      FieldBegin ''success'' T_I64 0, TI64 5, FieldEnd, FieldBegin ''ex'' T_BOOL 1,
      TBool True, FieldEnd, FieldBegin ''ex'' T_STRUCT 1,
      StructBegin ''HiveServerException'', FieldBegin ''message'' T_STRING 1,
      TString ''no table'', FieldEnd, FieldStop, StructEnd, FieldEnd,
      FieldBegin ''note'' T_STRUCT 9, StructBegin ''n'', FieldBegin ''k'' T_STRING 1,
      TString ''v'', FieldEnd, FieldStop, StructEnd, FieldEnd, FieldStop, StructEnd,
      MessageEnd] =
     Inr (\<lparr>fetchN_success = Some [''a'', ''b''], fetchN_ex = Some \<lparr>hse_message = Some ''no table''\<rparr>\<rparr>, [MessageEnd]) \<and>
   fetchAll_args_read
     [StructBegin ''fetchAll_args'', FieldBegin ''extra'' T_LIST 7, ListBegin T_I32 2,
      TI32 7, TI32 8, ListEnd, FieldEnd, FieldStop, StructEnd, MessageEnd] =
     Inr (fetchAll_args, [MessageEnd]) \<and>
   fetchAll_result_read
     [StructBegin ''fetchAll_result'', FieldBegin ''extra'' T_LIST 7, ListBegin T_I32 2,
      TI32 7, TI32 8, ListEnd, FieldEnd, FieldBegin ''success'' T_LIST 0,
      ListBegin T_STRING 0, ListEnd, FieldEnd, FieldBegin ''success'' T_I64 0, TI64 5,
      FieldEnd, FieldBegin ''ex'' T_BOOL 1, TBool True, FieldEnd,
      FieldBegin ''note'' T_STRUCT 9, StructBegin ''n'', FieldBegin ''k'' T_STRING 1,
      TString ''v'', FieldEnd, FieldStop, StructEnd, FieldEnd, FieldStop, StructEnd,
      MessageEnd] =
     Inr (\<lparr>fetchAll_success = Some [], fetchAll_ex = None\<rparr>, [MessageEnd]) \<and>
   getSchema_args_read
     [StructBegin ''getSchema_args'', FieldBegin ''extra'' T_LIST 7, ListBegin T_I32 2,
      TI32 7, TI32 8, ListEnd, FieldEnd, FieldStop, StructEnd, MessageEnd] =
     Inr (getSchema_args, [MessageEnd]) \<and>
   getSchema_result_read
     [StructBegin ''getSchema_result'', FieldBegin ''extra'' T_LIST 7, ListBegin T_I32 2,
      TI32 7, TI32 8, ListEnd, FieldEnd, FieldBegin ''success'' T_I64 0, TI64 5, FieldEnd,
      FieldBegin ''ex'' T_BOOL 1, TBool True, FieldEnd, FieldBegin ''ex'' T_STRUCT 1,
      StructBegin ''HiveServerException'', FieldBegin ''message'' T_STRING 1,
      TString ''no table'', FieldEnd, FieldStop, StructEnd, FieldEnd,
      FieldBegin ''note'' T_STRUCT 9, StructBegin ''n'', FieldBegin ''k'' T_STRING 1,
      TString ''v'', FieldEnd, FieldStop, StructEnd, FieldEnd, FieldStop, StructEnd,
      MessageEnd] =
     Inr (\<lparr>getSchema_success = None, getSchema_ex = Some \<lparr>hse_message = Some ''no table''\<rparr>\<rparr>, [MessageEnd])"
proof -
  note specs = execute_args_thrift_spec_def
    execute_result_thrift_spec_def
    fetchOne_args_thrift_spec_def
    fetchOne_result_thrift_spec_def
    fetchN_args_thrift_spec_def
    fetchN_result_thrift_spec_def
    fetchAll_args_thrift_spec_def
    fetchAll_result_thrift_spec_def
    getSchema_args_thrift_spec_def
    getSchema_result_thrift_spec_def
  have u1: "list_all (unknown_field execute_args_thrift_spec)
     ([(''extra'', 7, VList T_I32 [VI32 7, VI32 8])] @
      [(''success'', 0, VI64 5), (''ex'', 1, VBool True)] @
      [(''note'', 9, VStruct ''n'' [(''k'', 1, VString ''v'')])])"
    by (simp add: specs)
  have u2: "list_all (unknown_field execute_result_thrift_spec)
     ([(''extra'', 7, VList T_I32 [VI32 7, VI32 8])] @
      [(''success'', 0, VI64 5), (''ex'', 1, VBool True)] @
      [(''note'', 9, VStruct ''n'' [(''k'', 1, VString ''v'')])])"
    by (simp add: specs)
  have u3: "list_all (unknown_field fetchOne_args_thrift_spec)
     ([(''extra'', 7, VList T_I32 [VI32 7, VI32 8])] @
      [(''success'', 0, VI64 5), (''ex'', 1, VBool True)] @
      [(''note'', 9, VStruct ''n'' [(''k'', 1, VString ''v'')])])"
    by (simp add: specs)
  have u4: "list_all (unknown_field fetchOne_result_thrift_spec)
     ([(''extra'', 7, VList T_I32 [VI32 7, VI32 8])] @
      [(''success'', 0, VI64 5), (''ex'', 1, VBool True)] @
      [(''note'', 9, VStruct ''n'' [(''k'', 1, VString ''v'')])])"
    by (simp add: specs)
  have u5: "list_all (unknown_field fetchN_args_thrift_spec)
     ([(''extra'', 7, VList T_I32 [VI32 7, VI32 8])] @
      [(''success'', 0, VI64 5), (''ex'', 1, VBool True)] @
      [(''note'', 9, VStruct ''n'' [(''k'', 1, VString ''v'')])])"
    by (simp add: specs)
  have u6: "list_all (unknown_field fetchN_result_thrift_spec)
     ([(''extra'', 7, VList T_I32 [VI32 7, VI32 8])] @
      [(''success'', 0, VI64 5), (''ex'', 1, VBool True)] @
      [(''note'', 9, VStruct ''n'' [(''k'', 1, VString ''v'')])])"
    by (simp add: specs)
  have u7: "list_all (unknown_field fetchAll_args_thrift_spec)
     ([(''extra'', 7, VList T_I32 [VI32 7, VI32 8])] @
      [(''success'', 0, VI64 5), (''ex'', 1, VBool True)] @
      [(''note'', 9, VStruct ''n'' [(''k'', 1, VString ''v'')])])"
    by (simp add: specs)
  have u8: "list_all (unknown_field fetchAll_result_thrift_spec)
     ([(''extra'', 7, VList T_I32 [VI32 7, VI32 8])] @
      [(''success'', 0, VI64 5), (''ex'', 1, VBool True)] @
      [(''note'', 9, VStruct ''n'' [(''k'', 1, VString ''v'')])])"
    by (simp add: specs)
  have u9: "list_all (unknown_field getSchema_args_thrift_spec)
     ([(''extra'', 7, VList T_I32 [VI32 7, VI32 8])] @
      [(''success'', 0, VI64 5), (''ex'', 1, VBool True)] @
      [(''note'', 9, VStruct ''n'' [(''k'', 1, VString ''v'')])])"
    by (simp add: specs)
  have u10: "list_all (unknown_field getSchema_result_thrift_spec)
     ([(''extra'', 7, VList T_I32 [VI32 7, VI32 8])] @
      [(''success'', 0, VI64 5), (''ex'', 1, VBool True)] @
      [(''note'', 9, VStruct ''n'' [(''k'', 1, VString ''v'')])])"
    by (simp add: specs)
  have h2: "fetchN_args_valid \<lparr>numRows = Some 5\<rparr>"
    by (simp add: fetchN_args_valid_def i32_def)
  have r1: "execute_args_read
       [StructBegin ''execute_args'', FieldBegin ''extra'' T_LIST 7, ListBegin T_I32 2,
        TI32 7, TI32 8, ListEnd, FieldEnd, FieldBegin ''query'' T_STRING 1,
        TString ''select 1'', FieldEnd, FieldBegin ''success'' T_I64 0, TI64 5, FieldEnd,
        FieldBegin ''ex'' T_BOOL 1, TBool True, FieldEnd, FieldStop, StructEnd, MessageEnd] =
       Inr (\<lparr>query = Some ''select 1''\<rparr>, [MessageEnd])"
    using unknown_field_skipped [where ?us1.0 = "[(''extra'', 7, VList T_I32 [VI32 7, VI32 8])]"
        and ?us2.0 = "[(''success'', 0, VI64 5), (''ex'', 1, VBool True)]"
        and ?us3.0 = "[(''note'', 9, VStruct ''n'' [(''k'', 1, VString ''v'')])]"
        and sname = "''execute_args''" and rest = "[MessageEnd]"
        and ?a1.0 = "\<lparr>query = Some ''select 1''\<rparr>"]
    by (simp add: specs encode_fields_def write_defs writeI32_def fetchN_args_valid_def i32_def
          HiveServerException_write_def)
  have r2: "execute_result_read
       [StructBegin ''execute_result'', FieldBegin ''extra'' T_LIST 7, ListBegin T_I32 2,
        TI32 7, TI32 8, ListEnd, FieldEnd, FieldBegin ''ex'' T_STRUCT 1,
        StructBegin ''HiveServerException'', FieldBegin ''message'' T_STRING 1,
        TString ''no table'', FieldEnd, FieldStop, StructEnd, FieldEnd,
        FieldBegin ''success'' T_I64 0, TI64 5, FieldEnd, FieldBegin ''ex'' T_BOOL 1,
        TBool True, FieldEnd, FieldStop, StructEnd, MessageEnd] =
       Inr (\<lparr>execute_ex = Some \<lparr>hse_message = Some ''no table''\<rparr>\<rparr>, [MessageEnd])"
    using unknown_field_skipped [where ?us1.0 = "[(''extra'', 7, VList T_I32 [VI32 7, VI32 8])]"
        and ?us2.0 = "[(''success'', 0, VI64 5), (''ex'', 1, VBool True)]"
        and ?us3.0 = "[(''note'', 9, VStruct ''n'' [(''k'', 1, VString ''v'')])]"
        and sname = "''execute_result''" and rest = "[MessageEnd]"
        and ?a2.0 = "\<lparr>execute_ex = Some \<lparr>hse_message = Some ''no table''\<rparr>\<rparr>"]
    by (simp add: specs encode_fields_def write_defs writeI32_def fetchN_args_valid_def i32_def
          HiveServerException_write_def)
  have r3: "fetchOne_args_read
       [StructBegin ''fetchOne_args'', FieldBegin ''extra'' T_LIST 7, ListBegin T_I32 2,
        TI32 7, TI32 8, ListEnd, FieldEnd, FieldStop, StructEnd, MessageEnd] =
       Inr (fetchOne_args, [MessageEnd])"
    using unknown_field_skipped [where ?us1.0 = "[(''extra'', 7, VList T_I32 [VI32 7, VI32 8])]"
        and ?us2.0 = "[(''success'', 0, VI64 5), (''ex'', 1, VBool True)]"
        and ?us3.0 = "[(''note'', 9, VStruct ''n'' [(''k'', 1, VString ''v'')])]"
        and sname = "''fetchOne_args''" and rest = "[MessageEnd]"
        and ?a3.0 = "fetchOne_args"]
    by (simp add: specs encode_fields_def write_defs writeI32_def fetchN_args_valid_def i32_def
          HiveServerException_write_def)
  have r4: "fetchOne_result_read
       [StructBegin ''fetchOne_result'', FieldBegin ''extra'' T_LIST 7, ListBegin T_I32 2,
        TI32 7, TI32 8, ListEnd, FieldEnd, FieldBegin ''success'' T_STRING 0,
        TString ''row'', FieldEnd, FieldBegin ''success'' T_I64 0, TI64 5, FieldEnd,
        FieldBegin ''ex'' T_BOOL 1, TBool True, FieldEnd, FieldBegin ''note'' T_STRUCT 9,
        StructBegin ''n'', FieldBegin ''k'' T_STRING 1, TString ''v'', FieldEnd, FieldStop,
        StructEnd, FieldEnd, FieldStop, StructEnd, MessageEnd] =
       Inr (\<lparr>fetchOne_success = Some ''row'', fetchOne_ex = None\<rparr>, [MessageEnd])"
    using unknown_field_skipped [where ?us1.0 = "[(''extra'', 7, VList T_I32 [VI32 7, VI32 8])]"
        and ?us2.0 = "[(''success'', 0, VI64 5), (''ex'', 1, VBool True)]"
        and ?us3.0 = "[(''note'', 9, VStruct ''n'' [(''k'', 1, VString ''v'')])]"
        and sname = "''fetchOne_result''" and rest = "[MessageEnd]"
        and ?a4.0 = "\<lparr>fetchOne_success = Some ''row'', fetchOne_ex = None\<rparr>"]
    by (simp add: specs encode_fields_def write_defs writeI32_def fetchN_args_valid_def i32_def
          HiveServerException_write_def)
  have r5: "fetchN_args_read
       [StructBegin ''fetchN_args'', FieldBegin ''extra'' T_LIST 7, ListBegin T_I32 2,
        TI32 7, TI32 8, ListEnd, FieldEnd, FieldBegin ''numRows'' T_I32 1, TI32 5, FieldEnd,
        FieldBegin ''success'' T_I64 0, TI64 5, FieldEnd, FieldBegin ''ex'' T_BOOL 1,
        TBool True, FieldEnd, FieldStop, StructEnd, MessageEnd] =
       Inr (\<lparr>numRows = Some 5\<rparr>, [MessageEnd])"
    using unknown_field_skipped [where ?us1.0 = "[(''extra'', 7, VList T_I32 [VI32 7, VI32 8])]"
        and ?us2.0 = "[(''success'', 0, VI64 5), (''ex'', 1, VBool True)]"
        and ?us3.0 = "[(''note'', 9, VStruct ''n'' [(''k'', 1, VString ''v'')])]"
        and sname = "''fetchN_args''" and rest = "[MessageEnd]"
        and ?a5.0 = "\<lparr>numRows = Some 5\<rparr>"]
    by (simp add: specs encode_fields_def write_defs writeI32_def fetchN_args_valid_def i32_def
          HiveServerException_write_def)
  have r6: "fetchN_result_read
       [StructBegin ''fetchN_result'', FieldBegin ''extra'' T_LIST 7, ListBegin T_I32 2,
        TI32 7, TI32 8, ListEnd, FieldEnd, FieldBegin ''success'' T_LIST 0,
        ListBegin T_STRING 2, TString ''a'', TString ''b'', ListEnd, FieldEnd,
        FieldBegin ''success'' T_I64 0, TI64 5, FieldEnd, FieldBegin ''ex'' T_BOOL 1,
        TBool True, FieldEnd, FieldBegin ''ex'' T_STRUCT 1,
        StructBegin ''HiveServerException'', FieldBegin ''message'' T_STRING 1,
        TString ''no table'', FieldEnd, FieldStop, StructEnd, FieldEnd,
        FieldBegin ''note'' T_STRUCT 9, StructBegin ''n'', FieldBegin ''k'' T_STRING 1,
        TString ''v'', FieldEnd, FieldStop, StructEnd, FieldEnd, FieldStop, StructEnd,
        MessageEnd] =
       Inr (\<lparr>fetchN_success = Some [''a'', ''b''], fetchN_ex = Some \<lparr>hse_message = Some ''no table''\<rparr>\<rparr>, [MessageEnd])"
    using unknown_field_skipped [where ?us1.0 = "[(''extra'', 7, VList T_I32 [VI32 7, VI32 8])]"
        and ?us2.0 = "[(''success'', 0, VI64 5), (''ex'', 1, VBool True)]"
        and ?us3.0 = "[(''note'', 9, VStruct ''n'' [(''k'', 1, VString ''v'')])]"
        and sname = "''fetchN_result''" and rest = "[MessageEnd]"
        and ?a6.0 = "\<lparr>fetchN_success = Some [''a'', ''b''], fetchN_ex = Some \<lparr>hse_message = Some ''no table''\<rparr>\<rparr>"]
    by (simp add: specs encode_fields_def write_defs writeI32_def fetchN_args_valid_def i32_def
          HiveServerException_write_def)
  have r7: "fetchAll_args_read
       [StructBegin ''fetchAll_args'', FieldBegin ''extra'' T_LIST 7, ListBegin T_I32 2,
        TI32 7, TI32 8, ListEnd, FieldEnd, FieldStop, StructEnd, MessageEnd] =
       Inr (fetchAll_args, [MessageEnd])"
    using unknown_field_skipped [where ?us1.0 = "[(''extra'', 7, VList T_I32 [VI32 7, VI32 8])]"
        and ?us2.0 = "[(''success'', 0, VI64 5), (''ex'', 1, VBool True)]"
        and ?us3.0 = "[(''note'', 9, VStruct ''n'' [(''k'', 1, VString ''v'')])]"
        and sname = "''fetchAll_args''" and rest = "[MessageEnd]"
        and ?a7.0 = "fetchAll_args"]
    by (simp add: specs encode_fields_def write_defs writeI32_def fetchN_args_valid_def i32_def
          HiveServerException_write_def)
  have r8: "fetchAll_result_read
       [StructBegin ''fetchAll_result'', FieldBegin ''extra'' T_LIST 7, ListBegin T_I32 2,
        TI32 7, TI32 8, ListEnd, FieldEnd, FieldBegin ''success'' T_LIST 0,
        ListBegin T_STRING 0, ListEnd, FieldEnd, FieldBegin ''success'' T_I64 0, TI64 5,
        FieldEnd, FieldBegin ''ex'' T_BOOL 1, TBool True, FieldEnd,
        FieldBegin ''note'' T_STRUCT 9, StructBegin ''n'', FieldBegin ''k'' T_STRING 1,
        TString ''v'', FieldEnd, FieldStop, StructEnd, FieldEnd, FieldStop, StructEnd,
        MessageEnd] =
       Inr (\<lparr>fetchAll_success = Some [], fetchAll_ex = None\<rparr>, [MessageEnd])"
    using unknown_field_skipped [where ?us1.0 = "[(''extra'', 7, VList T_I32 [VI32 7, VI32 8])]"
        and ?us2.0 = "[(''success'', 0, VI64 5), (''ex'', 1, VBool True)]"
        and ?us3.0 = "[(''note'', 9, VStruct ''n'' [(''k'', 1, VString ''v'')])]"
        and sname = "''fetchAll_result''" and rest = "[MessageEnd]"
        and ?a8.0 = "\<lparr>fetchAll_success = Some [], fetchAll_ex = None\<rparr>"]
    by (simp add: specs encode_fields_def write_defs writeI32_def fetchN_args_valid_def i32_def
          HiveServerException_write_def)
  have r9: "getSchema_args_read
       [StructBegin ''getSchema_args'', FieldBegin ''extra'' T_LIST 7, ListBegin T_I32 2,
        TI32 7, TI32 8, ListEnd, FieldEnd, FieldStop, StructEnd, MessageEnd] =
       Inr (getSchema_args, [MessageEnd])"
    using unknown_field_skipped [where ?us1.0 = "[(''extra'', 7, VList T_I32 [VI32 7, VI32 8])]"
        and ?us2.0 = "[(''success'', 0, VI64 5), (''ex'', 1, VBool True)]"
        and ?us3.0 = "[(''note'', 9, VStruct ''n'' [(''k'', 1, VString ''v'')])]"
        and sname = "''getSchema_args''" and rest = "[MessageEnd]"
        and ?a9.0 = "getSchema_args"]
    by (simp add: specs encode_fields_def write_defs writeI32_def fetchN_args_valid_def i32_def
          HiveServerException_write_def)
  have r10: "getSchema_result_read
       [StructBegin ''getSchema_result'', FieldBegin ''extra'' T_LIST 7, ListBegin T_I32 2,
        TI32 7, TI32 8, ListEnd, FieldEnd, FieldBegin ''success'' T_I64 0, TI64 5, FieldEnd,
        FieldBegin ''ex'' T_BOOL 1, TBool True, FieldEnd, FieldBegin ''ex'' T_STRUCT 1,
        StructBegin ''HiveServerException'', FieldBegin ''message'' T_STRING 1,
        TString ''no table'', FieldEnd, FieldStop, StructEnd, FieldEnd,
        FieldBegin ''note'' T_STRUCT 9, StructBegin ''n'', FieldBegin ''k'' T_STRING 1,
        TString ''v'', FieldEnd, FieldStop, StructEnd, FieldEnd, FieldStop, StructEnd,
        MessageEnd] =
       Inr (\<lparr>getSchema_success = None, getSchema_ex = Some \<lparr>hse_message = Some ''no table''\<rparr>\<rparr>, [MessageEnd])"
    using unknown_field_skipped [where ?us1.0 = "[(''extra'', 7, VList T_I32 [VI32 7, VI32 8])]"
        and ?us2.0 = "[(''success'', 0, VI64 5), (''ex'', 1, VBool True)]"
        and ?us3.0 = "[(''note'', 9, VStruct ''n'' [(''k'', 1, VString ''v'')])]"
        and sname = "''getSchema_result''" and rest = "[MessageEnd]"
        and ?a10.0 = "\<lparr>getSchema_success = None, getSchema_ex = Some \<lparr>hse_message = Some ''no table''\<rparr>\<rparr>"]
    by (simp add: specs encode_fields_def write_defs writeI32_def fetchN_args_valid_def i32_def
          HiveServerException_write_def)
  from u1 u2 u3 u4 u5 u6 u7 u8 u9 u10 h2 r1 r2 r3 r4 r5 r6 r7 r8 r9 r10 show ?thesis
    by (intro conjI)
qed

section \<open>Properties of the client\<close>

lemma recv_fetchOne_reply:
  "mtype \<noteq> EXCEPTION \<Longrightarrow> fetchOne_result_read ts = Inr (result, MessageEnd # rest) \<Longrightarrow>
   recv_fetchOne (MessageBegin fname mtype rseqid # ts) =
     (if fetchOne_success result \<noteq> None then Inr (the (fetchOne_success result), rest)
      else if fetchOne_ex result \<noteq> None then Inl (HiveServerExn (the (fetchOne_ex result)))
      else Inl (TApplicationExn
                  \<lparr>tapp_type = MISSING_RESULT,
                   tapp_message = Some ''fetchOne failed: unknown result''\<rparr>))"
  by (simp add: recv_fetchOne_def)

lemma recv_fetchN_reply:
  "mtype \<noteq> EXCEPTION \<Longrightarrow> fetchN_result_read ts = Inr (result, MessageEnd # rest) \<Longrightarrow>
   recv_fetchN (MessageBegin fname mtype rseqid # ts) =
     (if fetchN_success result \<noteq> None then Inr (the (fetchN_success result), rest)
      else if fetchN_ex result \<noteq> None then Inl (HiveServerExn (the (fetchN_ex result)))
      else Inl (TApplicationExn
                  \<lparr>tapp_type = MISSING_RESULT,
                   tapp_message = Some ''fetchN failed: unknown result''\<rparr>))"
  by (simp add: recv_fetchN_def)

lemma recv_fetchAll_reply:
  "mtype \<noteq> EXCEPTION \<Longrightarrow> fetchAll_result_read ts = Inr (result, MessageEnd # rest) \<Longrightarrow>
   recv_fetchAll (MessageBegin fname mtype rseqid # ts) =
     (if fetchAll_success result \<noteq> None then Inr (the (fetchAll_success result), rest)
      else if fetchAll_ex result \<noteq> None then Inl (HiveServerExn (the (fetchAll_ex result)))
      else Inl (TApplicationExn
                  \<lparr>tapp_type = MISSING_RESULT,
                   tapp_message = Some ''fetchAll failed: unknown result''\<rparr>))"
  by (simp add: recv_fetchAll_def)

lemma recv_getSchema_reply:
  "mtype \<noteq> EXCEPTION \<Longrightarrow> getSchema_result_read ts = Inr (result, MessageEnd # rest) \<Longrightarrow>
   recv_getSchema (MessageBegin fname mtype rseqid # ts) =
     (if getSchema_success result \<noteq> None then Inr (the (getSchema_success result), rest)
      else if getSchema_ex result \<noteq> None then Inl (HiveServerExn (the (getSchema_ex result)))
      else Inl (TApplicationExn
                  \<lparr>tapp_type = MISSING_RESULT,
                   tapp_message = Some ''getSchema failed: unknown result''\<rparr>))"
  by (simp add: recv_getSchema_def)

lemma recv_execute_reply:
  "mtype \<noteq> EXCEPTION \<Longrightarrow> execute_result_read ts = Inr (result, MessageEnd # rest) \<Longrightarrow>
   recv_execute (MessageBegin fname mtype rseqid # ts) =
     (if execute_ex result \<noteq> None then Inl (HiveServerExn (the (execute_ex result)))
      else Inr ((), rest))"
  by (simp add: recv_execute_def)

lemma send_fetchN_valid:
  "fetchN_args_valid (fetchN_args_init\<lparr>numRows := n\<rparr>) \<Longrightarrow> snd (send_fetchN seqid n) = None"
  by (cases n)
     (simp_all add: send_fetchN_def fetchN_args_write_def fetchN_args_valid_def
        fetchN_args_init_def writeI32_def i32_def)

lemma snd_fetchN:
  "fetchN_args_valid (fetchN_args_init\<lparr>numRows := n\<rparr>) \<Longrightarrow>
   snd (fetchN seqid n iprot) = recv_fetchN iprot"
  using send_fetchN_valid [of n seqid]
  by (cases "send_fetchN seqid n") (simp add: fetchN_def)

text \<open>
  C1. For \<^verbatim>\<open>fetchOne\<close>, \<^verbatim>\<open>fetchN\<close>, \<^verbatim>\<open>fetchAll\<close> and \<^verbatim>\<open>getSchema\<close>: when the reply is
  not an \<^verbatim>\<open>EXCEPTION\<close> message and its result struct has been decoded, then a struct
  with only \<^verbatim>\<open>success\<close> set makes the operation return that value, a struct with only
  \<^verbatim>\<open>ex\<close> set makes it raise that exception, and a struct with neither makes it raise
  the application exception with reason code \<^verbatim>\<open>MISSING_RESULT\<close>. (\<^verbatim>\<open>fetchN\<close> is called
  with a valid \<^verbatim>\<open>numRows\<close>, so that its request can be sent.)
\<close>

theorem client_result_cases:
  assumes "mtype \<noteq> EXCEPTION"
    and "fetchN_args_valid (fetchN_args_init\<lparr>numRows := n\<rparr>)"
  shows
    "(fetchOne_result_read ts = Inr (r1, MessageEnd # rest) \<longrightarrow>
       (fetchOne_success r1 = Some s1 \<and> fetchOne_ex r1 = None \<longrightarrow>
          snd (fetchOne seqid (MessageBegin fname mtype rseqid # ts)) = Inr (s1, rest)) \<and>
       (fetchOne_success r1 = None \<and> fetchOne_ex r1 = Some e1 \<longrightarrow>
          snd (fetchOne seqid (MessageBegin fname mtype rseqid # ts)) = Inl (HiveServerExn e1)) \<and>
       (fetchOne_success r1 = None \<and> fetchOne_ex r1 = None \<longrightarrow>
          snd (fetchOne seqid (MessageBegin fname mtype rseqid # ts)) =
            Inl (TApplicationExn
                   \<lparr>tapp_type = MISSING_RESULT,
                    tapp_message = Some ''fetchOne failed: unknown result''\<rparr>))) \<and>
    (fetchN_result_read ts = Inr (r2, MessageEnd # rest) \<longrightarrow>
       (fetchN_success r2 = Some s2 \<and> fetchN_ex r2 = None \<longrightarrow>
          snd (fetchN seqid n (MessageBegin fname mtype rseqid # ts)) = Inr (s2, rest)) \<and>
       (fetchN_success r2 = None \<and> fetchN_ex r2 = Some e2 \<longrightarrow>
          snd (fetchN seqid n (MessageBegin fname mtype rseqid # ts)) = Inl (HiveServerExn e2)) \<and>
       (fetchN_success r2 = None \<and> fetchN_ex r2 = None \<longrightarrow>
          snd (fetchN seqid n (MessageBegin fname mtype rseqid # ts)) =
            Inl (TApplicationExn
                   \<lparr>tapp_type = MISSING_RESULT,
                    tapp_message = Some ''fetchN failed: unknown result''\<rparr>))) \<and>
    (fetchAll_result_read ts = Inr (r3, MessageEnd # rest) \<longrightarrow>
       (fetchAll_success r3 = Some s3 \<and> fetchAll_ex r3 = None \<longrightarrow>
          snd (fetchAll seqid (MessageBegin fname mtype rseqid # ts)) = Inr (s3, rest)) \<and>
       (fetchAll_success r3 = None \<and> fetchAll_ex r3 = Some e3 \<longrightarrow>
          snd (fetchAll seqid (MessageBegin fname mtype rseqid # ts)) = Inl (HiveServerExn e3)) \<and>
       (fetchAll_success r3 = None \<and> fetchAll_ex r3 = None \<longrightarrow>
          snd (fetchAll seqid (MessageBegin fname mtype rseqid # ts)) =
            Inl (TApplicationExn
                   \<lparr>tapp_type = MISSING_RESULT,
                    tapp_message = Some ''fetchAll failed: unknown result''\<rparr>))) \<and>
    (getSchema_result_read ts = Inr (r4, MessageEnd # rest) \<longrightarrow>
       (getSchema_success r4 = Some s4 \<and> getSchema_ex r4 = None \<longrightarrow>
          snd (getSchema seqid (MessageBegin fname mtype rseqid # ts)) = Inr (s4, rest)) \<and>
       (getSchema_success r4 = None \<and> getSchema_ex r4 = Some e4 \<longrightarrow>
          snd (getSchema seqid (MessageBegin fname mtype rseqid # ts)) = Inl (HiveServerExn e4)) \<and>
       (getSchema_success r4 = None \<and> getSchema_ex r4 = None \<longrightarrow>
          snd (getSchema seqid (MessageBegin fname mtype rseqid # ts)) =
            Inl (TApplicationExn
                   \<lparr>tapp_type = MISSING_RESULT,
                    tapp_message = Some ''getSchema failed: unknown result''\<rparr>)))"
  using assms
  by (auto simp: fetchOne_def fetchAll_def getSchema_def snd_fetchN
        recv_fetchOne_reply recv_fetchN_reply recv_fetchAll_reply recv_getSchema_reply)

theorem client_result_cases_witness:
  "REPLY \<noteq> EXCEPTION \<and> fetchN_args_valid (fetchN_args_init\<lparr>numRows := Some 2\<rparr>) \<and>
   snd (fetchOne 0
          [MessageBegin ''fetchOne'' REPLY 0, StructBegin ''fetchOne_result'',
           FieldBegin ''success'' T_STRING 0, TString ''row'', FieldEnd,
           FieldStop, StructEnd, MessageEnd]) = Inr (''row'', []) \<and>
   snd (fetchN 0 (Some 2)
          [MessageBegin ''fetchN'' REPLY 0, StructBegin ''fetchN_result'',
           FieldBegin ''ex'' T_STRUCT 1,
           StructBegin ''HiveServerException'',
           FieldBegin ''message'' T_STRING 1, TString ''no table'', FieldEnd,
           FieldStop, StructEnd, FieldEnd,
           FieldStop, StructEnd, MessageEnd]) =
     Inl (HiveServerExn \<lparr>hse_message = Some ''no table''\<rparr>) \<and>
   snd (getSchema 0
          [MessageBegin ''getSchema'' REPLY 0, StructBegin ''getSchema_result'',
           FieldStop, StructEnd, MessageEnd]) =
     Inl (TApplicationExn
            \<lparr>tapp_type = MISSING_RESULT,
             tapp_message = Some ''getSchema failed: unknown result''\<rparr>)"
proof -
  have h1: "REPLY \<noteq> EXCEPTION"
    by simp
  have h2: "fetchN_args_valid (fetchN_args_init\<lparr>numRows := Some 2\<rparr>)"
    by (simp add: fetchN_args_valid_def i32_def)
  have d1: "fetchOne_result_read
              [StructBegin ''fetchOne_result'',
               FieldBegin ''success'' T_STRING 0, TString ''row'', FieldEnd,
               FieldStop, StructEnd, MessageEnd] =
            Inr (\<lparr>fetchOne_success = Some ''row'', fetchOne_ex = None\<rparr>, [MessageEnd])"
    by (simp add: fetchOne_result_read_def fetchOne_result_init_def)
  have d2: "fetchN_result_read
              [StructBegin ''fetchN_result'',
               FieldBegin ''ex'' T_STRUCT 1,
               StructBegin ''HiveServerException'',
               FieldBegin ''message'' T_STRING 1, TString ''no table'', FieldEnd,
               FieldStop, StructEnd, FieldEnd,
               FieldStop, StructEnd, MessageEnd] =
            Inr (\<lparr>fetchN_success = None,
                  fetchN_ex = Some \<lparr>hse_message = Some ''no table''\<rparr>\<rparr>, [MessageEnd])"
    by (simp add: fetchN_result_read_def fetchN_result_init_def HiveServerException_read_def
          HiveServerException_init_def)
  have d3: "getSchema_result_read
              [StructBegin ''getSchema_result'', FieldStop, StructEnd, MessageEnd] =
            Inr (\<lparr>getSchema_success = None, getSchema_ex = None\<rparr>, [MessageEnd])"
    by (simp add: getSchema_result_read_def getSchema_result_init_def)
  note c = client_result_cases [OF h1 h2, where rest = "[]"]
  show ?thesis
    using h1 h2
      c [where ts = "[StructBegin ''fetchOne_result'',
                      FieldBegin ''success'' T_STRING 0, TString ''row'', FieldEnd,
                      FieldStop, StructEnd, MessageEnd]"
           and ?r1.0 = "\<lparr>fetchOne_success = Some ''row'', fetchOne_ex = None\<rparr>"
           and ?s1.0 = "''row''" and seqid = 0 and fname = "''fetchOne''" and rseqid = 0]
      c [where ts = "[StructBegin ''fetchN_result'',
                      FieldBegin ''ex'' T_STRUCT 1,
                      StructBegin ''HiveServerException'',
                      FieldBegin ''message'' T_STRING 1, TString ''no table'', FieldEnd,
                      FieldStop, StructEnd, FieldEnd,
                      FieldStop, StructEnd, MessageEnd]"
           and ?r2.0 = "\<lparr>fetchN_success = None,
                            fetchN_ex = Some \<lparr>hse_message = Some ''no table''\<rparr>\<rparr>"
           and ?e2.0 = "\<lparr>hse_message = Some ''no table''\<rparr>"
           and seqid = 0 and fname = "''fetchN''" and rseqid = 0]
      c [where ts = "[StructBegin ''getSchema_result'', FieldStop, StructEnd, MessageEnd]"
           and ?r4.0 = "\<lparr>getSchema_success = None, getSchema_ex = None\<rparr>"
           and seqid = 0 and fname = "''getSchema''" and rseqid = 0]
    by (simp only: d1 d2 d3) simp
qed

text \<open>
  C10. For the same four operations, when the decoded result struct has both
  \<^verbatim>\<open>success\<close> and \<^verbatim>\<open>ex\<close> set, the client returns the \<^verbatim>\<open>success\<close> value: the test of
  \<^verbatim>\<open>success\<close> comes first, and the exception the struct carries is not raised.
\<close>

theorem client_success_before_ex:
  assumes "mtype \<noteq> EXCEPTION"
    and "fetchN_args_valid (fetchN_args_init\<lparr>numRows := n\<rparr>)"
  shows
    "(fetchOne_result_read ts = Inr (r1, MessageEnd # rest) \<and>
     fetchOne_success r1 = Some s1 \<and> fetchOne_ex r1 = Some e1 \<longrightarrow>
       snd (fetchOne seqid (MessageBegin fname mtype rseqid # ts)) = Inr (s1, rest)) \<and>
    (fetchN_result_read ts = Inr (r2, MessageEnd # rest) \<and>
     fetchN_success r2 = Some s2 \<and> fetchN_ex r2 = Some e2 \<longrightarrow>
       snd (fetchN seqid n (MessageBegin fname mtype rseqid # ts)) = Inr (s2, rest)) \<and>
    (fetchAll_result_read ts = Inr (r3, MessageEnd # rest) \<and>
     fetchAll_success r3 = Some s3 \<and> fetchAll_ex r3 = Some e3 \<longrightarrow>
       snd (fetchAll seqid (MessageBegin fname mtype rseqid # ts)) = Inr (s3, rest)) \<and>
    (getSchema_result_read ts = Inr (r4, MessageEnd # rest) \<and>
     getSchema_success r4 = Some s4 \<and> getSchema_ex r4 = Some e4 \<longrightarrow>
       snd (getSchema seqid (MessageBegin fname mtype rseqid # ts)) = Inr (s4, rest))"
  using assms
  by (auto simp: fetchOne_def fetchAll_def getSchema_def snd_fetchN
        recv_fetchOne_reply recv_fetchN_reply recv_fetchAll_reply recv_getSchema_reply)

theorem client_success_before_ex_witness:
  "REPLY \<noteq> EXCEPTION \<and> fetchN_args_valid (fetchN_args_init\<lparr>numRows := None\<rparr>) \<and>
   snd (fetchOne 0
          [MessageBegin ''fetchOne'' REPLY 0, StructBegin ''fetchOne_result'',
           FieldBegin ''success'' T_STRING 0, TString ''row'', FieldEnd,
           FieldBegin ''ex'' T_STRUCT 1,
           StructBegin ''HiveServerException'',
           FieldBegin ''message'' T_STRING 1, TString ''no table'', FieldEnd,
           FieldStop, StructEnd, FieldEnd,
           FieldStop, StructEnd, MessageEnd]) = Inr (''row'', [])"
proof -
  have h1: "REPLY \<noteq> EXCEPTION"
    by simp
  have h2: "fetchN_args_valid (fetchN_args_init\<lparr>numRows := None\<rparr>)"
    by (simp add: fetchN_args_valid_def fetchN_args_init_def)
  have d1: "fetchOne_result_read
              [StructBegin ''fetchOne_result'',
               FieldBegin ''success'' T_STRING 0, TString ''row'', FieldEnd,
               FieldBegin ''ex'' T_STRUCT 1,
               StructBegin ''HiveServerException'',
               FieldBegin ''message'' T_STRING 1, TString ''no table'', FieldEnd,
               FieldStop, StructEnd, FieldEnd,
               FieldStop, StructEnd, MessageEnd] =
            Inr (\<lparr>fetchOne_success = Some ''row'',
                  fetchOne_ex = Some \<lparr>hse_message = Some ''no table''\<rparr>\<rparr>, [MessageEnd])"
    by (simp add: fetchOne_result_read_def fetchOne_result_init_def
          HiveServerException_read_def HiveServerException_init_def)
  show ?thesis
    using h1 h2
      client_success_before_ex [OF h1 h2,
        where rest = "[]"
          and ts = "[StructBegin ''fetchOne_result'',
                     FieldBegin ''success'' T_STRING 0, TString ''row'', FieldEnd,
                     FieldBegin ''ex'' T_STRUCT 1,
                     StructBegin ''HiveServerException'',
                     FieldBegin ''message'' T_STRING 1, TString ''no table'', FieldEnd,
                     FieldStop, StructEnd, FieldEnd,
                     FieldStop, StructEnd, MessageEnd]"
          and ?r1.0 = "\<lparr>fetchOne_success = Some ''row'',
                           fetchOne_ex = Some \<lparr>hse_message = Some ''no table''\<rparr>\<rparr>"
          and ?s1.0 = "''row''" and ?e1.0 = "\<lparr>hse_message = Some ''no table''\<rparr>"
          and seqid = 0 and fname = "''fetchOne''" and rseqid = 0]
    by (simp only: d1) simp
qed

text \<open>
  C4. \<^verbatim>\<open>execute(query)\<close> has no return value. It writes exactly one \<^verbatim>\<open>CALL\<close> message,
  flushed once, and reads exactly one reply: when the reply is not an \<^verbatim>\<open>EXCEPTION\<close>
  message and its result struct has been decoded, the call raises the exception in
  \<^verbatim>\<open>ex\<close> if there is one, and otherwise returns, with the input after the end of that
  reply left unread.
\<close>

theorem execute_round_trip:
  assumes "mtype \<noteq> EXCEPTION"
    and "execute_result_read ts = Inr (r, MessageEnd # rest)"
  shows
    "fst (execute seqid q (MessageBegin fname mtype rseqid # ts)) =
       MessageBegin ''execute'' CALL seqid # execute_args_write \<lparr>query = q\<rparr> @
       [MessageEnd, Flush] \<and>
     length (filter (\<lambda>t. t = Flush) (fst (execute seqid q (MessageBegin fname mtype rseqid # ts))))
       = 1 \<and>
     (execute_ex r = Some e \<longrightarrow>
        snd (execute seqid q (MessageBegin fname mtype rseqid # ts)) = Inl (HiveServerExn e)) \<and>
     (execute_ex r = None \<longrightarrow>
        snd (execute seqid q (MessageBegin fname mtype rseqid # ts)) = Inr ((), rest))"
  using assms
  by (cases q)
     (auto simp: execute_def send_execute_def execute_args_init_def execute_args_write_def
        write_defs recv_execute_reply)

theorem execute_round_trip_witness:
  "REPLY \<noteq> EXCEPTION \<and>
   execute 0 (Some ''select 1'')
     [MessageBegin ''execute'' REPLY 0, StructBegin ''execute_result'', FieldStop, StructEnd,
      MessageEnd, MessageBegin ''next'' REPLY 1] =
     ([MessageBegin ''execute'' CALL 0, StructBegin ''execute_args'',
       FieldBegin ''query'' T_STRING 1, TString ''select 1'', FieldEnd, FieldStop, StructEnd,
       MessageEnd, Flush],
      Inr ((), [MessageBegin ''next'' REPLY 1])) \<and>
   snd (execute 0 (Some ''select 1'')
          [MessageBegin ''execute'' REPLY 0, StructBegin ''execute_result'',
           FieldBegin ''ex'' T_STRUCT 1,
           StructBegin ''HiveServerException'',
           FieldBegin ''message'' T_STRING 1, TString ''no table'', FieldEnd,
           FieldStop, StructEnd, FieldEnd,
           FieldStop, StructEnd, MessageEnd]) =
     Inl (HiveServerExn \<lparr>hse_message = Some ''no table''\<rparr>)"
proof -
  have h: "REPLY \<noteq> EXCEPTION"
    by simp
  have d1: "execute_result_read
              [StructBegin ''execute_result'', FieldStop, StructEnd,
               MessageEnd, MessageBegin ''next'' REPLY 1] =
            Inr (\<lparr>execute_ex = None\<rparr>, MessageEnd # [MessageBegin ''next'' REPLY 1])"
    by (simp add: execute_result_read_def execute_result_init_def)
  have d2: "execute_result_read
              [StructBegin ''execute_result'',
               FieldBegin ''ex'' T_STRUCT 1,
               StructBegin ''HiveServerException'',
               FieldBegin ''message'' T_STRING 1, TString ''no table'', FieldEnd,
               FieldStop, StructEnd, FieldEnd,
               FieldStop, StructEnd, MessageEnd] =
            Inr (\<lparr>execute_ex = Some \<lparr>hse_message = Some ''no table''\<rparr>\<rparr>, MessageEnd # [])"
    by (simp add: execute_result_read_def execute_result_init_def
          HiveServerException_read_def HiveServerException_init_def)
  show ?thesis
    using h
      execute_round_trip [OF h d1, where seqid = 0 and q = "Some ''select 1''"
        and fname = "''execute''" and rseqid = 0]
      execute_round_trip [OF h d2, where seqid = 0 and q = "Some ''select 1''"
        and fname = "''execute''" and rseqid = 0
        and e = "\<lparr>hse_message = Some ''no table''\<rparr>"]
    by (simp add: prod_eq_iff execute_args_write_def write_defs)
qed

text \<open>
  C9. \<^verbatim>\<open>recv_execute\<close> has no "missing result" check. When the reply is not an
  \<^verbatim>\<open>EXCEPTION\<close> message and the decoded result struct has \<^verbatim>\<open>ex = None\<close>, it returns
  normally; so it does for a reply whose struct carries no field at all. No
  \<^verbatim>\<open>MISSING_RESULT\<close> application exception is made up.
\<close>

theorem recv_execute_no_missing_result:
  assumes "mtype \<noteq> EXCEPTION"
  shows
    "(execute_result_read ts = Inr (r, MessageEnd # rest) \<and> execute_ex r = None \<longrightarrow>
        recv_execute (MessageBegin fname mtype rseqid # ts) = Inr ((), rest)) \<and>
     recv_execute
       (MessageBegin fname mtype rseqid # StructBegin sname # FieldStop # StructEnd #
        MessageEnd # rest) = Inr ((), rest)"
proof -
  have "execute_result_read (StructBegin sname # FieldStop # StructEnd # MessageEnd # rest) =
        Inr (execute_result_init, MessageEnd # rest)"
    by (simp add: execute_result_read_def)
  with assms show ?thesis
    by (auto simp: recv_execute_reply execute_result_init_def)
qed

theorem recv_execute_no_missing_result_witness:
  "REPLY \<noteq> EXCEPTION \<and>
   recv_execute
     [MessageBegin ''execute'' REPLY 0, StructBegin ''execute_result'',
      FieldBegin ''note'' T_I32 5, TI32 1, FieldEnd, FieldStop, StructEnd, MessageEnd] =
     Inr ((), [])"
proof -
  have h: "REPLY \<noteq> EXCEPTION"
    by simp
  have d: "execute_result_read
             [StructBegin ''execute_result'',
              FieldBegin ''note'' T_I32 5, TI32 1, FieldEnd, FieldStop, StructEnd, MessageEnd] =
           Inr (\<lparr>execute_ex = None\<rparr>, [MessageEnd])"
    by (simp add: execute_result_read_def execute_result_init_def
          execute_result_read_loop_unknown skip_def skip_run.simps)
  show ?thesis
    using h
      recv_execute_no_missing_result [OF h,
        where ts = "[StructBegin ''execute_result'',
                     FieldBegin ''note'' T_I32 5, TI32 1, FieldEnd, FieldStop, StructEnd,
                     MessageEnd]"
          and r = "\<lparr>execute_ex = None\<rparr>" and rest = "[]"
          and fname = "''execute''" and rseqid = 0]
    by (simp only: d) simp
qed

text \<open>
  C8. A \<^verbatim>\<open>fetchN\<close> reply with an empty \<^verbatim>\<open>success\<close> list: \<^verbatim>\<open>fetchN_result.write\<close> writes
  the \<^verbatim>\<open>success\<close> field as a list of size 0, \<^verbatim>\<open>read\<close> decodes it to \<^verbatim>\<open>success = []\<close>,
  and \<^verbatim>\<open>recv_fetchN\<close> returns the empty list, not the "missing result" exception.
\<close>

theorem fetchN_empty_list:
  "fetchN_result_write \<lparr>fetchN_success = Some [], fetchN_ex = None\<rparr> =
     [StructBegin ''fetchN_result'', FieldBegin ''success'' T_LIST 0, ListBegin T_STRING 0,
      ListEnd, FieldEnd, FieldStop, StructEnd] \<and>
   fetchN_result_read
     (fetchN_result_write \<lparr>fetchN_success = Some [], fetchN_ex = None\<rparr> @ rest) =
     Inr (\<lparr>fetchN_success = Some [], fetchN_ex = None\<rparr>, rest) \<and>
   recv_fetchN
     (MessageBegin fname REPLY rseqid #
      fetchN_result_write \<lparr>fetchN_success = Some [], fetchN_ex = None\<rparr> @
      MessageEnd # rest) = Inr ([], rest)"
proof -
  have w: "fetchN_result_write \<lparr>fetchN_success = Some [], fetchN_ex = None\<rparr> =
     [StructBegin ''fetchN_result'', FieldBegin ''success'' T_LIST 0, ListBegin T_STRING 0,
      ListEnd, FieldEnd, FieldStop, StructEnd]"
    by (simp add: fetchN_result_write_def write_defs)
  have r: "fetchN_result_read
     (fetchN_result_write \<lparr>fetchN_success = Some [], fetchN_ex = None\<rparr> @ ts) =
     Inr (\<lparr>fetchN_success = Some [], fetchN_ex = None\<rparr>, ts)" for ts
    by (rule fetchN_result_roundtrip)
  have "recv_fetchN
     (MessageBegin fname REPLY rseqid #
      fetchN_result_write \<lparr>fetchN_success = Some [], fetchN_ex = None\<rparr> @
      MessageEnd # rest) = Inr ([], rest)"
    by (simp add: recv_fetchN_reply [OF _ r])
  with w r show ?thesis
    by simp
qed

section \<open>Properties of the server\<close>

lemma processMap_None:
  "processMap inherited name = None \<longleftrightarrow>
     inherited name = None \<and>
     name \<notin> {''execute'', ''fetchOne'', ''fetchN'', ''fetchAll'', ''getSchema''}"
  by (auto simp: processMap_def)

lemma TApplicationException_write_UNKNOWN_METHOD:
  "TApplicationException_write \<lparr>tapp_type = UNKNOWN_METHOD, tapp_message = Some m\<rparr> =
     ([StructBegin ''TApplicationException'',
       FieldBegin ''message'' T_STRING 1, TString m, FieldEnd,
       FieldBegin ''type'' T_I32 2, TI32 1, FieldEnd, FieldStop, StructEnd], None)"
  by (simp add: TApplicationException_write_def writeI32_def UNKNOWN_METHOD_def write_defs)

lemma process_unknown:
  "processMap inherited name = None \<Longrightarrow>
   process inherited handler (MessageBegin name type seqid # ts) h =
     (case skip T_STRUCT ts of Inl e \<Rightarrow> ([], h, Inl e)
      | Inr ts2 \<Rightarrow>
          (case readMessageEnd ts2 of Inl e \<Rightarrow> ([], h, Inl e)
           | Inr ts3 \<Rightarrow>
               (MessageBegin name EXCEPTION seqid #
                [StructBegin ''TApplicationException'',
                 FieldBegin ''message'' T_STRING 1, TString (''Unknown function '' @ name),
                 FieldEnd,
                 FieldBegin ''type'' T_I32 2, TI32 1, FieldEnd, FieldStop, StructEnd] @
                [MessageEnd, Flush], h, Inr (None, ts3))))"
  by (simp add: process_def TApplicationException_write_UNKNOWN_METHOD write_defs
        split: sum.splits)

text \<open>
  C2. A message whose name is not in the dispatch table: whatever follows the header,
  the handler's state is as before and the outcome is the same for every handler, so
  no handler method has been called. When the payload is a well-formed struct,
  \<^verbatim>\<open>process\<close> skips it, reads the end of the message and replies with one
  \<^verbatim>\<open>EXCEPTION\<close> message under the same name and sequence id, which carries a
  \<^verbatim>\<open>TApplicationException\<close> with reason code \<^verbatim>\<open>UNKNOWN_METHOD\<close> and is decoded as such.
\<close>

theorem process_unknown_method:
  assumes "processMap inherited name = None"
  shows
    "fst (snd (process inherited handler (MessageBegin name type seqid # ts) h)) = h \<and>
     process inherited handler (MessageBegin name type seqid # ts) h =
       process inherited handler' (MessageBegin name type seqid # ts) h \<and>
     (well_formed (VStruct sname fs) \<longrightarrow>
        process inherited handler
          (MessageBegin name type seqid # encode (VStruct sname fs) @ MessageEnd # rest) h =
          (MessageBegin name EXCEPTION seqid #
           [StructBegin ''TApplicationException'',
            FieldBegin ''message'' T_STRING 1, TString (''Unknown function '' @ name),
            FieldEnd,
            FieldBegin ''type'' T_I32 2, TI32 1, FieldEnd, FieldStop, StructEnd] @
           [MessageEnd, Flush], h, Inr (None, rest))) \<and>
     TApplicationException_read
       ([StructBegin ''TApplicationException'',
         FieldBegin ''message'' T_STRING 1, TString (''Unknown function '' @ name), FieldEnd,
         FieldBegin ''type'' T_I32 2, TI32 1, FieldEnd, FieldStop, StructEnd] @ rest') =
       Inr (\<lparr>tapp_type = UNKNOWN_METHOD,
             tapp_message = Some (''Unknown function '' @ name)\<rparr>, rest')"
proof -
  have a: "fst (snd (process inherited handler (MessageBegin name type seqid # ts) h)) = h"
    by (simp add: process_unknown [OF assms] split: sum.splits)
  have b: "process inherited handler (MessageBegin name type seqid # ts) h =
           process inherited handler' (MessageBegin name type seqid # ts) h"
    by (simp add: process_unknown [OF assms])
  have c: "process inherited handler
          (MessageBegin name type seqid # encode (VStruct sname fs) @ MessageEnd # rest) h =
          (MessageBegin name EXCEPTION seqid #
           [StructBegin ''TApplicationException'',
            FieldBegin ''message'' T_STRING 1, TString (''Unknown function '' @ name),
            FieldEnd,
            FieldBegin ''type'' T_I32 2, TI32 1, FieldEnd, FieldStop, StructEnd] @
           [MessageEnd, Flush], h, Inr (None, rest))"
    if "well_formed (VStruct sname fs)"
    using skip_encode [OF that, of "MessageEnd # rest"]
    by (simp add: process_unknown [OF assms] del: encode.simps)
  have d: "TApplicationException_read
       ([StructBegin ''TApplicationException'',
         FieldBegin ''message'' T_STRING 1, TString (''Unknown function '' @ name), FieldEnd,
         FieldBegin ''type'' T_I32 2, TI32 1, FieldEnd, FieldStop, StructEnd] @ rest') =
       Inr (\<lparr>tapp_type = UNKNOWN_METHOD,
             tapp_message = Some (''Unknown function '' @ name)\<rparr>, rest')"
    by (simp add: TApplicationException_read_def TApplicationException_init_def
          UNKNOWN_METHOD_def)
  from a b c d show ?thesis
    by blast
qed

theorem process_unknown_method_witness:
  "processMap Map.empty ''getTable'' = None \<and>
   well_formed (VStruct ''getTable_args'' [(''name'', 1, VString ''t'')]) \<and>
   process Map.empty
     \<lparr>handler_execute = (\<lambda>q h. (Inl (OtherError ''KeyError''), Suc h)),
          handler_fetchOne = (\<lambda>h. (Inl (HiveServerExn \<lparr>hse_message = Some ''no query''\<rparr>), Suc h)),
          handler_fetchN = (\<lambda>n h. (Inr (Some []), Suc h)),
          handler_fetchAll = (\<lambda>h. (Inr (Some [''a'']), Suc h)),
          handler_getSchema = (\<lambda>h. (Inr None, Suc h))\<rparr>
     [MessageBegin ''getTable'' CALL 7, StructBegin ''getTable_args'',
      FieldBegin ''name'' T_STRING 1, TString ''t'', FieldEnd, FieldStop, StructEnd,
      MessageEnd] (0::nat) =
     ([MessageBegin ''getTable'' EXCEPTION 7, StructBegin ''TApplicationException'',
       FieldBegin ''message'' T_STRING 1, TString ''Unknown function getTable'', FieldEnd,
       FieldBegin ''type'' T_I32 2, TI32 1, FieldEnd, FieldStop, StructEnd,
       MessageEnd, Flush], 0, Inr (None, []))"
proof -
  have h1: "processMap Map.empty ''getTable'' = None"
    by (simp add: processMap_def)
  have h2: "well_formed (VStruct ''getTable_args'' [(''name'', 1, VString ''t'')])"
    by simp
  show ?thesis
    using h1 h2
      process_unknown_method [OF h1,
        where sname = "''getTable_args''" and fs = "[(''name'', 1, VString ''t'')]"
          and rest = "[]" and h = "0::nat" and seqid = 7 and type = CALL
          and handler = "\<lparr>handler_execute = (\<lambda>q h. (Inl (OtherError ''KeyError''), Suc h)),
                  handler_fetchOne = (\<lambda>h. (Inl (HiveServerExn \<lparr>hse_message = Some ''no query''\<rparr>), Suc h)),
                  handler_fetchN = (\<lambda>n h. (Inr (Some []), Suc h)),
                  handler_fetchAll = (\<lambda>h. (Inr (Some [''a'']), Suc h)),
                  handler_getSchema = (\<lambda>h. (Inr None, Suc h))\<rparr>"]
    by simp
qed

lemma process_execute_written:
  "fst (process_execute handler seqid iprot h) = [] \<or>
   (\<exists>r. fst (process_execute handler seqid iprot h) =
          MessageBegin ''execute'' REPLY seqid # execute_result_write r @ [MessageEnd, Flush])"
proof (cases "execute_args_read iprot")
  case (Inl e)
  then show ?thesis
    by (simp add: process_execute_def)
next
  case rd: (Inr p)
  obtain args ts1 where p: "p = (args, ts1)"
    by (cases p)
  show ?thesis
  proof (cases "readMessageEnd ts1")
    case (Inl e)
    with rd p show ?thesis
      by (simp add: process_execute_def)
  next
    case ts2: (Inr ts2)
    obtain res h' where hr: "handler_execute handler (query args) h = (res, h')"
      by (cases "handler_execute handler (query args) h")
    show ?thesis
    proof (cases res)
      case (Inr v)
      with rd p ts2 hr
      have "fst (process_execute handler seqid iprot h) =
            MessageBegin ''execute'' REPLY seqid #
            execute_result_write \<lparr>execute_ex = None\<rparr> @ [MessageEnd, Flush]"
        by (simp add: process_execute_def execute_result_init_def write_defs)
      then show ?thesis
        by (intro disjI2 exI [of _ "\<lparr>execute_ex = None\<rparr>"]) simp
    next
      case (Inl e)
      show ?thesis
      proof (cases "\<exists>ex. e = HiveServerExn ex")
        case True
        then obtain ex where ex: "e = HiveServerExn ex"
          by blast
        with Inl rd p ts2 hr
        have "fst (process_execute handler seqid iprot h) =
              MessageBegin ''execute'' REPLY seqid #
              execute_result_write \<lparr>execute_ex = Some ex\<rparr> @ [MessageEnd, Flush]"
          by (simp add: process_execute_def execute_result_init_def write_defs)
        then show ?thesis
          by (intro disjI2 exI [of _ "\<lparr>execute_ex = Some ex\<rparr>"]) simp
      next
        case False
        with Inl rd p ts2 hr show ?thesis
          by (cases e) (simp_all add: process_execute_def)
      qed
    qed
  qed
qed

lemma process_fetchOne_written:
  "fst (process_fetchOne handler seqid iprot h) = [] \<or>
   (\<exists>r. fst (process_fetchOne handler seqid iprot h) =
          MessageBegin ''fetchOne'' REPLY seqid # fetchOne_result_write r @ [MessageEnd, Flush] \<and>
          (fetchOne_success r = None \<or> fetchOne_ex r = None))"
proof (cases "fetchOne_args_read iprot")
  case (Inl e)
  then show ?thesis
    by (simp add: process_fetchOne_def)
next
  case rd: (Inr p)
  obtain args ts1 where p: "p = (args, ts1)"
    by (cases p)
  show ?thesis
  proof (cases "readMessageEnd ts1")
    case (Inl e)
    with rd p show ?thesis
      by (simp add: process_fetchOne_def)
  next
    case ts2: (Inr ts2)
    obtain res h' where hr: "handler_fetchOne handler h = (res, h')"
      by (cases "handler_fetchOne handler h")
    show ?thesis
    proof (cases res)
      case (Inr v)
      with rd p ts2 hr
      have "fst (process_fetchOne handler seqid iprot h) =
            MessageBegin ''fetchOne'' REPLY seqid #
            fetchOne_result_write \<lparr>fetchOne_success = v, fetchOne_ex = None\<rparr> @ [MessageEnd, Flush]"
        by (simp add: process_fetchOne_def fetchOne_result_init_def write_defs)
      then show ?thesis
        by (intro disjI2 exI [of _ "\<lparr>fetchOne_success = v, fetchOne_ex = None\<rparr>"]) simp
    next
      case (Inl e)
      show ?thesis
      proof (cases "\<exists>ex. e = HiveServerExn ex")
        case True
        then obtain ex where ex: "e = HiveServerExn ex"
          by blast
        with Inl rd p ts2 hr
        have "fst (process_fetchOne handler seqid iprot h) =
              MessageBegin ''fetchOne'' REPLY seqid #
              fetchOne_result_write \<lparr>fetchOne_success = None, fetchOne_ex = Some ex\<rparr> @ [MessageEnd, Flush]"
          by (simp add: process_fetchOne_def fetchOne_result_init_def write_defs)
        then show ?thesis
          by (intro disjI2 exI [of _ "\<lparr>fetchOne_success = None, fetchOne_ex = Some ex\<rparr>"]) simp
      next
        case False
        with Inl rd p ts2 hr show ?thesis
          by (cases e) (simp_all add: process_fetchOne_def)
      qed
    qed
  qed
qed

lemma process_fetchN_written:
  "fst (process_fetchN handler seqid iprot h) = [] \<or>
   (\<exists>r. fst (process_fetchN handler seqid iprot h) =
          MessageBegin ''fetchN'' REPLY seqid # fetchN_result_write r @ [MessageEnd, Flush] \<and>
          (fetchN_success r = None \<or> fetchN_ex r = None))"
proof (cases "fetchN_args_read iprot")
  case (Inl e)
  then show ?thesis
    by (simp add: process_fetchN_def)
next
  case rd: (Inr p)
  obtain args ts1 where p: "p = (args, ts1)"
    by (cases p)
  show ?thesis
  proof (cases "readMessageEnd ts1")
    case (Inl e)
    with rd p show ?thesis
      by (simp add: process_fetchN_def)
  next
    case ts2: (Inr ts2)
    obtain res h' where hr: "handler_fetchN handler (numRows args) h = (res, h')"
      by (cases "handler_fetchN handler (numRows args) h")
    show ?thesis
    proof (cases res)
      case (Inr v)
      with rd p ts2 hr
      have "fst (process_fetchN handler seqid iprot h) =
            MessageBegin ''fetchN'' REPLY seqid #
            fetchN_result_write \<lparr>fetchN_success = v, fetchN_ex = None\<rparr> @ [MessageEnd, Flush]"
        by (simp add: process_fetchN_def fetchN_result_init_def write_defs)
      then show ?thesis
        by (intro disjI2 exI [of _ "\<lparr>fetchN_success = v, fetchN_ex = None\<rparr>"]) simp
    next
      case (Inl e)
      show ?thesis
      proof (cases "\<exists>ex. e = HiveServerExn ex")
        case True
        then obtain ex where ex: "e = HiveServerExn ex"
          by blast
        with Inl rd p ts2 hr
        have "fst (process_fetchN handler seqid iprot h) =
              MessageBegin ''fetchN'' REPLY seqid #
              fetchN_result_write \<lparr>fetchN_success = None, fetchN_ex = Some ex\<rparr> @ [MessageEnd, Flush]"
          by (simp add: process_fetchN_def fetchN_result_init_def write_defs)
        then show ?thesis
          by (intro disjI2 exI [of _ "\<lparr>fetchN_success = None, fetchN_ex = Some ex\<rparr>"]) simp
      next
        case False
        with Inl rd p ts2 hr show ?thesis
          by (cases e) (simp_all add: process_fetchN_def)
      qed
    qed
  qed
qed

lemma process_fetchAll_written:
  "fst (process_fetchAll handler seqid iprot h) = [] \<or>
   (\<exists>r. fst (process_fetchAll handler seqid iprot h) =
          MessageBegin ''fetchAll'' REPLY seqid # fetchAll_result_write r @ [MessageEnd, Flush] \<and>
          (fetchAll_success r = None \<or> fetchAll_ex r = None))"
proof (cases "fetchAll_args_read iprot")
  case (Inl e)
  then show ?thesis
    by (simp add: process_fetchAll_def)
next
  case rd: (Inr p)
  obtain args ts1 where p: "p = (args, ts1)"
    by (cases p)
  show ?thesis
  proof (cases "readMessageEnd ts1")
    case (Inl e)
    with rd p show ?thesis
      by (simp add: process_fetchAll_def)
  next
    case ts2: (Inr ts2)
    obtain res h' where hr: "handler_fetchAll handler h = (res, h')"
      by (cases "handler_fetchAll handler h")
    show ?thesis
    proof (cases res)
      case (Inr v)
      with rd p ts2 hr
      have "fst (process_fetchAll handler seqid iprot h) =
            MessageBegin ''fetchAll'' REPLY seqid #
            fetchAll_result_write \<lparr>fetchAll_success = v, fetchAll_ex = None\<rparr> @ [MessageEnd, Flush]"
        by (simp add: process_fetchAll_def fetchAll_result_init_def write_defs)
      then show ?thesis
        by (intro disjI2 exI [of _ "\<lparr>fetchAll_success = v, fetchAll_ex = None\<rparr>"]) simp
    next
      case (Inl e)
      show ?thesis
      proof (cases "\<exists>ex. e = HiveServerExn ex")
        case True
        then obtain ex where ex: "e = HiveServerExn ex"
          by blast
        with Inl rd p ts2 hr
        have "fst (process_fetchAll handler seqid iprot h) =
              MessageBegin ''fetchAll'' REPLY seqid #
              fetchAll_result_write \<lparr>fetchAll_success = None, fetchAll_ex = Some ex\<rparr> @ [MessageEnd, Flush]"
          by (simp add: process_fetchAll_def fetchAll_result_init_def write_defs)
        then show ?thesis
          by (intro disjI2 exI [of _ "\<lparr>fetchAll_success = None, fetchAll_ex = Some ex\<rparr>"]) simp
      next
        case False
        with Inl rd p ts2 hr show ?thesis
          by (cases e) (simp_all add: process_fetchAll_def)
      qed
    qed
  qed
qed

lemma process_getSchema_written:
  "fst (process_getSchema handler seqid iprot h) = [] \<or>
   (\<exists>r. fst (process_getSchema handler seqid iprot h) =
          MessageBegin ''getSchema'' REPLY seqid # getSchema_result_write r @ [MessageEnd, Flush] \<and>
          (getSchema_success r = None \<or> getSchema_ex r = None))"
proof (cases "getSchema_args_read iprot")
  case (Inl e)
  then show ?thesis
    by (simp add: process_getSchema_def)
next
  case rd: (Inr p)
  obtain args ts1 where p: "p = (args, ts1)"
    by (cases p)
  show ?thesis
  proof (cases "readMessageEnd ts1")
    case (Inl e)
    with rd p show ?thesis
      by (simp add: process_getSchema_def)
  next
    case ts2: (Inr ts2)
    obtain res h' where hr: "handler_getSchema handler h = (res, h')"
      by (cases "handler_getSchema handler h")
    show ?thesis
    proof (cases res)
      case (Inr v)
      with rd p ts2 hr
      have "fst (process_getSchema handler seqid iprot h) =
            MessageBegin ''getSchema'' REPLY seqid #
            getSchema_result_write \<lparr>getSchema_success = v, getSchema_ex = None\<rparr> @ [MessageEnd, Flush]"
        by (simp add: process_getSchema_def getSchema_result_init_def write_defs)
      then show ?thesis
        by (intro disjI2 exI [of _ "\<lparr>getSchema_success = v, getSchema_ex = None\<rparr>"]) simp
    next
      case (Inl e)
      show ?thesis
      proof (cases "\<exists>ex. e = HiveServerExn ex")
        case True
        then obtain ex where ex: "e = HiveServerExn ex"
          by blast
        with Inl rd p ts2 hr
        have "fst (process_getSchema handler seqid iprot h) =
              MessageBegin ''getSchema'' REPLY seqid #
              getSchema_result_write \<lparr>getSchema_success = None, getSchema_ex = Some ex\<rparr> @ [MessageEnd, Flush]"
          by (simp add: process_getSchema_def getSchema_result_init_def write_defs)
        then show ?thesis
          by (intro disjI2 exI [of _ "\<lparr>getSchema_success = None, getSchema_ex = Some ex\<rparr>"]) simp
      next
        case False
        with Inl rd p ts2 hr show ?thesis
          by (cases e) (simp_all add: process_getSchema_def)
      qed
    qed
  qed
qed

text \<open>
  C5. Whatever the handler does and whatever the input is, a dispatch method either
  writes nothing or writes one \<^verbatim>\<open>REPLY\<close> message whose result struct has at most one of
  \<^verbatim>\<open>success\<close> and \<^verbatim>\<open>ex\<close> set. (\<^verbatim>\<open>execute_result\<close> has no \<^verbatim>\<open>success\<close> field.)
\<close>

theorem reply_success_xor_ex:
  "(fst (process_execute handler seqid iprot h) = [] \<or>
     (\<exists>r. fst (process_execute handler seqid iprot h) =
            MessageBegin ''execute'' REPLY seqid # execute_result_write r @ [MessageEnd, Flush])) \<and>
    (fst (process_fetchOne handler seqid iprot h) = [] \<or>
     (\<exists>r. fst (process_fetchOne handler seqid iprot h) =
            MessageBegin ''fetchOne'' REPLY seqid # fetchOne_result_write r @ [MessageEnd, Flush] \<and>
          (fetchOne_success r = None \<or> fetchOne_ex r = None))) \<and>
    (fst (process_fetchN handler seqid iprot h) = [] \<or>
     (\<exists>r. fst (process_fetchN handler seqid iprot h) =
            MessageBegin ''fetchN'' REPLY seqid # fetchN_result_write r @ [MessageEnd, Flush] \<and>
          (fetchN_success r = None \<or> fetchN_ex r = None))) \<and>
    (fst (process_fetchAll handler seqid iprot h) = [] \<or>
     (\<exists>r. fst (process_fetchAll handler seqid iprot h) =
            MessageBegin ''fetchAll'' REPLY seqid # fetchAll_result_write r @ [MessageEnd, Flush] \<and>
          (fetchAll_success r = None \<or> fetchAll_ex r = None))) \<and>
    (fst (process_getSchema handler seqid iprot h) = [] \<or>
     (\<exists>r. fst (process_getSchema handler seqid iprot h) =
            MessageBegin ''getSchema'' REPLY seqid # getSchema_result_write r @ [MessageEnd, Flush] \<and>
          (getSchema_success r = None \<or> getSchema_ex r = None)))"
  using process_execute_written [of handler seqid iprot h]
    process_fetchOne_written [of handler seqid iprot h]
    process_fetchN_written [of handler seqid iprot h]
    process_fetchAll_written [of handler seqid iprot h]
    process_getSchema_written [of handler seqid iprot h]
  by (intro conjI)

text \<open>
  C6. A dispatch method catches \<^verbatim>\<open>HiveServerException\<close> and nothing else. When the
  arguments have been read and the handler raises any other exception, that exception
  leaves the dispatch method and nothing has been written; when the handler raises a
  \<^verbatim>\<open>HiveServerException\<close>, the reply is written with the exception in \<^verbatim>\<open>ex\<close>.
\<close>

theorem only_HiveServerException_caught:
  assumes "\<forall>ex. e \<noteq> HiveServerExn ex"
  shows
    "(execute_args_read iprot = Inr (a1, MessageEnd # rest) \<and>
     handler_execute handler (query a1) h = (Inl e, h') \<longrightarrow>
       process_execute handler seqid iprot h = ([], h', Inl e)) \<and>
    (fetchOne_args_read iprot = Inr (a2, MessageEnd # rest) \<and>
     handler_fetchOne handler h = (Inl e, h') \<longrightarrow>
       process_fetchOne handler seqid iprot h = ([], h', Inl e)) \<and>
    (fetchN_args_read iprot = Inr (a3, MessageEnd # rest) \<and>
     handler_fetchN handler (numRows a3) h = (Inl e, h') \<longrightarrow>
       process_fetchN handler seqid iprot h = ([], h', Inl e)) \<and>
    (fetchAll_args_read iprot = Inr (a4, MessageEnd # rest) \<and>
     handler_fetchAll handler h = (Inl e, h') \<longrightarrow>
       process_fetchAll handler seqid iprot h = ([], h', Inl e)) \<and>
    (getSchema_args_read iprot = Inr (a5, MessageEnd # rest) \<and>
     handler_getSchema handler h = (Inl e, h') \<longrightarrow>
       process_getSchema handler seqid iprot h = ([], h', Inl e)) \<and>
    (execute_args_read iprot = Inr (a1, MessageEnd # rest) \<and>
     handler_execute handler (query a1) h = (Inl (HiveServerExn ex), h') \<longrightarrow>
       process_execute handler seqid iprot h =
         (MessageBegin ''execute'' REPLY seqid # execute_result_write \<lparr>execute_ex = Some ex\<rparr> @
          [MessageEnd, Flush], h', Inr rest)) \<and>
    (fetchOne_args_read iprot = Inr (a2, MessageEnd # rest) \<and>
     handler_fetchOne handler h = (Inl (HiveServerExn ex), h') \<longrightarrow>
       process_fetchOne handler seqid iprot h =
         (MessageBegin ''fetchOne'' REPLY seqid # fetchOne_result_write \<lparr>fetchOne_success = None, fetchOne_ex = Some ex\<rparr> @
          [MessageEnd, Flush], h', Inr rest)) \<and>
    (fetchN_args_read iprot = Inr (a3, MessageEnd # rest) \<and>
     handler_fetchN handler (numRows a3) h = (Inl (HiveServerExn ex), h') \<longrightarrow>
       process_fetchN handler seqid iprot h =
         (MessageBegin ''fetchN'' REPLY seqid # fetchN_result_write \<lparr>fetchN_success = None, fetchN_ex = Some ex\<rparr> @
          [MessageEnd, Flush], h', Inr rest)) \<and>
    (fetchAll_args_read iprot = Inr (a4, MessageEnd # rest) \<and>
     handler_fetchAll handler h = (Inl (HiveServerExn ex), h') \<longrightarrow>
       process_fetchAll handler seqid iprot h =
         (MessageBegin ''fetchAll'' REPLY seqid # fetchAll_result_write \<lparr>fetchAll_success = None, fetchAll_ex = Some ex\<rparr> @
          [MessageEnd, Flush], h', Inr rest)) \<and>
    (getSchema_args_read iprot = Inr (a5, MessageEnd # rest) \<and>
     handler_getSchema handler h = (Inl (HiveServerExn ex), h') \<longrightarrow>
       process_getSchema handler seqid iprot h =
         (MessageBegin ''getSchema'' REPLY seqid # getSchema_result_write \<lparr>getSchema_success = None, getSchema_ex = Some ex\<rparr> @
          [MessageEnd, Flush], h', Inr rest))"
  using assms
  by (cases e)
     (auto simp: process_execute_def process_fetchOne_def process_fetchN_def process_fetchAll_def
        process_getSchema_def
        execute_result_init_def fetchOne_result_init_def fetchN_result_init_def
        fetchAll_result_init_def getSchema_result_init_def write_defs)

theorem only_HiveServerException_caught_witness:
  "(\<forall>ex. OtherError ''KeyError'' \<noteq> HiveServerExn ex) \<and>
   process_execute
     \<lparr>handler_execute = (\<lambda>q h. (Inl (OtherError ''KeyError''), Suc h)),
      handler_fetchOne = (\<lambda>h. (Inl (HiveServerExn \<lparr>hse_message = Some ''no query''\<rparr>), Suc h)),
      handler_fetchN = (\<lambda>n h. (Inr (Some []), Suc h)),
      handler_fetchAll = (\<lambda>h. (Inr (Some [''a'']), Suc h)),
      handler_getSchema = (\<lambda>h. (Inr None, Suc h))\<rparr>
     3
     [StructBegin ''execute_args'', FieldBegin ''query'' T_STRING 1, TString ''q'', FieldEnd,
      FieldStop, StructEnd, MessageEnd] (0::nat) =
     ([], 1, Inl (OtherError ''KeyError'')) \<and>
   process_fetchOne
     \<lparr>handler_execute = (\<lambda>q h. (Inl (OtherError ''KeyError''), Suc h)),
      handler_fetchOne = (\<lambda>h. (Inl (HiveServerExn \<lparr>hse_message = Some ''no query''\<rparr>), Suc h)),
      handler_fetchN = (\<lambda>n h. (Inr (Some []), Suc h)),
      handler_fetchAll = (\<lambda>h. (Inr (Some [''a'']), Suc h)),
      handler_getSchema = (\<lambda>h. (Inr None, Suc h))\<rparr>
     3
     [StructBegin ''fetchOne_args'', FieldStop, StructEnd, MessageEnd] (0::nat) =
     ([MessageBegin ''fetchOne'' REPLY 3, StructBegin ''fetchOne_result'',
       FieldBegin ''ex'' T_STRUCT 1,
       StructBegin ''HiveServerException'',
       FieldBegin ''message'' T_STRING 1, TString ''no query'', FieldEnd,
       FieldStop, StructEnd, FieldEnd,
       FieldStop, StructEnd, MessageEnd, Flush], 1, Inr [])"
proof -
  have h: "\<forall>ex. OtherError ''KeyError'' \<noteq> HiveServerExn ex"
    by simp
  have d1: "execute_args_read
              [StructBegin ''execute_args'', FieldBegin ''query'' T_STRING 1, TString ''q'',
               FieldEnd, FieldStop, StructEnd, MessageEnd] =
            Inr (\<lparr>query = Some ''q''\<rparr>, [MessageEnd])"
    by (simp add: execute_args_read_def execute_args_init_def)
  have d2: "fetchOne_args_read [StructBegin ''fetchOne_args'', FieldStop, StructEnd, MessageEnd] =
            Inr (fetchOne_args, [MessageEnd])"
    by (simp add: fetchOne_args_read_def fetchOne_args_init_def)
  note c = only_HiveServerException_caught [OF h,
      where h = "0::nat" and h' = "1::nat" and seqid = 3 and rest = "[]"
        and handler = "\<lparr>handler_execute = (\<lambda>q h. (Inl (OtherError ''KeyError''), Suc h)),
          handler_fetchOne = (\<lambda>h. (Inl (HiveServerExn \<lparr>hse_message = Some ''no query''\<rparr>), Suc h)),
          handler_fetchN = (\<lambda>n h. (Inr (Some []), Suc h)),
          handler_fetchAll = (\<lambda>h. (Inr (Some [''a'']), Suc h)),
          handler_getSchema = (\<lambda>h. (Inr None, Suc h))\<rparr>"]
  show ?thesis
    using h
      c [where iprot = "[StructBegin ''execute_args'', FieldBegin ''query'' T_STRING 1,
                         TString ''q'', FieldEnd, FieldStop, StructEnd, MessageEnd]"
           and ?a1.0 = "\<lparr>query = Some ''q''\<rparr>"]
      c [where iprot = "[StructBegin ''fetchOne_args'', FieldStop, StructEnd, MessageEnd]"
           and ?a2.0 = fetchOne_args and ex = "\<lparr>hse_message = Some ''no query''\<rparr>"]
    by (simp add: d1 d2 fetchOne_result_write_def HiveServerException_write_def write_defs)
qed

end
